theory Spec2Isabelle
  imports Complex_Main
begin

section \<open>Numbers and time\<close>

text \<open>
  The controllers compute on C++ \<^verbatim>\<open>double\<close>. A value is either the not-a-number
  \<open>NaN\<close>, which \<^verbatim>\<open>std::isnan\<close> detects, or a finite number \<open>Fin r\<close>. Finite values
  are idealised as reals (no rounding, no overflow), infinities are not represented, and
  a division by zero gives \<open>NaN\<close>. Every operation propagates \<open>NaN\<close> and every
  comparison with \<open>NaN\<close> is false, as in IEEE 754.
\<close>

datatype double = NaN | Fin real

fun isnan :: "double \<Rightarrow> bool" where
  "isnan NaN = True"
| "isnan (Fin r) = False"

instantiation double :: "{zero,one,plus,minus,uminus,times,inverse,ord}"
begin

definition zero_double :: double where
  "zero_double = Fin 0"

definition one_double :: double where
  "one_double = Fin 1"

fun plus_double :: "double \<Rightarrow> double \<Rightarrow> double" where
  "plus_double (Fin a) (Fin b) = Fin (a + b)"
| "plus_double _ _ = NaN"

fun minus_double :: "double \<Rightarrow> double \<Rightarrow> double" where
  "minus_double (Fin a) (Fin b) = Fin (a - b)"
| "minus_double _ _ = NaN"

fun uminus_double :: "double \<Rightarrow> double" where
  "uminus_double (Fin a) = Fin (- a)"
| "uminus_double NaN = NaN"

fun times_double :: "double \<Rightarrow> double \<Rightarrow> double" where
  "times_double (Fin a) (Fin b) = Fin (a * b)"
| "times_double _ _ = NaN"

fun divide_double :: "double \<Rightarrow> double \<Rightarrow> double" where
  "divide_double (Fin a) (Fin b) = (if b = 0 then NaN else Fin (a / b))"
| "divide_double _ _ = NaN"

definition inverse_double :: "double \<Rightarrow> double" where
  "inverse_double d = (case d of Fin b \<Rightarrow> (if b = 0 then NaN else Fin (1 / b)) | NaN \<Rightarrow> NaN)"

fun less_double :: "double \<Rightarrow> double \<Rightarrow> bool" where
  "less_double (Fin a) (Fin b) = (a < b)"
| "less_double _ _ = False"

fun less_eq_double :: "double \<Rightarrow> double \<Rightarrow> bool" where
  "less_eq_double (Fin a) (Fin b) = (a \<le> b)"
| "less_eq_double _ _ = False"

instance ..

end

fun fabs :: "double \<Rightarrow> double" where
  "fabs (Fin a) = Fin \<bar>a\<bar>"
| "fabs NaN = NaN"

fun atan :: "double \<Rightarrow> double" where
  "atan (Fin a) = Fin (arctan a)"
| "atan NaN = NaN"

fun sqrt_double :: "double \<Rightarrow> double" where
  "sqrt_double (Fin a) = (if a < 0 then NaN else Fin (sqrt a))"
| "sqrt_double NaN = NaN"

text \<open>\<^verbatim>\<open>pow(x, 2)\<close>.\<close>

fun pow2 :: "double \<Rightarrow> double" where
  "pow2 (Fin a) = Fin (a * a)"
| "pow2 NaN = NaN"

text \<open>
  \<^verbatim>\<open>copysign(1.0, x)\<close>. The reals have no negative zero, so a zero counts as positive;
  the sign taken from a \<open>NaN\<close> does not matter where the controllers use it, because
  the product it enters is \<open>NaN\<close> anyway.
\<close>

fun copysign1 :: "double \<Rightarrow> double" where
  "copysign1 (Fin a) = (if a < 0 then Fin (- 1) else Fin 1)"
| "copysign1 NaN = Fin 1"

text \<open>
  \<^verbatim>\<open>ros::Time\<close> and \<^verbatim>\<open>ros::Duration\<close> are integer counts of nanoseconds;
  \<^verbatim>\<open>toSec\<close> turns a duration into seconds.
\<close>

type_synonym Time = int
type_synonym Duration = int

definition toSec :: "Duration \<Rightarrow> double" where
  "toSec d = Fin (real_of_int d / 1000000000)"

section \<open>Joints, commands and collaborators\<close>

text \<open>
  A joint handle gives access to one actuator: \<^verbatim>\<open>getPosition()\<close> and
  \<^verbatim>\<open>getVelocity()\<close> read its sensors, \<^verbatim>\<open>setCommand(v)\<close> stores its setpoint \<open>cmd\<close>.
\<close>

record JointHandle =
  name :: string
  position :: double
  velocity :: double
  cmd :: double

definition setCommand :: "double \<Rightarrow> JointHandle \<Rightarrow> JointHandle" where
  "setCommand v h = h\<lparr>cmd := v\<rparr>"

text \<open>
  What a call does to the outside world is recorded as a list of effects, in the order
  of the calls: a setpoint written to a joint of one of the four joint vectors, and a
  message handed to the odometry or the transform publisher.
\<close>

datatype joint_ref = LeftWheel nat | RightWheel nat | LeftSteering nat | RightSteering nat

record odom_msg =
  odom_stamp :: Time
  odom_x :: double
  odom_y :: double
  odom_yaw :: double
  odom_linear :: double
  odom_angular :: double

record tf_msg =
  tf_stamp :: Time
  tf_x :: double
  tf_y :: double
  tf_yaw :: double

datatype effect =
  SetCommand joint_ref double
| PublishOdom odom_msg
| PublishTf tf_msg

text \<open>
  The command structures of the two controllers: the ackermann controller's has the
  fields \<open>lin\<close>, \<open>ang\<close> and \<open>stamp\<close>; the four-wheel-steering controller's has the two
  axle steering angles as well. A default-constructed command is all zero.
\<close>

record Commands =
  lin :: double
  ang :: double
  stamp :: Time

record Commands4 = Commands +
  front_steering :: double
  rear_steering :: double

definition Commands_default :: Commands where
  "Commands_default = \<lparr>lin = Fin 0, ang = Fin 0, stamp = 0\<rparr>"

definition Commands4_default :: Commands4 where
  "Commands4_default =
     \<lparr>lin = Fin 0, ang = Fin 0, stamp = 0, front_steering = Fin 0, rear_steering = Fin 0\<rparr>"

text \<open>
  The classes \<^verbatim>\<open>Odometry\<close> and \<^verbatim>\<open>SpeedLimiter\<close> are collaborators whose sources are
  not part of the two controller files. They are parameters of the model: \<open>'o\<close> is the
  state of the odometry object, and every result below holds for whatever these
  functions compute. \<open>limit v v0 v1 dt\<close> is the value that
  \<^verbatim>\<open>SpeedLimiter::limit(v, v0, v1, dt)\<close> leaves in its reference argument \<open>v\<close>.
\<close>

record 'o collaborators =
  Odometry_init :: "'o \<Rightarrow> Time \<Rightarrow> 'o"
  Odometry_update :: "'o \<Rightarrow> double \<Rightarrow> double \<Rightarrow> double \<Rightarrow> Time \<Rightarrow> 'o"
  Odometry_updateOpenLoop :: "'o \<Rightarrow> double \<Rightarrow> double \<Rightarrow> Time \<Rightarrow> 'o"
  getX :: "'o \<Rightarrow> double"
  getY :: "'o \<Rightarrow> double"
  getHeading :: "'o \<Rightarrow> double"
  getLinear :: "'o \<Rightarrow> double"
  getAngular :: "'o \<Rightarrow> double"
  limiter_lin_limit :: "double \<Rightarrow> double \<Rightarrow> double \<Rightarrow> double \<Rightarrow> double"
  limiter_ang_limit :: "double \<Rightarrow> double \<Rightarrow> double \<Rightarrow> double \<Rightarrow> double"

text \<open>The life cycle of \<^verbatim>\<open>controller_interface::ControllerBase\<close>.\<close>

datatype lifecycle = CONSTRUCTED | INITIALIZED | RUNNING | STOPPED

section \<open>The state shared by both controllers\<close>

text \<open>
  The members the two classes have in common; \<open>'c\<close> is the controller's command
  structure. \<open>command\<close> is the content of the realtime buffer \<^verbatim>\<open>command_\<close>, which
  \<^verbatim>\<open>readFromRT\<close> returns and \<^verbatim>\<open>writeFromNonRT\<close> replaces.
\<close>

record ('o, 'c) controller =
  state :: lifecycle
  open_loop :: bool
  command_struct :: 'c
  command :: 'c
  wheel_separation :: double
  wheel_radius :: double
  cmd_vel_timeout :: double
  enable_odom_tf :: bool
  publish_period :: Duration
  last_state_publish_time :: Time
  last0_cmd :: 'c
  last1_cmd :: 'c
  left_wheel_joints :: "JointHandle list"
  right_wheel_joints :: "JointHandle list"
  left_steering_joints :: "JointHandle list"
  right_steering_joints :: "JointHandle list"
  wheel_joints_size :: nat
  steering_joints_size :: nat
  odometry :: 'o

definition isRunning :: "('o, 'c, 'z) controller_scheme \<Rightarrow> bool" where
  "isRunning s = (state s = RUNNING)"


section \<open>Code that both controllers have verbatim\<close>

text \<open>
  The closed-loop branch of \<^verbatim>\<open>update\<close> reads, for each wheel pair, the two positions
  and then the two velocities, and returns from \<^verbatim>\<open>update\<close> at the first \<open>NaN\<close>;
  \<open>None\<close> is that return. The four sums start at zero.
\<close>

fun sum_wheel_readings ::
  "JointHandle list \<Rightarrow> JointHandle list \<Rightarrow> nat list \<Rightarrow>
   double \<times> double \<times> double \<times> double \<Rightarrow> (double \<times> double \<times> double \<times> double) option" where
  "sum_wheel_readings L R [] acc = Some acc"
| "sum_wheel_readings L R (i # is) (left_pos, right_pos, left_vel, right_vel) =
     (let lp = position (L ! i); rp = position (R ! i) in
      if isnan lp \<or> isnan rp then None
      else
        let ls = velocity (L ! i); rs = velocity (R ! i) in
        if isnan ls \<or> isnan rs then None
        else sum_wheel_readings L R is
               (left_pos + lp, right_pos + rp, left_vel + ls, right_vel + rs))"

text \<open>
  The averages over the wheel pairs and then over the two sides: the position and the
  velocity that are handed to the odometry.
\<close>

definition wheel_feedback :: "('o, 'c, 'z) controller_scheme \<Rightarrow> (double \<times> double) option" where
  "wheel_feedback s =
     (case sum_wheel_readings (left_wheel_joints s) (right_wheel_joints s)
             [0..<wheel_joints_size s] (Fin 0, Fin 0, Fin 0, Fin 0) of
        None \<Rightarrow> None
      | Some (left_pos, right_pos, left_vel, right_vel) \<Rightarrow>
          (let n = Fin (real (wheel_joints_size s));
               left_pos = left_pos / n;
               right_pos = right_pos / n;
               left_vel = left_vel / n;
               right_vel = right_vel / n
           in Some ((left_pos + right_pos) / Fin 2, (left_vel + right_vel) / Fin 2)))"

text \<open>
  The block \<^verbatim>\<open>// Publish odometry message\<close>. The results of the two \<^verbatim>\<open>trylock()\<close>
  calls are inputs; the orientation is carried as the yaw it is built from.
\<close>

definition publish_odometry ::
  "'o collaborators \<Rightarrow> Time \<Rightarrow> bool \<Rightarrow> bool \<Rightarrow> ('o, 'c, 'z) controller_scheme \<Rightarrow>
   ('o, 'c, 'z) controller_scheme \<times> effect list" where
  "publish_odometry env time odom_trylock tf_trylock s =
     (if last_state_publish_time s + publish_period s < time then
        (let s1 = s\<lparr>last_state_publish_time := last_state_publish_time s + publish_period s\<rparr>;
             orientation = getHeading env (odometry s1);
             odom = (if odom_trylock then
                       [PublishOdom \<lparr>odom_stamp = time, odom_x = getX env (odometry s1),
                          odom_y = getY env (odometry s1), odom_yaw = orientation,
                          odom_linear = getLinear env (odometry s1),
                          odom_angular = getAngular env (odometry s1)\<rparr>]
                     else []);
             tf = (if enable_odom_tf s1 \<and> tf_trylock then
                     [PublishTf \<lparr>tf_stamp = time, tf_x = getX env (odometry s1),
                        tf_y = getY env (odometry s1), tf_yaw = orientation\<rparr>]
                   else [])
         in (s1, odom @ tf))
      else (s, []))"

text \<open>
  The loop \<^verbatim>\<open>for (i = 0; i < wheel_joints_size_; ++i)\<close> that writes one setpoint to
  each left wheel and one to each right wheel, and the same loop over the steering
  joints; the list is the sequence of indices the loop runs through.
\<close>

primrec set_wheel_commands ::
  "double \<Rightarrow> double \<Rightarrow> nat list \<Rightarrow> ('o, 'c, 'z) controller_scheme \<Rightarrow>
   ('o, 'c, 'z) controller_scheme \<times> effect list" where
  "set_wheel_commands vl vr [] s = (s, [])"
| "set_wheel_commands vl vr (i # is) s =
     (let s1 = s\<lparr>left_wheel_joints :=
                  (left_wheel_joints s)[i := setCommand vl (left_wheel_joints s ! i)]\<rparr>;
          s2 = s1\<lparr>right_wheel_joints :=
                  (right_wheel_joints s1)[i := setCommand vr (right_wheel_joints s1 ! i)]\<rparr>;
          r = set_wheel_commands vl vr is s2
      in (fst r, SetCommand (LeftWheel i) vl # SetCommand (RightWheel i) vr # snd r))"

primrec set_steering_commands ::
  "double \<Rightarrow> double \<Rightarrow> nat list \<Rightarrow> ('o, 'c, 'z) controller_scheme \<Rightarrow>
   ('o, 'c, 'z) controller_scheme \<times> effect list" where
  "set_steering_commands pl pr [] s = (s, [])"
| "set_steering_commands pl pr (i # is) s =
     (let s1 = s\<lparr>left_steering_joints :=
                  (left_steering_joints s)[i := setCommand pl (left_steering_joints s ! i)]\<rparr>;
          s2 = s1\<lparr>right_steering_joints :=
                  (right_steering_joints s1)[i := setCommand pr (right_steering_joints s1 ! i)]\<rparr>;
          r = set_steering_commands pl pr is s2
      in (fst r, SetCommand (LeftSteering i) pl # SetCommand (RightSteering i) pr # snd r))"

definition brake ::
  "('o, 'c, 'z) controller_scheme \<Rightarrow> ('o, 'c, 'z) controller_scheme \<times> effect list" where
  "brake s =
     (let vel = Fin 0;
          r1 = set_wheel_commands vel vel [0..<wheel_joints_size s] s;
          pos = Fin 0;
          r2 = set_steering_commands pos pos [0..<steering_joints_size (fst r1)] (fst r1)
      in (fst r2, snd r1 @ snd r2))"

text \<open>
  \<^verbatim>\<open>starting\<close> brakes, registers the starting time and initialises the odometry;
  \<^verbatim>\<open>stopping\<close> brakes.
\<close>

definition starting ::
  "'o collaborators \<Rightarrow> Time \<Rightarrow> ('o, 'c, 'z) controller_scheme \<Rightarrow>
   ('o, 'c, 'z) controller_scheme \<times> effect list" where
  "starting env time s =
     (let r = brake s;
          s1 = (fst r)\<lparr>last_state_publish_time := time\<rparr>;
          s2 = s1\<lparr>odometry := Odometry_init env (odometry s1) time\<rparr>
      in (s2, snd r))"

definition stopping ::
  "('o, 'c, 'z) controller_scheme \<Rightarrow> ('o, 'c, 'z) controller_scheme \<times> effect list" where
  "stopping s = brake s"

section \<open>Initialisation: parameters, robot description, joint handles\<close>

text \<open>
  A node handle is the view of the parameter server under a namespace: a partial map
  from parameter names to \<^verbatim>\<open>XmlRpcValue\<close>s. \<^verbatim>\<open>getParam\<close> fails when the parameter is
  absent or of another type (an integer is accepted for a \<^verbatim>\<open>double\<close>); \<^verbatim>\<open>param\<close>
  then takes the default.
\<close>

datatype XmlRpcValue =
  TypeInvalid
| TypeBoolean bool
| TypeInt int
| TypeDouble double
| TypeString string
| TypeArray "XmlRpcValue list"
| TypeStruct

type_synonym NodeHandle = "string \<Rightarrow> XmlRpcValue option"

definition getParam_double :: "NodeHandle \<Rightarrow> string \<Rightarrow> double option" where
  "getParam_double nh key =
     (case nh key of
        Some (TypeDouble d) \<Rightarrow> Some d
      | Some (TypeInt i) \<Rightarrow> Some (Fin (real_of_int i))
      | _ \<Rightarrow> None)"

definition getParam_bool :: "NodeHandle \<Rightarrow> string \<Rightarrow> bool option" where
  "getParam_bool nh key = (case nh key of Some (TypeBoolean b) \<Rightarrow> Some b | _ \<Rightarrow> None)"

definition getParam_string :: "NodeHandle \<Rightarrow> string \<Rightarrow> string option" where
  "getParam_string nh key = (case nh key of Some (TypeString str) \<Rightarrow> Some str | _ \<Rightarrow> None)"

definition param_double :: "NodeHandle \<Rightarrow> string \<Rightarrow> double \<Rightarrow> double" where
  "param_double nh key default_val =
     (case getParam_double nh key of Some d \<Rightarrow> d | None \<Rightarrow> default_val)"

definition param_bool :: "NodeHandle \<Rightarrow> string \<Rightarrow> bool \<Rightarrow> bool" where
  "param_bool nh key default_val =
     (case getParam_bool nh key of Some b \<Rightarrow> b | None \<Rightarrow> default_val)"

fun isTypeString :: "XmlRpcValue \<Rightarrow> bool" where
  "isTypeString (TypeString str) = True"
| "isTypeString _ = False"

fun isTypeDouble :: "XmlRpcValue \<Rightarrow> bool" where
  "isTypeDouble (TypeDouble d) = True"
| "isTypeDouble _ = False"

fun string_of :: "XmlRpcValue \<Rightarrow> string" where
  "string_of (TypeString str) = str"
| "string_of _ = []"

text \<open>
  \<^verbatim>\<open>getWheelNames\<close>, the same in both controllers: \<open>None\<close> is the result \<^verbatim>\<open>false\<close>,
  \<open>Some names\<close> the result \<^verbatim>\<open>true\<close> with the content of the output vector, which
  holds \<open>wheel_names\<close> at the call.
\<close>

definition getWheelNames :: "NodeHandle \<Rightarrow> string \<Rightarrow> string list \<Rightarrow> string list option" where
  "getWheelNames controller_nh wheel_param wheel_names =
     (case controller_nh wheel_param of
        None \<Rightarrow> None
      | Some wheel_list \<Rightarrow>
          (case wheel_list of
             TypeArray vs \<Rightarrow>
               (if length vs = 0 then None
                else if \<not> list_all isTypeString vs then None
                else Some (map string_of vs))
           | TypeString str \<Rightarrow> Some (wheel_names @ [str])
           | _ \<Rightarrow> None))"

text \<open>
  A call returns a boolean, throws an exception, or ends the process (a failed
  \<^verbatim>\<open>ROS_ASSERT\<close>, a null pointer dereferenced).
\<close>

datatype outcome = Returns bool | Throws | Aborts

text \<open>
  The robot description, as far as the controllers look at it. \<^verbatim>\<open>urdf::parseURDF\<close> and
  the conversion of seconds to a \<^verbatim>\<open>ros::Duration\<close> are library functions and
  parameters of the model; a lookup in the model that finds nothing is a null pointer.
\<close>

datatype urdf_Geometry = SPHERE | BOX | CYLINDER double | MESH

record urdf_Joint =
  parent_to_joint_origin_position :: "double \<times> double \<times> double"
  child_link_name :: string

record urdf_Link =
  link_name :: string
  collision_geometry :: "urdf_Geometry option option"

record urdf_Model =
  getJoint :: "string \<Rightarrow> urdf_Joint option"
  getLink :: "string \<Rightarrow> urdf_Link option"

record library =
  parseURDF :: "string \<Rightarrow> urdf_Model option"
  Duration_fromSec :: "double \<Rightarrow> Duration"

definition euclideanOfVectors :: "double \<times> double \<times> double \<Rightarrow> double \<times> double \<times> double \<Rightarrow> double" where
  "euclideanOfVectors vec1 vec2 =
     (case vec1 of (x1, y1, z1) \<Rightarrow> case vec2 of (x2, y2, z2) \<Rightarrow>
        sqrt_double (pow2 (x1 - x2) + pow2 (y1 - y2) + pow2 (z1 - z2)))"

fun isCylinder :: "urdf_Link option \<Rightarrow> bool" where
  "isCylinder None = False"
| "isCylinder (Some link) =
     (case collision_geometry link of
        None \<Rightarrow> False
      | Some None \<Rightarrow> False
      | Some (Some (CYLINDER r)) \<Rightarrow> True
      | Some (Some _) \<Rightarrow> False)"

text \<open>
  \<^verbatim>\<open>getWheelRadius\<close>: \<open>Inr r\<close> is the result \<^verbatim>\<open>true\<close> with the radius stored. The error
  message of the failing branch reads the link's name, which dereferences a null
  pointer when there is no link.
\<close>

definition getWheelRadius :: "urdf_Link option \<Rightarrow> outcome + double" where
  "getWheelRadius wheel_link =
     (if \<not> isCylinder wheel_link then
        (case wheel_link of None \<Rightarrow> Inl Aborts | Some link \<Rightarrow> Inl (Returns False))
      else
        (case wheel_link of
           Some link \<Rightarrow>
             (case collision_geometry link of
                Some (Some (CYLINDER r)) \<Rightarrow> Inr r
              | _ \<Rightarrow> Inl Aborts)
         | None \<Rightarrow> Inl Aborts))"

definition setOdomParamsFromUrdf ::
  "library \<Rightarrow> NodeHandle \<Rightarrow> string \<Rightarrow> string \<Rightarrow> bool \<Rightarrow> bool \<Rightarrow>
   ('o, 'c, 'z) controller_scheme \<Rightarrow> outcome \<times> ('o, 'c, 'z) controller_scheme" where
  "setOdomParamsFromUrdf lib root_nh left_wheel_name right_wheel_name
       lookup_wheel_separation lookup_wheel_radius s =
     (if \<not> (lookup_wheel_separation \<or> lookup_wheel_radius) then (Returns True, s)
      else
        (case getParam_string root_nh ''robot_description'' of
           None \<Rightarrow> (Returns False, s)
         | Some robot_model_str \<Rightarrow>
             (case parseURDF lib robot_model_str of
                None \<Rightarrow> (Aborts, s)
              | Some model \<Rightarrow>
                  (let left_wheel_joint = getJoint model left_wheel_name;
                       right_wheel_joint = getJoint model right_wheel_name;
                       sep = (if lookup_wheel_separation then
                                (case left_wheel_joint of
                                   None \<Rightarrow> Inl (Returns False)
                                 | Some lj \<Rightarrow>
                                     (case right_wheel_joint of
                                        None \<Rightarrow> Inl (Returns False)
                                      | Some rj \<Rightarrow>
                                          Inr (s\<lparr>wheel_separation :=
                                                 euclideanOfVectors
                                                   (parent_to_joint_origin_position lj)
                                                   (parent_to_joint_origin_position rj)\<rparr>)))
                              else Inr s)
                   in case sep of
                        Inl r \<Rightarrow> (r, s)
                      | Inr s1 \<Rightarrow>
                          (if lookup_wheel_radius then
                             (case left_wheel_joint of
                                None \<Rightarrow> (Aborts, s1)
                              | Some lj \<Rightarrow>
                                  (case getWheelRadius (getLink model (child_link_name lj)) of
                                     Inl r \<Rightarrow> (r, s1)
                                   | Inr radius \<Rightarrow> (Returns True, s1\<lparr>wheel_radius := radius\<rparr>)))
                           else (Returns True, s1))))))"

text \<open>
  \<^verbatim>\<open>setOdomPubFields\<close> asserts that both covariance parameters are arrays of six
  doubles; the publishers it then creates are not part of the controller state here.
  The result says whether the assertions hold.
\<close>

definition covariance_ok :: "NodeHandle \<Rightarrow> string \<Rightarrow> bool" where
  "covariance_ok controller_nh key =
     (case controller_nh key of
        Some (TypeArray vs) \<Rightarrow> length vs = 6 \<and> list_all isTypeDouble vs
      | _ \<Rightarrow> False)"

definition setOdomPubFields :: "NodeHandle \<Rightarrow> NodeHandle \<Rightarrow> bool" where
  "setOdomPubFields root_nh controller_nh =
     (covariance_ok controller_nh ''pose_covariance_diagonal'' \<and>
      covariance_ok controller_nh ''twist_covariance_diagonal'')"

text \<open>
  A joint interface of the hardware: the joints it has registered and the set of
  resources claimed so far. \<^verbatim>\<open>getHandle\<close> claims the joint and returns its handle, or
  throws (\<open>None\<close>) when the joint is not registered.
\<close>

record JointInterface =
  registered :: "string \<Rightarrow> JointHandle option"
  claims :: "string set"

definition clearClaims :: "JointInterface \<Rightarrow> JointInterface" where
  "clearClaims hw = hw\<lparr>claims := {}\<rparr>"

definition getHandle :: "JointInterface \<Rightarrow> string \<Rightarrow> (JointHandle \<times> JointInterface) option" where
  "getHandle hw nm =
     (case registered hw nm of
        None \<Rightarrow> None
      | Some h \<Rightarrow> Some (h, hw\<lparr>claims := insert nm (claims hw)\<rparr>))"

text \<open>A default-constructed handle, as \<^verbatim>\<open>resize\<close> makes them.\<close>

definition JointHandle_default :: JointHandle where
  "JointHandle_default = \<lparr>name = [], position = Fin 0, velocity = Fin 0, cmd = Fin 0\<rparr>"

text \<open>
  The loop \<^verbatim>\<open>// Get the joint object to use in the realtime loop\<close>; the boolean is
  false when a \<^verbatim>\<open>getHandle\<close> has thrown.
\<close>

primrec get_wheel_handles ::
  "string list \<Rightarrow> string list \<Rightarrow> nat list \<Rightarrow> JointInterface \<Rightarrow> ('o, 'c, 'z) controller_scheme \<Rightarrow>
   bool \<times> ('o, 'c, 'z) controller_scheme \<times> JointInterface" where
  "get_wheel_handles left_wheel_names right_wheel_names [] hw_vel s = (True, s, hw_vel)"
| "get_wheel_handles left_wheel_names right_wheel_names (i # is) hw_vel s =
     (case getHandle hw_vel (left_wheel_names ! i) of
        None \<Rightarrow> (False, s, hw_vel)
      | Some (hl, hw1) \<Rightarrow>
          (let s1 = s\<lparr>left_wheel_joints := (left_wheel_joints s)[i := hl]\<rparr> in
           case getHandle hw1 (right_wheel_names ! i) of
             None \<Rightarrow> (False, s1, hw1)
           | Some (hr, hw2) \<Rightarrow>
               get_wheel_handles left_wheel_names right_wheel_names is hw2
                 (s1\<lparr>right_wheel_joints := (right_wheel_joints s1)[i := hr]\<rparr>)))"

primrec get_steering_handles ::
  "string list \<Rightarrow> string list \<Rightarrow> nat list \<Rightarrow> JointInterface \<Rightarrow> ('o, 'c, 'z) controller_scheme \<Rightarrow>
   bool \<times> ('o, 'c, 'z) controller_scheme \<times> JointInterface" where
  "get_steering_handles left_steering_names right_steering_names [] hw s = (True, s, hw)"
| "get_steering_handles left_steering_names right_steering_names (i # is) hw s =
     (case getHandle hw (left_steering_names ! i) of
        None \<Rightarrow> (False, s, hw)
      | Some (hl, hw1) \<Rightarrow>
          (let s1 = s\<lparr>left_steering_joints := (left_steering_joints s)[i := hl]\<rparr> in
           case getHandle hw1 (right_steering_names ! i) of
             None \<Rightarrow> (False, s1, hw1)
           | Some (hr, hw2) \<Rightarrow>
               get_steering_handles left_steering_names right_steering_names is hw2
                 (s1\<lparr>right_steering_joints := (right_steering_joints s1)[i := hr]\<rparr>)))"

text \<open>
  The parameters that \<^verbatim>\<open>init\<close> reads into members of the controller itself. The
  parameters under \<^verbatim>\<open>linear/x\<close> and \<^verbatim>\<open>angular/z\<close>, the rolling window size and
  \<^verbatim>\<open>setWheelParams\<close> configure the limiter and odometry objects, which are the
  collaborators above.
\<close>

definition read_common_params ::
  "library \<Rightarrow> NodeHandle \<Rightarrow> ('o, 'c, 'z) controller_scheme \<Rightarrow> ('o, 'c, 'z) controller_scheme" where
  "read_common_params lib controller_nh s =
     (let publish_rate = param_double controller_nh ''publish_rate'' (Fin 50);
          s1 = s\<lparr>publish_period := Duration_fromSec lib (Fin 1 / publish_rate)\<rparr>;
          s2 = s1\<lparr>open_loop := param_bool controller_nh ''open_loop'' (open_loop s1)\<rparr>
      in s2)"

definition read_cmd_params ::
  "NodeHandle \<Rightarrow> ('o, 'c, 'z) controller_scheme \<Rightarrow> ('o, 'c, 'z) controller_scheme" where
  "read_cmd_params controller_nh s =
     (let s1 = s\<lparr>cmd_vel_timeout := param_double controller_nh ''cmd_vel_timeout'' (cmd_vel_timeout s)\<rparr>;
          s2 = s1\<lparr>enable_odom_tf := param_bool controller_nh ''enable_odom_tf'' (enable_odom_tf s1)\<rparr>
      in s2)"

text \<open>
  The assignment of \<^verbatim>\<open>wheel_joints_size_\<close> and the two \<^verbatim>\<open>resize\<close> calls that follow
  the check of the wheel names, and the same for the steering names.
\<close>

definition resize_wheel_joints ::
  "nat \<Rightarrow> ('o, 'c, 'z) controller_scheme \<Rightarrow> ('o, 'c, 'z) controller_scheme" where
  "resize_wheel_joints n s =
     (let s1 = s\<lparr>wheel_joints_size := n\<rparr>;
          s2 = s1\<lparr>left_wheel_joints :=
                  take (wheel_joints_size s1) (left_wheel_joints s1) @
                  replicate (wheel_joints_size s1 - length (left_wheel_joints s1)) JointHandle_default\<rparr>;
          s3 = s2\<lparr>right_wheel_joints :=
                  take (wheel_joints_size s2) (right_wheel_joints s2) @
                  replicate (wheel_joints_size s2 - length (right_wheel_joints s2)) JointHandle_default\<rparr>
      in s3)"

definition resize_steering_joints ::
  "nat \<Rightarrow> ('o, 'c, 'z) controller_scheme \<Rightarrow> ('o, 'c, 'z) controller_scheme" where
  "resize_steering_joints n s =
     (let s1 = s\<lparr>steering_joints_size := n\<rparr>;
          s2 = s1\<lparr>left_steering_joints :=
                  take (steering_joints_size s1) (left_steering_joints s1) @
                  replicate (steering_joints_size s1 - length (left_steering_joints s1)) JointHandle_default\<rparr>;
          s3 = s2\<lparr>right_steering_joints :=
                  take (steering_joints_size s2) (right_steering_joints s2) @
                  replicate (steering_joints_size s2 - length (right_steering_joints s2)) JointHandle_default\<rparr>
      in s3)"

section \<open>The ackermann controller\<close>

record 'o AckermannController = "('o, Commands) controller" +
  wheel_separation_multiplier :: double
  wheel_radius_multiplier :: double

text \<open>
  \<^verbatim>\<open>AckermannController::update\<close>, in the three parts its comments name. The first
  part, \<^verbatim>\<open>COMPUTE ... ODOMETRY\<close>, is \<open>None\<close> when a \<open>NaN\<close> reading makes \<^verbatim>\<open>update\<close>
  return.
\<close>

definition ack_update_odometry ::
  "'o collaborators \<Rightarrow> Time \<Rightarrow> 'o AckermannController \<Rightarrow> 'o AckermannController option" where
  "ack_update_odometry env time s =
     (if open_loop s then
        Some (s\<lparr>odometry := Odometry_updateOpenLoop env (odometry s)
                               (lin (last0_cmd s)) (ang (last0_cmd s)) time\<rparr>)
      else
        (case wheel_feedback s of
           None \<Rightarrow> None
         | Some (linear_pos, linear_vel) \<Rightarrow>
             (let left_steering_pos =
                    (if length (left_steering_joints s) > 0
                     then position (left_steering_joints s ! 0) else Fin 0);
                  right_steering_pos =
                    (if length (left_steering_joints s) > 0
                     then position (right_steering_joints s ! 0) else Fin 0);
                  steering_pos = (left_steering_pos + right_steering_pos) / Fin 2
              in Some (s\<lparr>odometry := Odometry_update env (odometry s)
                                         linear_pos linear_vel steering_pos time\<rparr>))))"

text \<open>The command of the cycle after \<^verbatim>\<open>// Brake if cmd_vel has timeout\<close>.\<close>

definition ack_curr_cmd :: "Time \<Rightarrow> 'o AckermannController \<Rightarrow> Commands" where
  "ack_curr_cmd time s =
     (let curr_cmd = command s;
          dt = toSec (time - stamp curr_cmd)
      in if dt > cmd_vel_timeout s then curr_cmd\<lparr>lin := Fin 0, ang := Fin 0\<rparr>
         else curr_cmd)"

text \<open>The command after \<^verbatim>\<open>// Limit velocities and accelerations\<close>.\<close>

definition ack_limited_cmd ::
  "'o collaborators \<Rightarrow> Time \<Rightarrow> Duration \<Rightarrow> 'o AckermannController \<Rightarrow> Commands" where
  "ack_limited_cmd env time period s =
     (let curr_cmd = ack_curr_cmd time s;
          cmd_dt = toSec period
      in curr_cmd
           \<lparr>lin := limiter_lin_limit env (lin curr_cmd) (lin (last0_cmd s)) (lin (last1_cmd s)) cmd_dt,
            ang := limiter_ang_limit env (ang curr_cmd) (ang (last0_cmd s)) (ang (last1_cmd s)) cmd_dt\<rparr>)"

definition ack_vel_left :: "double \<Rightarrow> double \<Rightarrow> double \<Rightarrow> double \<Rightarrow> double" where
  "ack_vel_left l a ws wr = (l - a * ws / Fin 2) / wr"

definition ack_vel_right :: "double \<Rightarrow> double \<Rightarrow> double \<Rightarrow> double \<Rightarrow> double" where
  "ack_vel_right l a ws wr = (l + a * ws / Fin 2) / wr"

definition ack_move_robot ::
  "'o collaborators \<Rightarrow> Time \<Rightarrow> Duration \<Rightarrow> 'o AckermannController \<Rightarrow>
   'o AckermannController \<times> effect list" where
  "ack_move_robot env time period s =
     (let curr_cmd = ack_limited_cmd env time period s;
          s1 = s\<lparr>last1_cmd := last0_cmd s\<rparr>;
          s2 = s1\<lparr>last0_cmd := curr_cmd\<rparr>;
          ws = wheel_separation_multiplier s2 * wheel_separation s2;
          wr = wheel_radius_multiplier s2 * wheel_radius s2;
          vel_left = ack_vel_left (lin curr_cmd) (ang curr_cmd) ws wr;
          vel_right = ack_vel_right (lin curr_cmd) (ang curr_cmd) ws wr
      in set_wheel_commands vel_left vel_right [0..<wheel_joints_size s2] s2)"

definition ack_update ::
  "'o collaborators \<Rightarrow> Time \<Rightarrow> Duration \<Rightarrow> bool \<Rightarrow> bool \<Rightarrow> 'o AckermannController \<Rightarrow>
   'o AckermannController \<times> effect list" where
  "ack_update env time period odom_trylock tf_trylock s =
     (case ack_update_odometry env time s of
        None \<Rightarrow> (s, [])
      | Some s1 \<Rightarrow>
          (let r2 = publish_odometry env time odom_trylock tf_trylock s1;
               r3 = ack_move_robot env time period (fst r2)
           in (fst r3, snd r2 @ snd r3)))"

text \<open>
  \<^verbatim>\<open>AckermannController::cmdVelCallback\<close>; \<open>now\<close> is what \<^verbatim>\<open>ros::Time::now()\<close>
  returns, and the message is its two fields \<^verbatim>\<open>linear.x\<close> and \<^verbatim>\<open>angular.z\<close>.
\<close>

definition ack_cmdVelCallback ::
  "Time \<Rightarrow> double \<Rightarrow> double \<Rightarrow> 'o AckermannController \<Rightarrow> 'o AckermannController" where
  "ack_cmdVelCallback now linear_x angular_z s =
     (if isRunning s then
        (let s1 = s\<lparr>command_struct := (command_struct s)\<lparr>ang := angular_z\<rparr>\<rparr>;
             s2 = s1\<lparr>command_struct := (command_struct s1)\<lparr>lin := linear_x\<rparr>\<rparr>;
             s3 = s2\<lparr>command_struct := (command_struct s2)\<lparr>stamp := now\<rparr>\<rparr>
         in s3\<lparr>command := command_struct s3\<rparr>)
      else s)"

text \<open>
  \<^verbatim>\<open>AckermannController::init\<close>. The result is the outcome of the call, the
  controller and the velocity joint interface, from which this controller takes all its
  handles; the position joint interface is not used. \<open>ack_init_rest\<close> is the part from
  \<^verbatim>\<open>// Odometry related\<close> on.
\<close>

definition ack_init_rest ::
  "library \<Rightarrow> JointInterface \<Rightarrow> NodeHandle \<Rightarrow> NodeHandle \<Rightarrow>
   string list \<Rightarrow> string list \<Rightarrow> string list \<Rightarrow> string list \<Rightarrow>
   'o AckermannController \<Rightarrow> outcome \<times> 'o AckermannController \<times> JointInterface" where
  "ack_init_rest lib hw_vel root_nh controller_nh
       left_wheel_names right_wheel_names left_steering_names right_steering_names s =
     (let s1 = read_common_params lib controller_nh s;
          s2 = s1\<lparr>wheel_separation_multiplier :=
                    param_double controller_nh ''wheel_separation_multiplier''
                      (wheel_separation_multiplier s1)\<rparr>;
          s3 = s2\<lparr>wheel_radius_multiplier :=
                    param_double controller_nh ''wheel_radius_multiplier''
                      (wheel_radius_multiplier s2)\<rparr>;
          s4 = read_cmd_params controller_nh s3;
          lookup_wheel_separation = (getParam_double controller_nh ''wheel_separation'' = None);
          s5 = s4\<lparr>wheel_separation :=
                    (case getParam_double controller_nh ''wheel_separation'' of
                       Some d \<Rightarrow> d | None \<Rightarrow> wheel_separation s4)\<rparr>;
          lookup_wheel_radius = (getParam_double controller_nh ''wheel_radius'' = None);
          s6 = s5\<lparr>wheel_radius :=
                    (case getParam_double controller_nh ''wheel_radius'' of
                       Some d \<Rightarrow> d | None \<Rightarrow> wheel_radius s5)\<rparr>;
          r7 = setOdomParamsFromUrdf lib root_nh (left_wheel_names ! 0) (right_wheel_names ! 0)
                 lookup_wheel_separation lookup_wheel_radius s6
      in if fst r7 \<noteq> Returns True then (fst r7, snd r7, hw_vel)
         else if \<not> setOdomPubFields root_nh controller_nh then (Aborts, snd r7, hw_vel)
         else
           (case get_wheel_handles left_wheel_names right_wheel_names
                   [0..<wheel_joints_size (snd r7)] hw_vel (snd r7) of
              (False, s8, hw8) \<Rightarrow> (Throws, s8, hw8)
            | (True, s8, hw8) \<Rightarrow>
                (case get_steering_handles left_steering_names right_steering_names
                        [0..<steering_joints_size s8] hw8 s8 of
                   (False, s9, hw9) \<Rightarrow> (Throws, s9, hw9)
                 | (True, s9, hw9) \<Rightarrow> (Returns True, s9, hw9))))"

definition ack_init ::
  "library \<Rightarrow> JointInterface \<Rightarrow> JointInterface \<Rightarrow> NodeHandle \<Rightarrow> NodeHandle \<Rightarrow>
   'o AckermannController \<Rightarrow> outcome \<times> 'o AckermannController \<times> JointInterface" where
  "ack_init lib hw_pos hw_vel root_nh controller_nh s =
     (case getWheelNames controller_nh ''left_wheel'' [] of
        None \<Rightarrow> (Returns False, s, hw_vel)
      | Some left_wheel_names \<Rightarrow>
     (case getWheelNames controller_nh ''right_wheel'' [] of
        None \<Rightarrow> (Returns False, s, hw_vel)
      | Some right_wheel_names \<Rightarrow>
     (if length left_wheel_names \<noteq> length right_wheel_names then (Returns False, s, hw_vel)
      else
        (let s1 = resize_wheel_joints (length left_wheel_names) s in
     (case getWheelNames controller_nh ''left_steering'' [] of
        None \<Rightarrow> (Returns False, s1, hw_vel)
      | Some left_steering_names \<Rightarrow>
     (case getWheelNames controller_nh ''right_steering'' [] of
        None \<Rightarrow> (Returns False, s1, hw_vel)
      | Some right_steering_names \<Rightarrow>
     (if length left_steering_names \<noteq> length right_steering_names
      then (Returns False, s1, hw_vel)
      else
        (let s2 = resize_steering_joints (length left_steering_names) s1 in
         ack_init_rest lib hw_vel root_nh controller_nh
           left_wheel_names right_wheel_names left_steering_names right_steering_names s2))))))))"

text \<open>
  \<^verbatim>\<open>AckermannController::initRequest\<close>. The two interfaces are what
  \<^verbatim>\<open>robot_hw->get\<close> returns, \<open>None\<close> for a null pointer. The result is the outcome,
  the controller, the claimed resources, and the two interfaces.
\<close>

definition ack_initRequest ::
  "library \<Rightarrow> JointInterface option \<Rightarrow> JointInterface option \<Rightarrow> NodeHandle \<Rightarrow> NodeHandle \<Rightarrow>
   (string \<times> string set) list \<Rightarrow> 'o AckermannController \<Rightarrow>
   outcome \<times> 'o AckermannController \<times> (string \<times> string set) list \<times>
   JointInterface option \<times> JointInterface option" where
  "ack_initRequest lib pos_joint_hw vel_joint_hw root_nh ctrlr_nh claimed_resources s =
     (if state s \<noteq> CONSTRUCTED
      then (Returns False, s, claimed_resources, pos_joint_hw, vel_joint_hw)
      else
        (case pos_joint_hw of
           None \<Rightarrow> (Returns False, s, claimed_resources, pos_joint_hw, vel_joint_hw)
         | Some hw_pos0 \<Rightarrow>
        (case vel_joint_hw of
           None \<Rightarrow> (Returns False, s, claimed_resources, pos_joint_hw, vel_joint_hw)
         | Some hw_vel0 \<Rightarrow>
             (let hw_pos = clearClaims hw_pos0;
                  hw_vel = clearClaims hw_vel0
              in case ack_init lib hw_pos hw_vel root_nh ctrlr_nh s of
                   (Returns True, s1, hw_vel1) \<Rightarrow>
                     (Returns True, s1\<lparr>state := INITIALIZED\<rparr>,
                      [(''hardware_interface::PositionJointInterface'', claims hw_pos),
                       (''hardware_interface::VelocityJointInterface'', claims hw_vel1)],
                      Some (clearClaims hw_pos), Some (clearClaims hw_vel1))
                 | (Returns False, s1, hw_vel1) \<Rightarrow>
                     (Returns False, s1, claimed_resources, Some hw_pos, Some hw_vel1)
                 | (r, s1, hw_vel1) \<Rightarrow>
                     (r, s1, claimed_resources, Some hw_pos, Some hw_vel1)))))"

section \<open>The four-wheel-steering controller\<close>

text \<open>
  \<open>command_struct\<close> and \<open>command\<close> belong to the twist input, the two members
  below to the four-wheel-steering input.
\<close>

record 'o FourWheelSteeringController = "('o, Commands4) controller" +
  wheel_base :: double
  enable_twist_cmd :: bool
  command_struct_four_wheel_steering :: Commands4
  command_four_wheel_steering :: Commands4

definition fws_update_odometry ::
  "'o collaborators \<Rightarrow> Time \<Rightarrow> 'o FourWheelSteeringController \<Rightarrow>
   'o FourWheelSteeringController option" where
  "fws_update_odometry env time s =
     (if open_loop s then
        Some (s\<lparr>odometry := Odometry_updateOpenLoop env (odometry s)
                               (lin (last0_cmd s)) (ang (last0_cmd s)) time\<rparr>)
      else
        (case wheel_feedback s of
           None \<Rightarrow> None
         | Some (wheel_angular_pos, wheel_angular_vel) \<Rightarrow>
             (let both = (length (left_steering_joints s) > 0 \<and>
                          length (right_steering_joints s) > 0);
                  left_steering_pos =
                    (if both then position (left_steering_joints s ! 0) else Fin 0);
                  right_steering_pos =
                    (if both then position (right_steering_joints s ! 0) else Fin 0);
                  steering_pos = (left_steering_pos + right_steering_pos) / Fin 2
              in Some (s\<lparr>odometry := Odometry_update env (odometry s)
                                         wheel_angular_pos wheel_angular_vel steering_pos time\<rparr>))))"

definition fws_curr_cmd :: "Time \<Rightarrow> 'o FourWheelSteeringController \<Rightarrow> Commands4" where
  "fws_curr_cmd time s =
     (let curr_cmd = (if enable_twist_cmd s = False then command_four_wheel_steering s
                      else command s);
          dt = toSec (time - stamp curr_cmd)
      in if dt > cmd_vel_timeout s
         then curr_cmd\<lparr>lin := Fin 0, ang := Fin 0, front_steering := Fin 0, rear_steering := Fin 0\<rparr>
         else curr_cmd)"

definition fws_limited_cmd ::
  "'o collaborators \<Rightarrow> Time \<Rightarrow> Duration \<Rightarrow> 'o FourWheelSteeringController \<Rightarrow> Commands4" where
  "fws_limited_cmd env time period s =
     (let curr_cmd = fws_curr_cmd time s;
          cmd_dt = toSec period
      in curr_cmd
           \<lparr>lin := limiter_lin_limit env (lin curr_cmd) (lin (last0_cmd s)) (lin (last1_cmd s)) cmd_dt,
            ang := limiter_ang_limit env (ang curr_cmd) (ang (last0_cmd s)) (ang (last1_cmd s)) cmd_dt\<rparr>)"

text \<open>The four wheel velocities of \<^verbatim>\<open>// Compute wheels velocities\<close>.\<close>

definition fws_vel_left_front :: "double \<Rightarrow> double \<Rightarrow> double \<Rightarrow> double \<Rightarrow> double \<Rightarrow> double" where
  "fws_vel_left_front l angular_speed ws wr wb =
     copysign1 l * sqrt_double (pow2 (l - angular_speed * ws / Fin 2) + pow2 (wb * angular_speed)) / wr"

definition fws_vel_right_front :: "double \<Rightarrow> double \<Rightarrow> double \<Rightarrow> double \<Rightarrow> double \<Rightarrow> double" where
  "fws_vel_right_front l angular_speed ws wr wb =
     copysign1 l * sqrt_double (pow2 (l + angular_speed * ws / Fin 2) + pow2 (wb * angular_speed)) / wr"

definition fws_vel_left_rear :: "double \<Rightarrow> double \<Rightarrow> double \<Rightarrow> double \<Rightarrow> double" where
  "fws_vel_left_rear l angular_speed ws wr = (l - angular_speed * ws / Fin 2) / wr"

definition fws_vel_right_rear :: "double \<Rightarrow> double \<Rightarrow> double \<Rightarrow> double \<Rightarrow> double" where
  "fws_vel_right_rear l angular_speed ws wr = (l + angular_speed * ws / Fin 2) / wr"

text \<open>
  The pair \<open>(front_steering, rear_steering)\<close> of the last part of \<^verbatim>\<open>update\<close>: both are
  initialised to zero and assigned in the twist mode only when the magnitude of the
  odometry's linear velocity exceeds 0.01.
\<close>

definition fws_steering ::
  "'o collaborators \<Rightarrow> Commands4 \<Rightarrow> 'o FourWheelSteeringController \<Rightarrow> double \<times> double" where
  "fws_steering env curr_cmd s =
     (if enable_twist_cmd s = True then
        (if fabs (getLinear env (odometry s)) > Fin (1 / 100) then
           (let steering = atan (ang curr_cmd * wheel_base s / getLinear env (odometry s))
            in (steering / Fin 2, - steering / Fin 2))
         else (Fin 0, Fin 0))
      else (front_steering curr_cmd, rear_steering curr_cmd))"

definition fws_set_wheels ::
  "double \<Rightarrow> double \<Rightarrow> double \<Rightarrow> double \<Rightarrow> 'o FourWheelSteeringController \<Rightarrow>
   'o FourWheelSteeringController \<times> effect list" where
  "fws_set_wheels vel_left_front vel_right_front vel_left_rear vel_right_rear s =
     (if length (left_wheel_joints s) = 2 \<and> length (right_wheel_joints s) = 2 then
        (let s1 = s\<lparr>left_wheel_joints :=
                     (left_wheel_joints s)[0 := setCommand vel_left_front (left_wheel_joints s ! 0)]\<rparr>;
             s2 = s1\<lparr>right_wheel_joints :=
                     (right_wheel_joints s1)[0 := setCommand vel_right_front (right_wheel_joints s1 ! 0)]\<rparr>;
             s3 = s2\<lparr>left_wheel_joints :=
                     (left_wheel_joints s2)[1 := setCommand vel_left_rear (left_wheel_joints s2 ! 1)]\<rparr>;
             s4 = s3\<lparr>right_wheel_joints :=
                     (right_wheel_joints s3)[1 := setCommand vel_right_rear (right_wheel_joints s3 ! 1)]\<rparr>
         in (s4, [SetCommand (LeftWheel 0) vel_left_front, SetCommand (RightWheel 0) vel_right_front,
                  SetCommand (LeftWheel 1) vel_left_rear, SetCommand (RightWheel 1) vel_right_rear]))
      else (s, []))"

definition fws_set_steering ::
  "double \<Rightarrow> double \<Rightarrow> 'o FourWheelSteeringController \<Rightarrow>
   'o FourWheelSteeringController \<times> effect list" where
  "fws_set_steering front rear s =
     (if length (left_steering_joints s) = 2 \<and> length (right_steering_joints s) = 2 then
        (let s1 = s\<lparr>left_steering_joints :=
                     (left_steering_joints s)[0 := setCommand front (left_steering_joints s ! 0)]\<rparr>;
             s2 = s1\<lparr>right_steering_joints :=
                     (right_steering_joints s1)[0 := setCommand front (right_steering_joints s1 ! 0)]\<rparr>;
             s3 = s2\<lparr>left_steering_joints :=
                     (left_steering_joints s2)[1 := setCommand rear (left_steering_joints s2 ! 1)]\<rparr>;
             s4 = s3\<lparr>right_steering_joints :=
                     (right_steering_joints s3)[1 := setCommand rear (right_steering_joints s3 ! 1)]\<rparr>
         in (s4, [SetCommand (LeftSteering 0) front, SetCommand (RightSteering 0) front,
                  SetCommand (LeftSteering 1) rear, SetCommand (RightSteering 1) rear]))
      else (s, []))"

definition fws_move_robot ::
  "'o collaborators \<Rightarrow> Time \<Rightarrow> Duration \<Rightarrow> 'o FourWheelSteeringController \<Rightarrow>
   'o FourWheelSteeringController \<times> effect list" where
  "fws_move_robot env time period s =
     (let curr_cmd = fws_limited_cmd env time period s;
          s1 = s\<lparr>last1_cmd := last0_cmd s\<rparr>;
          s2 = s1\<lparr>last0_cmd := curr_cmd\<rparr>;
          angular_speed = getAngular env (odometry s2);
          ws = wheel_separation s2;
          wr = wheel_radius s2;
          r3 = fws_set_wheels
                 (fws_vel_left_front (lin curr_cmd) angular_speed ws wr (wheel_base s2))
                 (fws_vel_right_front (lin curr_cmd) angular_speed ws wr (wheel_base s2))
                 (fws_vel_left_rear (lin curr_cmd) angular_speed ws wr)
                 (fws_vel_right_rear (lin curr_cmd) angular_speed ws wr) s2;
          st = fws_steering env curr_cmd (fst r3);
          r4 = fws_set_steering (fst st) (snd st) (fst r3)
      in (fst r4, snd r3 @ snd r4))"

definition fws_update ::
  "'o collaborators \<Rightarrow> Time \<Rightarrow> Duration \<Rightarrow> bool \<Rightarrow> bool \<Rightarrow> 'o FourWheelSteeringController \<Rightarrow>
   'o FourWheelSteeringController \<times> effect list" where
  "fws_update env time period odom_trylock tf_trylock s =
     (case fws_update_odometry env time s of
        None \<Rightarrow> (s, [])
      | Some s1 \<Rightarrow>
          (let r2 = publish_odometry env time odom_trylock tf_trylock s1;
               r3 = fws_move_robot env time period (fst r2)
           in (fst r3, snd r2 @ snd r3)))"

text \<open>
  The two callbacks. \<^verbatim>\<open>cmdVelCallback\<close> takes \<^verbatim>\<open>linear.x\<close> and \<^verbatim>\<open>angular.z\<close> of a
  twist; \<^verbatim>\<open>cmdFourWheelSteeringCallback\<close> takes the front and rear steering angles
  and the speed of a four-wheel-steering message.
\<close>

definition fws_cmdVelCallback ::
  "Time \<Rightarrow> double \<Rightarrow> double \<Rightarrow> 'o FourWheelSteeringController \<Rightarrow>
   'o FourWheelSteeringController" where
  "fws_cmdVelCallback now linear_x angular_z s =
     (if isRunning s then
        (let s1 = s\<lparr>command_struct := (command_struct s)\<lparr>ang := angular_z\<rparr>\<rparr>;
             s2 = s1\<lparr>command_struct := (command_struct s1)\<lparr>lin := linear_x\<rparr>\<rparr>;
             s3 = s2\<lparr>command_struct := (command_struct s2)\<lparr>stamp := now\<rparr>\<rparr>
         in s3\<lparr>command := command_struct s3\<rparr>)
      else s)"

definition fws_cmdFourWheelSteeringCallback ::
  "Time \<Rightarrow> double \<Rightarrow> double \<Rightarrow> double \<Rightarrow> 'o FourWheelSteeringController \<Rightarrow>
   'o FourWheelSteeringController" where
  "fws_cmdFourWheelSteeringCallback now front_steering_angle rear_steering_angle speed s =
     (if isRunning s then
        (let s1 = s\<lparr>command_struct_four_wheel_steering :=
                     (command_struct_four_wheel_steering s)\<lparr>front_steering := front_steering_angle\<rparr>\<rparr>;
             s2 = s1\<lparr>command_struct_four_wheel_steering :=
                     (command_struct_four_wheel_steering s1)\<lparr>rear_steering := rear_steering_angle\<rparr>\<rparr>;
             s3 = s2\<lparr>command_struct_four_wheel_steering :=
                     (command_struct_four_wheel_steering s2)\<lparr>lin := speed\<rparr>\<rparr>;
             s4 = s3\<lparr>command_struct_four_wheel_steering :=
                     (command_struct_four_wheel_steering s3)\<lparr>stamp := now\<rparr>\<rparr>
         in s4\<lparr>command_four_wheel_steering := command_struct_four_wheel_steering s4\<rparr>)
      else s)"

text \<open>
  \<^verbatim>\<open>FourWheelSteeringController::init\<close>. The wheel handles come from the velocity
  joint interface and the steering handles from the position joint interface; both
  interfaces are returned.
\<close>

definition fws_init_rest ::
  "library \<Rightarrow> JointInterface \<Rightarrow> JointInterface \<Rightarrow> NodeHandle \<Rightarrow> NodeHandle \<Rightarrow>
   string list \<Rightarrow> string list \<Rightarrow> string list \<Rightarrow> string list \<Rightarrow>
   'o FourWheelSteeringController \<Rightarrow>
   outcome \<times> 'o FourWheelSteeringController \<times> JointInterface \<times> JointInterface" where
  "fws_init_rest lib hw_pos hw_vel root_nh controller_nh
       left_wheel_names right_wheel_names left_steering_names right_steering_names s =
     (let s1 = read_common_params lib controller_nh s;
          s2 = read_cmd_params controller_nh s1;
          s3 = s2\<lparr>enable_twist_cmd :=
                    param_bool controller_nh ''enable_twist_cmd'' (enable_twist_cmd s2)\<rparr>;
          lookup_wheel_separation = (getParam_double controller_nh ''wheel_separation'' = None);
          s4 = s3\<lparr>wheel_separation :=
                    (case getParam_double controller_nh ''wheel_separation'' of
                       Some d \<Rightarrow> d | None \<Rightarrow> wheel_separation s3)\<rparr>;
          lookup_wheel_radius = (getParam_double controller_nh ''wheel_radius'' = None);
          s5 = s4\<lparr>wheel_radius :=
                    (case getParam_double controller_nh ''wheel_radius'' of
                       Some d \<Rightarrow> d | None \<Rightarrow> wheel_radius s4)\<rparr>;
          s6 = s5\<lparr>wheel_base :=
                    (case getParam_double controller_nh ''wheel_base'' of
                       Some d \<Rightarrow> d | None \<Rightarrow> wheel_base s5)\<rparr>;
          r7 = setOdomParamsFromUrdf lib root_nh (left_wheel_names ! 0) (right_wheel_names ! 0)
                 lookup_wheel_separation lookup_wheel_radius s6
      in if fst r7 \<noteq> Returns True then (fst r7, snd r7, hw_pos, hw_vel)
         else if \<not> setOdomPubFields root_nh controller_nh then (Aborts, snd r7, hw_pos, hw_vel)
         else
           (case get_wheel_handles left_wheel_names right_wheel_names
                   [0..<wheel_joints_size (snd r7)] hw_vel (snd r7) of
              (False, s8, hw8) \<Rightarrow> (Throws, s8, hw_pos, hw8)
            | (True, s8, hw8) \<Rightarrow>
                (case get_steering_handles left_steering_names right_steering_names
                        [0..<steering_joints_size s8] hw_pos s8 of
                   (False, s9, hw9) \<Rightarrow> (Throws, s9, hw9, hw8)
                 | (True, s9, hw9) \<Rightarrow> (Returns True, s9, hw9, hw8))))"

definition fws_init ::
  "library \<Rightarrow> JointInterface \<Rightarrow> JointInterface \<Rightarrow> NodeHandle \<Rightarrow> NodeHandle \<Rightarrow>
   'o FourWheelSteeringController \<Rightarrow>
   outcome \<times> 'o FourWheelSteeringController \<times> JointInterface \<times> JointInterface" where
  "fws_init lib hw_pos hw_vel root_nh controller_nh s =
     (case getWheelNames controller_nh ''left_wheel'' [] of
        None \<Rightarrow> (Returns False, s, hw_pos, hw_vel)
      | Some left_wheel_names \<Rightarrow>
     (case getWheelNames controller_nh ''right_wheel'' [] of
        None \<Rightarrow> (Returns False, s, hw_pos, hw_vel)
      | Some right_wheel_names \<Rightarrow>
     (if length left_wheel_names \<noteq> length right_wheel_names
      then (Returns False, s, hw_pos, hw_vel)
      else if length left_wheel_names \<noteq> 2 then (Returns False, s, hw_pos, hw_vel)
      else
        (let s1 = resize_wheel_joints (length left_wheel_names) s in
     (case getWheelNames controller_nh ''left_steering'' [] of
        None \<Rightarrow> (Returns False, s1, hw_pos, hw_vel)
      | Some left_steering_names \<Rightarrow>
     (case getWheelNames controller_nh ''right_steering'' [] of
        None \<Rightarrow> (Returns False, s1, hw_pos, hw_vel)
      | Some right_steering_names \<Rightarrow>
     (if length left_steering_names \<noteq> length right_steering_names
      then (Returns False, s1, hw_pos, hw_vel)
      else if length left_steering_names \<noteq> 2 then (Returns False, s1, hw_pos, hw_vel)
      else
        (let s2 = resize_steering_joints (length left_steering_names) s1 in
         fws_init_rest lib hw_pos hw_vel root_nh controller_nh
           left_wheel_names right_wheel_names left_steering_names right_steering_names s2))))))))"

text \<open>
  \<^verbatim>\<open>FourWheelSteeringController::initRequest\<close>, whose claimed resources are one set of
  names.
\<close>

definition fws_initRequest ::
  "library \<Rightarrow> JointInterface option \<Rightarrow> JointInterface option \<Rightarrow> NodeHandle \<Rightarrow> NodeHandle \<Rightarrow>
   string set \<Rightarrow> 'o FourWheelSteeringController \<Rightarrow>
   outcome \<times> 'o FourWheelSteeringController \<times> string set \<times>
   JointInterface option \<times> JointInterface option" where
  "fws_initRequest lib pos_joint_hw vel_joint_hw root_nh ctrlr_nh claimed_resources s =
     (if state s \<noteq> CONSTRUCTED
      then (Returns False, s, claimed_resources, pos_joint_hw, vel_joint_hw)
      else
        (case pos_joint_hw of
           None \<Rightarrow> (Returns False, s, claimed_resources, pos_joint_hw, vel_joint_hw)
         | Some hw_pos0 \<Rightarrow>
        (case vel_joint_hw of
           None \<Rightarrow> (Returns False, s, claimed_resources, pos_joint_hw, vel_joint_hw)
         | Some hw_vel0 \<Rightarrow>
             (case fws_init lib (clearClaims hw_pos0) (clearClaims hw_vel0) root_nh ctrlr_nh s of
                (Returns True, s1, hw_pos1, hw_vel1) \<Rightarrow>
                  (Returns True, s1\<lparr>state := INITIALIZED\<rparr>,
                   claims hw_pos1 \<union> claims hw_vel1,
                   Some (clearClaims hw_pos1), Some (clearClaims hw_vel1))
              | (Returns False, s1, hw_pos1, hw_vel1) \<Rightarrow>
                  (Returns False, s1, claimed_resources, Some hw_pos1, Some hw_vel1)
              | (r, s1, hw_pos1, hw_vel1) \<Rightarrow>
                  (r, s1, claimed_resources, Some hw_pos1, Some hw_vel1)))))"

section \<open>Concrete collaborators and controllers\<close>

text \<open>
  Stand-ins for the collaborators, to run the model on concrete inputs: an odometry
  object that stores the velocity and the steering angle it is given, and limiters that
  only clamp the value to the interval from -2 to 2.
\<close>

record estimate =
  est_x :: double
  est_y :: double
  est_heading :: double
  est_linear :: double
  est_angular :: double
  est_timestamp :: Time

definition estimate_zero :: estimate where
  "estimate_zero =
     \<lparr>est_x = Fin 0, est_y = Fin 0, est_heading = Fin 0, est_linear = Fin 0,
      est_angular = Fin 0, est_timestamp = 0\<rparr>"

definition clamp2 :: "double \<Rightarrow> double \<Rightarrow> double \<Rightarrow> double \<Rightarrow> double" where
  "clamp2 v v0 v1 dt = (if v > Fin 2 then Fin 2 else if v < Fin (- 2) then Fin (- 2) else v)"

definition demo_env :: "estimate collaborators" where
  "demo_env =
     \<lparr>Odometry_init = (\<lambda>od t. estimate_zero\<lparr>est_timestamp := t\<rparr>),
      Odometry_update = (\<lambda>od pos vel steering t.
         od\<lparr>est_linear := vel, est_angular := steering, est_timestamp := t\<rparr>),
      Odometry_updateOpenLoop = (\<lambda>od l a t.
         od\<lparr>est_linear := l, est_angular := a, est_timestamp := t\<rparr>),
      getX = est_x, getY = est_y, getHeading = est_heading,
      getLinear = est_linear, getAngular = est_angular,
      limiter_lin_limit = clamp2, limiter_ang_limit = clamp2\<rparr>"

definition joint :: "string \<Rightarrow> JointHandle" where
  "joint nm = \<lparr>name = nm, position = Fin 0, velocity = Fin 0, cmd = Fin 0\<rparr>"

text \<open>
  A running ackermann controller with one wheel pair and one steering pair, wheel
  separation 0.5, wheel radius 0.1, multipliers 1, a timeout of 0.5 s and a publish
  period of 20 ms. The buffered command asks for 1 m/s straight ahead and was stamped
  at 1 s; the last publication was at 1 s.
\<close>

definition ack_demo :: "estimate AckermannController" where
  "ack_demo =
     \<lparr>state = RUNNING, open_loop = False,
      command_struct = \<lparr>lin = Fin 1, ang = Fin 0, stamp = 1000000000\<rparr>,
      command = \<lparr>lin = Fin 1, ang = Fin 0, stamp = 1000000000\<rparr>,
      wheel_separation = Fin (1 / 2), wheel_radius = Fin (1 / 10),
      cmd_vel_timeout = Fin (1 / 2), enable_odom_tf = True,
      publish_period = 20000000, last_state_publish_time = 1000000000,
      last0_cmd = Commands_default, last1_cmd = Commands_default,
      left_wheel_joints = [joint ''left_wheel''],
      right_wheel_joints = [joint ''right_wheel''],
      left_steering_joints = [joint ''left_steering''],
      right_steering_joints = [joint ''right_steering''],
      wheel_joints_size = 1, steering_joints_size = 1,
      odometry = estimate_zero,
      wheel_separation_multiplier = Fin 1, wheel_radius_multiplier = Fin 1\<rparr>"

text \<open>
  A running four-wheel-steering controller with two wheel pairs and two steering
  pairs, in the direct-axle mode. Its buffered four-wheel-steering command asks for
  1 m/s with the front axle at 0.3 and the rear axle at -0.2; its buffered twist asks
  for 1 m/s and 1 rad/s. The wheels report 25 rad/s.
\<close>

definition fws_demo :: "estimate FourWheelSteeringController" where
  "fws_demo =
     \<lparr>state = RUNNING, open_loop = False,
      command_struct = Commands4_default,
      command = \<lparr>lin = Fin 1, ang = Fin 1, stamp = 1000000000,
                 front_steering = Fin 0, rear_steering = Fin 0\<rparr>,
      wheel_separation = Fin (1 / 2), wheel_radius = Fin (1 / 10),
      cmd_vel_timeout = Fin (1 / 2), enable_odom_tf = True,
      publish_period = 20000000, last_state_publish_time = 1000000000,
      last0_cmd = Commands4_default, last1_cmd = Commands4_default,
      left_wheel_joints = [(joint ''front_left_wheel'')\<lparr>velocity := Fin 25\<rparr>,
                           (joint ''rear_left_wheel'')\<lparr>velocity := Fin 25\<rparr>],
      right_wheel_joints = [(joint ''front_right_wheel'')\<lparr>velocity := Fin 25\<rparr>,
                            (joint ''rear_right_wheel'')\<lparr>velocity := Fin 25\<rparr>],
      left_steering_joints = [joint ''front_left_steering'', joint ''rear_left_steering''],
      right_steering_joints = [joint ''front_right_steering'', joint ''rear_right_steering''],
      wheel_joints_size = 2, steering_joints_size = 2,
      odometry = estimate_zero,
      wheel_base = Fin 25, enable_twist_cmd = False,
      command_struct_four_wheel_steering = Commands4_default,
      command_four_wheel_steering =
        \<lparr>lin = Fin 1, ang = Fin 0, stamp = 1000000000,
         front_steering = Fin (3 / 10), rear_steering = Fin (- (2 / 10))\<rparr>\<rparr>"

text \<open>
  The same ackermann controller with a command that turns on the spot, and the two
  controllers with a steering joint whose position sensor reports \<open>NaN\<close> while all
  wheel sensors report numbers.
\<close>

definition ack_turn :: "estimate AckermannController" where
  "ack_turn = ack_demo\<lparr>command := \<lparr>lin = Fin 0, ang = Fin 2, stamp = 1000000000\<rparr>\<rparr>"

definition ack_nan_steering :: "estimate AckermannController" where
  "ack_nan_steering =
     ack_demo\<lparr>left_steering_joints := [(joint ''left_steering'')\<lparr>position := NaN\<rparr>]\<rparr>"

definition fws_nan_steering :: "estimate FourWheelSteeringController" where
  "fws_nan_steering =
     fws_demo\<lparr>left_steering_joints :=
                [(joint ''front_left_steering'')\<lparr>position := NaN\<rparr>, joint ''rear_left_steering'']\<rparr>"

text \<open>
  The four-wheel-steering controller in the twist mode, moving (the wheels report
  25 rad/s) and standing still (the wheels report 0).
\<close>

definition fws_twist :: "estimate FourWheelSteeringController" where
  "fws_twist = fws_demo\<lparr>enable_twist_cmd := True\<rparr>"

definition fws_twist_still :: "estimate FourWheelSteeringController" where
  "fws_twist_still =
     fws_twist\<lparr>left_wheel_joints := [joint ''front_left_wheel'', joint ''rear_left_wheel''],
               right_wheel_joints := [joint ''front_right_wheel'', joint ''rear_right_wheel'']\<rparr>"

text \<open>
  The two controllers as their constructors leave them, a library whose URDF parser
  finds nothing, a hardware interface with eight joints, and parameter servers: one
  with a complete configuration for two wheel pairs and two steering pairs, one whose
  right wheel list is shorter than the left one, one whose right steering list is
  shorter than the left one, and one with a single joint in every list.
\<close>

definition ack_constructed :: "estimate AckermannController" where
  "ack_constructed =
     \<lparr>state = CONSTRUCTED, open_loop = False,
      command_struct = Commands_default, command = Commands_default,
      wheel_separation = Fin 0, wheel_radius = Fin 0,
      cmd_vel_timeout = Fin (1 / 2), enable_odom_tf = True,
      publish_period = 0, last_state_publish_time = 0,
      last0_cmd = Commands_default, last1_cmd = Commands_default,
      left_wheel_joints = [], right_wheel_joints = [],
      left_steering_joints = [], right_steering_joints = [],
      wheel_joints_size = 0, steering_joints_size = 0,
      odometry = estimate_zero,
      wheel_separation_multiplier = Fin 1, wheel_radius_multiplier = Fin 1\<rparr>"

definition fws_constructed :: "estimate FourWheelSteeringController" where
  "fws_constructed =
     \<lparr>state = CONSTRUCTED, open_loop = False,
      command_struct = Commands4_default, command = Commands4_default,
      wheel_separation = Fin 0, wheel_radius = Fin 0,
      cmd_vel_timeout = Fin (1 / 2), enable_odom_tf = True,
      publish_period = 0, last_state_publish_time = 0,
      last0_cmd = Commands4_default, last1_cmd = Commands4_default,
      left_wheel_joints = [], right_wheel_joints = [],
      left_steering_joints = [], right_steering_joints = [],
      wheel_joints_size = 0, steering_joints_size = 0,
      odometry = estimate_zero,
      wheel_base = Fin 0, enable_twist_cmd = False,
      command_struct_four_wheel_steering = Commands4_default,
      command_four_wheel_steering = Commands4_default\<rparr>"

definition demo_lib :: library where
  "demo_lib =
     \<lparr>parseURDF = (\<lambda>str. None),
      Duration_fromSec = (\<lambda>d. case d of Fin r \<Rightarrow> \<lfloor>r * 1000000000\<rfloor> | NaN \<Rightarrow> 0)\<rparr>"

definition demo_hw :: JointInterface where
  "demo_hw =
     \<lparr>registered = (\<lambda>nm. if nm \<in> {''fl'', ''fr'', ''rl'', ''rr'', ''sfl'', ''sfr'', ''srl'', ''srr''}
                          then Some (joint nm) else None),
      claims = {}\<rparr>"

definition nh_empty :: NodeHandle where
  "nh_empty = (\<lambda>key. None)"

definition nh_complete :: NodeHandle where
  "nh_complete =
     nh_empty
       (''left_wheel'' := Some (TypeArray [TypeString ''fl'', TypeString ''rl'']),
        ''right_wheel'' := Some (TypeArray [TypeString ''fr'', TypeString ''rr'']),
        ''left_steering'' := Some (TypeArray [TypeString ''sfl'', TypeString ''srl'']),
        ''right_steering'' := Some (TypeArray [TypeString ''sfr'', TypeString ''srr'']),
        ''wheel_separation'' := Some (TypeDouble (Fin (1 / 2))),
        ''wheel_radius'' := Some (TypeDouble (Fin (1 / 10))),
        ''wheel_base'' := Some (TypeInt 1),
        ''pose_covariance_diagonal'' := Some (TypeArray (replicate 6 (TypeDouble (Fin (1 / 1000))))),
        ''twist_covariance_diagonal'' := Some (TypeArray (replicate 6 (TypeDouble (Fin (1 / 1000))))))"

definition nh_wheels_differ :: NodeHandle where
  "nh_wheels_differ = nh_complete(''right_wheel'' := Some (TypeString ''fr''))"

definition nh_steering_differ :: NodeHandle where
  "nh_steering_differ = nh_complete(''right_steering'' := Some (TypeArray [TypeString ''sfr'']))"

definition nh_single :: NodeHandle where
  "nh_single =
     nh_complete
       (''left_wheel'' := Some (TypeString ''fl''), ''right_wheel'' := Some (TypeString ''fr''),
        ''left_steering'' := Some (TypeString ''sfl''), ''right_steering'' := Some (TypeString ''sfr''))"

text \<open>
  Collaborators whose limiters bound the change of the value against the previous one
  by 10 per second in either direction, the odometry as before; an ackermann controller
  that commanded 1 m/s in the cycle before; and a four-wheel-steering controller whose
  front steering joints report the angle 1, which the odometry above takes for the
  angular speed.
\<close>

definition ramp10 :: "double \<Rightarrow> double \<Rightarrow> double \<Rightarrow> double \<Rightarrow> double" where
  "ramp10 v v0 v1 dt =
     (if v - v0 < Fin (- 10) * dt then v0 + Fin (- 10) * dt
      else if v - v0 > Fin 10 * dt then v0 + Fin 10 * dt
      else v)"

definition ramp_env :: "estimate collaborators" where
  "ramp_env = demo_env\<lparr>limiter_lin_limit := ramp10, limiter_ang_limit := ramp10\<rparr>"

definition ack_coasting :: "estimate AckermannController" where
  "ack_coasting = ack_demo\<lparr>last0_cmd := \<lparr>lin = Fin 1, ang = Fin 0, stamp = 1000000000\<rparr>\<rparr>"

definition fws_turning :: "estimate FourWheelSteeringController" where
  "fws_turning =
     fws_demo\<lparr>left_steering_joints :=
                [(joint ''front_left_steering'')\<lparr>position := Fin 1\<rparr>, joint ''rear_left_steering''],
              right_steering_joints :=
                [(joint ''front_right_steering'')\<lparr>position := Fin 1\<rparr>, joint ''rear_right_steering'']\<rparr>"

section \<open>Notions used in the statements\<close>

text \<open>
  A cycle of \<^verbatim>\<open>update\<close> is aborted when it returns from the closed-loop branch
  because of a \<open>NaN\<close>: one of the four readings of some wheel pair is \<open>NaN\<close>.
\<close>

definition nan_reading :: "JointHandle list \<Rightarrow> JointHandle list \<Rightarrow> nat \<Rightarrow> bool" where
  "nan_reading L R i =
     (isnan (position (L ! i)) \<or> isnan (position (R ! i)) \<or>
      isnan (velocity (L ! i)) \<or> isnan (velocity (R ! i)))"

definition aborted :: "('o, 'c, 'z) controller_scheme \<Rightarrow> bool" where
  "aborted s = (\<not> open_loop s \<and> wheel_feedback s = None)"

text \<open>
  What a loop of \<^verbatim>\<open>setCommand\<close> calls over the indices \<open>is\<close> does to one vector of
  handles, and what the two guarded assignments of the four-wheel-steering controller
  do to one vector when the guard is \<open>g\<close>.
\<close>

definition write_cmds :: "double \<Rightarrow> nat list \<Rightarrow> JointHandle list \<Rightarrow> JointHandle list" where
  "write_cmds v is xs = foldl (\<lambda>ys i. ys[i := setCommand v (ys ! i)]) xs is"

definition write_pair :: "bool \<Rightarrow> double \<Rightarrow> double \<Rightarrow> JointHandle list \<Rightarrow> JointHandle list" where
  "write_pair g v0 v1 xs =
     (if g then xs[0 := setCommand v0 (xs ! 0), 1 := setCommand v1 (xs ! 1)] else xs)"

text \<open>
  The number of odometry messages among the effects of a call, and a run of
  consecutive cycles of an \<^verbatim>\<open>update\<close> function: each cycle is given by its time, its
  period and the results of its two \<^verbatim>\<open>trylock()\<close> calls, and starts in the state the
  cycle before has left. The result is the final state and the effects of each cycle.
\<close>

fun is_PublishOdom :: "effect \<Rightarrow> bool" where
  "is_PublishOdom (PublishOdom m) = True"
| "is_PublishOdom _ = False"

definition odom_publications :: "effect list \<Rightarrow> nat" where
  "odom_publications es = length (filter is_PublishOdom es)"

primrec cycles ::
  "(Time \<Rightarrow> Duration \<Rightarrow> bool \<Rightarrow> bool \<Rightarrow> 's \<Rightarrow> 's \<times> effect list) \<Rightarrow>
   (Time \<times> Duration \<times> bool \<times> bool) list \<Rightarrow> 's \<Rightarrow> 's \<times> effect list list" where
  "cycles upd [] s = (s, [])"
| "cycles upd (c # cs) s =
     (case c of (time, period, odom_trylock, tf_trylock) \<Rightarrow>
        (let r = upd time period odom_trylock tf_trylock s;
             rs = cycles upd cs (fst r)
         in (fst rs, snd r # snd rs)))"

text \<open>
  The lengths of the four handle vectors together with the two sizes the loops run to.
\<close>

definition joints_shape :: "('o, 'c, 'z) controller_scheme \<Rightarrow> nat list" where
  "joints_shape s =
     [length (left_wheel_joints s), length (right_wheel_joints s), wheel_joints_size s,
      length (left_steering_joints s), length (right_steering_joints s), steering_joints_size s]"

section \<open>The loops and the parts of a cycle\<close>

lemma write_cmds_Nil [simp]: "write_cmds v [] xs = xs"
  by (simp add: write_cmds_def)

lemma write_cmds_Cons [simp]:
  "write_cmds v (i # is) xs = write_cmds v is (xs[i := setCommand v (xs ! i)])"
  by (simp add: write_cmds_def)

lemma length_write_cmds [simp]: "length (write_cmds v is xs) = length xs"
  by (induction "is" arbitrary: xs) simp_all

lemma write_cmds_nth_other: "i \<notin> set is \<Longrightarrow> write_cmds v is xs ! i = xs ! i"
  by (induction "is" arbitrary: xs) auto

lemma write_cmds_nth_cmd:
  "i \<in> set is \<Longrightarrow> i < length xs \<Longrightarrow> cmd (write_cmds v is xs ! i) = v"
proof (induction "is" arbitrary: xs)
  case Nil
  then show ?case by simp
next
  case (Cons j js)
  show ?case
  proof (cases "i \<in> set js")
    case True
    with Cons show ?thesis by simp
  next
    case False
    with Cons.prems have "i = j" by simp
    with False Cons.prems show ?thesis
      by (simp add: write_cmds_nth_other setCommand_def)
  qed
qed

lemma write_cmds_sensors:
  "position (write_cmds v is xs ! i) = position (xs ! i) \<and>
   velocity (write_cmds v is xs ! i) = velocity (xs ! i) \<and>
   name (write_cmds v is xs ! i) = name (xs ! i)"
proof (induction "is" arbitrary: xs)
  case Nil
  then show ?case by simp
next
  case (Cons j js)
  have "position (xs[j := setCommand v (xs ! j)] ! i) = position (xs ! i) \<and>
        velocity (xs[j := setCommand v (xs ! j)] ! i) = velocity (xs ! i) \<and>
        name (xs[j := setCommand v (xs ! j)] ! i) = name (xs ! i)"
  proof (cases "j < length xs")
    case True
    then show ?thesis by (auto simp: nth_list_update setCommand_def)
  next
    case False
    then have "xs[j := setCommand v (xs ! j)] = xs" by (simp add: list_update_beyond)
    then show ?thesis by simp
  qed
  with Cons.IH [of "xs[j := setCommand v (xs ! j)]"] show ?case by simp
qed

lemma set_wheel_commands_fst:
  "fst (set_wheel_commands vl vr is s) =
     s\<lparr>left_wheel_joints := write_cmds vl is (left_wheel_joints s),
       right_wheel_joints := write_cmds vr is (right_wheel_joints s)\<rparr>"
  by (induction "is" arbitrary: s) (simp_all add: Let_def)

lemma set_wheel_commands_snd:
  "snd (set_wheel_commands vl vr is s) =
     concat (map (\<lambda>i. [SetCommand (LeftWheel i) vl, SetCommand (RightWheel i) vr]) is)"
  by (induction "is" arbitrary: s) (simp_all add: Let_def)

lemma set_steering_commands_fst:
  "fst (set_steering_commands pl pr is s) =
     s\<lparr>left_steering_joints := write_cmds pl is (left_steering_joints s),
       right_steering_joints := write_cmds pr is (right_steering_joints s)\<rparr>"
  by (induction "is" arbitrary: s) (simp_all add: Let_def)

lemma set_steering_commands_snd:
  "snd (set_steering_commands pl pr is s) =
     concat (map (\<lambda>i. [SetCommand (LeftSteering i) pl, SetCommand (RightSteering i) pr]) is)"
  by (induction "is" arbitrary: s) (simp_all add: Let_def)

lemma sum_wheel_readings_None:
  "sum_wheel_readings L R is acc = None \<longleftrightarrow> (\<exists>i \<in> set is. nan_reading L R i)"
proof (induction "is" arbitrary: acc)
  case Nil
  then show ?case by simp
next
  case (Cons j js)
  obtain a b c d where acc: "acc = (a, b, c, d)" by (cases acc) auto
  show ?case
  proof (cases "nan_reading L R j")
    case True
    then have "sum_wheel_readings L R (j # js) (a, b, c, d) = None"
      by (auto simp: nan_reading_def Let_def)
    with True show ?thesis by (simp add: acc)
  next
    case False
    then have "sum_wheel_readings L R (j # js) (a, b, c, d) =
        sum_wheel_readings L R js
          (a + position (L ! j), b + position (R ! j), c + velocity (L ! j), d + velocity (R ! j))"
      by (simp add: nan_reading_def Let_def)
    with False Cons.IH show ?thesis by (simp add: acc)
  qed
qed

lemma wheel_feedback_None:
  "wheel_feedback s = None \<longleftrightarrow>
     (\<exists>i < wheel_joints_size s. nan_reading (left_wheel_joints s) (right_wheel_joints s) i)"
proof -
  have "wheel_feedback s = None \<longleftrightarrow>
          sum_wheel_readings (left_wheel_joints s) (right_wheel_joints s)
            [0..<wheel_joints_size s] (Fin 0, Fin 0, Fin 0, Fin 0) = None"
    by (simp add: wheel_feedback_def Let_def split: option.splits prod.splits)
  then show ?thesis by (auto simp: sum_wheel_readings_None)
qed


lemma aborted_iff:
  "aborted s \<longleftrightarrow>
     \<not> open_loop s \<and>
     (\<exists>i < wheel_joints_size s. nan_reading (left_wheel_joints s) (right_wheel_joints s) i)"
  by (simp add: aborted_def wheel_feedback_None)

lemma ack_update_odometry_None: "ack_update_odometry env time s = None \<longleftrightarrow> aborted s"
  by (auto simp: ack_update_odometry_def aborted_def Let_def split: option.splits)

lemma fws_update_odometry_None: "fws_update_odometry env time s = None \<longleftrightarrow> aborted s"
  by (auto simp: fws_update_odometry_def aborted_def Let_def split: option.splits)

lemma ack_update_odometry_Some:
  "ack_update_odometry env time s = Some s1 \<Longrightarrow> \<exists>od. s1 = s\<lparr>odometry := od\<rparr>"
  by (auto simp: ack_update_odometry_def Let_def split: option.splits if_splits)

lemma fws_update_odometry_Some:
  "fws_update_odometry env time s = Some s1 \<Longrightarrow> \<exists>od. s1 = s\<lparr>odometry := od\<rparr>"
  by (auto simp: fws_update_odometry_def Let_def split: option.splits if_splits)

lemma publish_odometry_fst:
  "fst (publish_odometry env time a b s) =
     s\<lparr>last_state_publish_time :=
          (if last_state_publish_time s + publish_period s < time
           then last_state_publish_time s + publish_period s
           else last_state_publish_time s)\<rparr>"
  by (simp add: publish_odometry_def Let_def)

lemma ack_aborted_update: "aborted s \<Longrightarrow> ack_update env time period a b s = (s, [])"
  using ack_update_odometry_None [of env time s] by (simp add: ack_update_def)

lemma fws_aborted_update: "aborted s \<Longrightarrow> fws_update env time period a b s = (s, [])"
  using fws_update_odometry_None [of env time s] by (simp add: fws_update_def)

text \<open>The state in which a cycle that is not aborted starts to move the robot.\<close>

lemma ack_update_running:
  assumes "\<not> aborted s"
  shows "\<exists>od. ack_update env time period a b s =
       (fst (ack_move_robot env time period
               (fst (publish_odometry env time a b (s\<lparr>odometry := od\<rparr>)))),
        snd (publish_odometry env time a b (s\<lparr>odometry := od\<rparr>)) @
        snd (ack_move_robot env time period
               (fst (publish_odometry env time a b (s\<lparr>odometry := od\<rparr>)))))"
proof -
  from assms obtain s1 where s1: "ack_update_odometry env time s = Some s1"
    using ack_update_odometry_None [of env time s] by auto
  then obtain od where od: "s1 = s\<lparr>odometry := od\<rparr>"
    using ack_update_odometry_Some by blast
  have "ack_update env time period a b s =
       (fst (ack_move_robot env time period (fst (publish_odometry env time a b s1))),
        snd (publish_odometry env time a b s1) @
        snd (ack_move_robot env time period (fst (publish_odometry env time a b s1))))"
    using s1 by (simp add: ack_update_def Let_def)
  then show ?thesis unfolding od by (rule exI)
qed

lemma fws_update_running:
  assumes "\<not> aborted s"
  shows "\<exists>od. fws_update env time period a b s =
       (fst (fws_move_robot env time period
               (fst (publish_odometry env time a b (s\<lparr>odometry := od\<rparr>)))),
        snd (publish_odometry env time a b (s\<lparr>odometry := od\<rparr>)) @
        snd (fws_move_robot env time period
               (fst (publish_odometry env time a b (s\<lparr>odometry := od\<rparr>)))))"
proof -
  from assms obtain s1 where s1: "fws_update_odometry env time s = Some s1"
    using fws_update_odometry_None [of env time s] by auto
  then obtain od where od: "s1 = s\<lparr>odometry := od\<rparr>"
    using fws_update_odometry_Some by blast
  have "fws_update env time period a b s =
       (fst (fws_move_robot env time period (fst (publish_odometry env time a b s1))),
        snd (publish_odometry env time a b s1) @
        snd (fws_move_robot env time period (fst (publish_odometry env time a b s1))))"
    using s1 by (simp add: fws_update_def Let_def)
  then show ?thesis unfolding od by (rule exI)
qed

lemma ack_curr_cmd_frame [simp]:
  "ack_curr_cmd time (s\<lparr>odometry := od\<rparr>) = ack_curr_cmd time s"
  "ack_curr_cmd time (s\<lparr>last_state_publish_time := t\<rparr>) = ack_curr_cmd time s"
  by (simp_all add: ack_curr_cmd_def)

lemma ack_limited_cmd_frame [simp]:
  "ack_limited_cmd env time period (s\<lparr>odometry := od\<rparr>) = ack_limited_cmd env time period s"
  "ack_limited_cmd env time period (s\<lparr>last_state_publish_time := t\<rparr>) = ack_limited_cmd env time period s"
  by (simp_all add: ack_limited_cmd_def)

lemma ack_move_robot_fst:
  "fst (ack_move_robot env time period s) =
     s\<lparr>last1_cmd := last0_cmd s,
       last0_cmd := ack_limited_cmd env time period s,
       left_wheel_joints :=
         write_cmds (ack_vel_left (lin (ack_limited_cmd env time period s))
                       (ang (ack_limited_cmd env time period s))
                       (wheel_separation_multiplier s * wheel_separation s)
                       (wheel_radius_multiplier s * wheel_radius s))
           [0..<wheel_joints_size s] (left_wheel_joints s),
       right_wheel_joints :=
         write_cmds (ack_vel_right (lin (ack_limited_cmd env time period s))
                       (ang (ack_limited_cmd env time period s))
                       (wheel_separation_multiplier s * wheel_separation s)
                       (wheel_radius_multiplier s * wheel_radius s))
           [0..<wheel_joints_size s] (right_wheel_joints s)\<rparr>"
  by (simp add: ack_move_robot_def Let_def set_wheel_commands_fst)

lemma ack_move_robot_snd:
  "snd (ack_move_robot env time period s) =
     concat (map (\<lambda>i.
        [SetCommand (LeftWheel i)
           (ack_vel_left (lin (ack_limited_cmd env time period s))
              (ang (ack_limited_cmd env time period s))
              (wheel_separation_multiplier s * wheel_separation s)
              (wheel_radius_multiplier s * wheel_radius s)),
         SetCommand (RightWheel i)
           (ack_vel_right (lin (ack_limited_cmd env time period s))
              (ang (ack_limited_cmd env time period s))
              (wheel_separation_multiplier s * wheel_separation s)
              (wheel_radius_multiplier s * wheel_radius s))]) [0..<wheel_joints_size s])"
  by (simp add: ack_move_robot_def Let_def set_wheel_commands_snd)

text \<open>The whole of a cycle of the ackermann controller that is not aborted.\<close>

lemma ack_update_fst:
  assumes "\<not> aborted s"
  shows "\<exists>od. fst (ack_update env time period a b s) =
     s\<lparr>odometry := od,
       last_state_publish_time :=
          (if last_state_publish_time s + publish_period s < time
           then last_state_publish_time s + publish_period s
           else last_state_publish_time s),
       last1_cmd := last0_cmd s,
       last0_cmd := ack_limited_cmd env time period s,
       left_wheel_joints :=
         write_cmds (ack_vel_left (lin (ack_limited_cmd env time period s))
                       (ang (ack_limited_cmd env time period s))
                       (wheel_separation_multiplier s * wheel_separation s)
                       (wheel_radius_multiplier s * wheel_radius s))
           [0..<wheel_joints_size s] (left_wheel_joints s),
       right_wheel_joints :=
         write_cmds (ack_vel_right (lin (ack_limited_cmd env time period s))
                       (ang (ack_limited_cmd env time period s))
                       (wheel_separation_multiplier s * wheel_separation s)
                       (wheel_radius_multiplier s * wheel_radius s))
           [0..<wheel_joints_size s] (right_wheel_joints s)\<rparr>"
proof -
  from assms obtain od where
    u: "ack_update env time period a b s =
       (fst (ack_move_robot env time period
               (fst (publish_odometry env time a b (s\<lparr>odometry := od\<rparr>)))),
        snd (publish_odometry env time a b (s\<lparr>odometry := od\<rparr>)) @
        snd (ack_move_robot env time period
               (fst (publish_odometry env time a b (s\<lparr>odometry := od\<rparr>)))))"
    using ack_update_running by blast
  show ?thesis
    by (rule exI [of _ od]) (simp add: u ack_move_robot_fst publish_odometry_fst)
qed


lemma list2_update: "length xs = 2 \<Longrightarrow> xs[0 := a, Suc 0 := b] = [a, b]"
  by (cases xs; cases "tl xs") auto

lemma fws_curr_cmd_frame [simp]:
  "fws_curr_cmd time (s\<lparr>odometry := od\<rparr>) = fws_curr_cmd time s"
  "fws_curr_cmd time (s\<lparr>last_state_publish_time := t\<rparr>) = fws_curr_cmd time s"
  by (simp_all add: fws_curr_cmd_def)

lemma fws_limited_cmd_frame [simp]:
  "fws_limited_cmd env time period (s\<lparr>odometry := od\<rparr>) = fws_limited_cmd env time period s"
  "fws_limited_cmd env time period (s\<lparr>last_state_publish_time := t\<rparr>) = fws_limited_cmd env time period s"
  by (simp_all add: fws_limited_cmd_def)

lemma write_pair_two:
  "length xs = 2 \<Longrightarrow> write_pair True v0 v1 xs = [setCommand v0 (xs ! 0), setCommand v1 (xs ! 1)]"
  by (simp add: write_pair_def list2_update)

lemma fws_set_wheels_fst:
  "fst (fws_set_wheels a b c d s) =
     s\<lparr>left_wheel_joints :=
          write_pair (length (left_wheel_joints s) = 2 \<and> length (right_wheel_joints s) = 2)
            a c (left_wheel_joints s),
       right_wheel_joints :=
          write_pair (length (left_wheel_joints s) = 2 \<and> length (right_wheel_joints s) = 2)
            b d (right_wheel_joints s)\<rparr>"
  by (simp add: fws_set_wheels_def write_pair_def Let_def)

lemma fws_set_wheels_snd:
  "snd (fws_set_wheels a b c d s) =
     (if length (left_wheel_joints s) = 2 \<and> length (right_wheel_joints s) = 2
      then [SetCommand (LeftWheel 0) a, SetCommand (RightWheel 0) b,
            SetCommand (LeftWheel 1) c, SetCommand (RightWheel 1) d]
      else [])"
  by (simp add: fws_set_wheels_def Let_def)

lemma fws_set_steering_fst:
  "fst (fws_set_steering f r s) =
     s\<lparr>left_steering_joints :=
          write_pair (length (left_steering_joints s) = 2 \<and> length (right_steering_joints s) = 2)
            f r (left_steering_joints s),
       right_steering_joints :=
          write_pair (length (left_steering_joints s) = 2 \<and> length (right_steering_joints s) = 2)
            f r (right_steering_joints s)\<rparr>"
  by (simp add: fws_set_steering_def write_pair_def Let_def)

lemma fws_set_steering_snd:
  "snd (fws_set_steering f r s) =
     (if length (left_steering_joints s) = 2 \<and> length (right_steering_joints s) = 2
      then [SetCommand (LeftSteering 0) f, SetCommand (RightSteering 0) f,
            SetCommand (LeftSteering 1) r, SetCommand (RightSteering 1) r]
      else [])"
  by (simp add: fws_set_steering_def Let_def)

lemma fws_steering_frame [simp]:
  "fws_steering env c (s\<lparr>left_wheel_joints := L\<rparr>) = fws_steering env c s"
  "fws_steering env c (s\<lparr>right_wheel_joints := R\<rparr>) = fws_steering env c s"
  "fws_steering env c (s\<lparr>last0_cmd := c0\<rparr>) = fws_steering env c s"
  "fws_steering env c (s\<lparr>last1_cmd := c1\<rparr>) = fws_steering env c s"
  by (simp_all add: fws_steering_def)

text \<open>The motion part of a cycle of the four-wheel-steering controller.\<close>

lemma fws_move_robot_fst:
  "fst (fws_move_robot env time period s) =
     s\<lparr>last1_cmd := last0_cmd s,
       last0_cmd := fws_limited_cmd env time period s,
       left_wheel_joints :=
          write_pair (length (left_wheel_joints s) = 2 \<and> length (right_wheel_joints s) = 2)
            (fws_vel_left_front (lin (fws_limited_cmd env time period s))
               (getAngular env (odometry s)) (wheel_separation s) (wheel_radius s) (wheel_base s))
            (fws_vel_left_rear (lin (fws_limited_cmd env time period s))
               (getAngular env (odometry s)) (wheel_separation s) (wheel_radius s))
            (left_wheel_joints s),
       right_wheel_joints :=
          write_pair (length (left_wheel_joints s) = 2 \<and> length (right_wheel_joints s) = 2)
            (fws_vel_right_front (lin (fws_limited_cmd env time period s))
               (getAngular env (odometry s)) (wheel_separation s) (wheel_radius s) (wheel_base s))
            (fws_vel_right_rear (lin (fws_limited_cmd env time period s))
               (getAngular env (odometry s)) (wheel_separation s) (wheel_radius s))
            (right_wheel_joints s),
       left_steering_joints :=
          write_pair (length (left_steering_joints s) = 2 \<and> length (right_steering_joints s) = 2)
            (fst (fws_steering env (fws_limited_cmd env time period s) s))
            (snd (fws_steering env (fws_limited_cmd env time period s) s))
            (left_steering_joints s),
       right_steering_joints :=
          write_pair (length (left_steering_joints s) = 2 \<and> length (right_steering_joints s) = 2)
            (fst (fws_steering env (fws_limited_cmd env time period s) s))
            (snd (fws_steering env (fws_limited_cmd env time period s) s))
            (right_steering_joints s)\<rparr>"
  by (simp add: fws_move_robot_def Let_def fws_set_wheels_fst fws_set_steering_fst)

lemma fws_move_robot_snd:
  "snd (fws_move_robot env time period s) =
     (if length (left_wheel_joints s) = 2 \<and> length (right_wheel_joints s) = 2
      then [SetCommand (LeftWheel 0)
              (fws_vel_left_front (lin (fws_limited_cmd env time period s))
                 (getAngular env (odometry s)) (wheel_separation s) (wheel_radius s) (wheel_base s)),
            SetCommand (RightWheel 0)
              (fws_vel_right_front (lin (fws_limited_cmd env time period s))
                 (getAngular env (odometry s)) (wheel_separation s) (wheel_radius s) (wheel_base s)),
            SetCommand (LeftWheel 1)
              (fws_vel_left_rear (lin (fws_limited_cmd env time period s))
                 (getAngular env (odometry s)) (wheel_separation s) (wheel_radius s)),
            SetCommand (RightWheel 1)
              (fws_vel_right_rear (lin (fws_limited_cmd env time period s))
                 (getAngular env (odometry s)) (wheel_separation s) (wheel_radius s))]
      else []) @
     (if length (left_steering_joints s) = 2 \<and> length (right_steering_joints s) = 2
      then [SetCommand (LeftSteering 0) (fst (fws_steering env (fws_limited_cmd env time period s) s)),
            SetCommand (RightSteering 0) (fst (fws_steering env (fws_limited_cmd env time period s) s)),
            SetCommand (LeftSteering 1) (snd (fws_steering env (fws_limited_cmd env time period s) s)),
            SetCommand (RightSteering 1) (snd (fws_steering env (fws_limited_cmd env time period s) s))]
      else [])"
  by (simp add: fws_move_robot_def Let_def fws_set_wheels_fst fws_set_wheels_snd
      fws_set_steering_snd)

lemma wheel_feedback_frame [simp]:
  "wheel_feedback (s\<lparr>command := c\<rparr>) = wheel_feedback s"
  by (simp add: wheel_feedback_def cong: option.case_cong)

lemma aborted_command [simp]: "aborted (s\<lparr>command := c\<rparr>) = aborted s"
  by (simp add: aborted_def)

lemma ack_update_odometry_command:
  "ack_update_odometry env time (s\<lparr>command := c\<rparr>) =
     map_option (\<lambda>s1. s1\<lparr>command := c\<rparr>) (ack_update_odometry env time s)"
  by (simp add: ack_update_odometry_def Let_def split: option.splits prod.splits)

lemma Commands_zeroed_eq:
  fixes c d :: Commands
  shows "stamp c = stamp d \<Longrightarrow> c\<lparr>lin := x, ang := y\<rparr> = d\<lparr>lin := x, ang := y\<rparr>"
  by (cases c, cases d) simp

lemma Commands4_zeroed_eq:
  fixes c d :: Commands4
  shows "stamp c = stamp d \<Longrightarrow>
    c\<lparr>lin := x, ang := y, front_steering := f, rear_steering := r\<rparr> =
    d\<lparr>lin := x, ang := y, front_steering := f, rear_steering := r\<rparr>"
  by (cases c, cases d) simp

lemma ack_stale_independent:
  assumes stale: "cmd_vel_timeout s < toSec (time - stamp (command s))"
    and stamp: "stamp c = stamp (command s)"
  shows "ack_update env time period a b (s\<lparr>command := c\<rparr>) =
           ((fst (ack_update env time period a b s))\<lparr>command := c\<rparr>,
            snd (ack_update env time period a b s))"
proof (cases "aborted s")
  case True
  then show ?thesis by (simp add: ack_aborted_update)
next
  case False
  then obtain s1 where s1: "ack_update_odometry env time s = Some s1"
    using ack_update_odometry_None [of env time s] by auto
  then obtain od where od: "s1 = s\<lparr>odometry := od\<rparr>"
    using ack_update_odometry_Some by blast
  have z: "c\<lparr>lin := Fin 0, ang := Fin 0\<rparr> = (command s)\<lparr>lin := Fin 0, ang := Fin 0\<rparr>"
    using stamp by (rule Commands_zeroed_eq)
  have lim: "\<And>t. command t = c \<Longrightarrow> cmd_vel_timeout t = cmd_vel_timeout s \<Longrightarrow>
      last0_cmd t = last0_cmd s \<Longrightarrow> last1_cmd t = last1_cmd s \<Longrightarrow>
      ack_limited_cmd env time period t = ack_limited_cmd env time period s"
    using stale stamp z by (simp add: ack_limited_cmd_def ack_curr_cmd_def Let_def)
  show ?thesis
    by (rule prod_eqI)
       (simp_all add: ack_update_def ack_update_odometry_command s1 od Let_def
          ack_move_robot_fst ack_move_robot_snd publish_odometry_fst lim
          publish_odometry_def)
qed


lemma wheel_feedback_frame4 [simp]:
  "wheel_feedback (s\<lparr>command_four_wheel_steering := c\<rparr>) = wheel_feedback s"
  by (simp add: wheel_feedback_def cong: option.case_cong)

lemma aborted_command4 [simp]: "aborted (s\<lparr>command_four_wheel_steering := c\<rparr>) = aborted s"
  by (simp add: aborted_def)

lemma fws_update_odometry_command:
  "fws_update_odometry env time (s\<lparr>command := c\<rparr>) =
     map_option (\<lambda>s1. s1\<lparr>command := c\<rparr>) (fws_update_odometry env time s)"
  "fws_update_odometry env time (s\<lparr>command_four_wheel_steering := c\<rparr>) =
     map_option (\<lambda>s1. s1\<lparr>command_four_wheel_steering := c\<rparr>) (fws_update_odometry env time s)"
  by (simp_all add: fws_update_odometry_def Let_def split: option.splits prod.splits)

lemma fws_stale_independent_axle:
  assumes mode: "enable_twist_cmd s = False"
    and stale: "cmd_vel_timeout s < toSec (time - stamp (command_four_wheel_steering s))"
    and stamp: "stamp c = stamp (command_four_wheel_steering s)"
  shows "fws_update env time period a b (s\<lparr>command_four_wheel_steering := c\<rparr>) =
           ((fst (fws_update env time period a b s))\<lparr>command_four_wheel_steering := c\<rparr>,
            snd (fws_update env time period a b s))"
proof (cases "aborted s")
  case True
  then show ?thesis by (simp add: fws_aborted_update)
next
  case False
  then obtain s1 where s1: "fws_update_odometry env time s = Some s1"
    using fws_update_odometry_None [of env time s] by auto
  then obtain od where od: "s1 = s\<lparr>odometry := od\<rparr>"
    using fws_update_odometry_Some by blast
  have z: "c\<lparr>lin := Fin 0, ang := Fin 0, front_steering := Fin 0, rear_steering := Fin 0\<rparr> =
      (command_four_wheel_steering s)\<lparr>lin := Fin 0, ang := Fin 0, front_steering := Fin 0, rear_steering := Fin 0\<rparr>"
    using stamp by (rule Commands4_zeroed_eq)
  have lim: "\<And>t. command_four_wheel_steering t = c \<Longrightarrow> enable_twist_cmd t = False \<Longrightarrow>
      cmd_vel_timeout t = cmd_vel_timeout s \<Longrightarrow>
      last0_cmd t = last0_cmd s \<Longrightarrow> last1_cmd t = last1_cmd s \<Longrightarrow>
      fws_limited_cmd env time period t = fws_limited_cmd env time period s"
    using stale stamp z mode by (simp add: fws_limited_cmd_def fws_curr_cmd_def Let_def)
  show ?thesis
    by (rule prod_eqI)
       (simp_all add: fws_update_def fws_update_odometry_command s1 od Let_def mode
          fws_move_robot_fst fws_move_robot_snd fws_steering_def
          publish_odometry_def lim)
qed

lemma fws_stale_independent_twist:
  assumes mode: "enable_twist_cmd s = True"
    and stale: "cmd_vel_timeout s < toSec (time - stamp (command s))"
    and stamp: "stamp c = stamp (command s)"
  shows "fws_update env time period a b (s\<lparr>command := c\<rparr>) =
           ((fst (fws_update env time period a b s))\<lparr>command := c\<rparr>,
            snd (fws_update env time period a b s))"
proof (cases "aborted s")
  case True
  then show ?thesis by (simp add: fws_aborted_update)
next
  case False
  then obtain s1 where s1: "fws_update_odometry env time s = Some s1"
    using fws_update_odometry_None [of env time s] by auto
  then obtain od where od: "s1 = s\<lparr>odometry := od\<rparr>"
    using fws_update_odometry_Some by blast
  have z: "c\<lparr>lin := Fin 0, ang := Fin 0, front_steering := Fin 0, rear_steering := Fin 0\<rparr> =
      (command s)\<lparr>lin := Fin 0, ang := Fin 0, front_steering := Fin 0, rear_steering := Fin 0\<rparr>"
    using stamp by (rule Commands4_zeroed_eq)
  have lim: "\<And>t. command t = c \<Longrightarrow> enable_twist_cmd t = True \<Longrightarrow>
      cmd_vel_timeout t = cmd_vel_timeout s \<Longrightarrow>
      last0_cmd t = last0_cmd s \<Longrightarrow> last1_cmd t = last1_cmd s \<Longrightarrow>
      fws_limited_cmd env time period t = fws_limited_cmd env time period s"
    using stale stamp z mode by (simp add: fws_limited_cmd_def fws_curr_cmd_def Let_def)
  show ?thesis
    by (rule prod_eqI)
       (simp_all add: fws_update_def fws_update_odometry_command s1 od Let_def mode
          fws_move_robot_fst fws_move_robot_snd fws_steering_def
          publish_odometry_def lim)
qed

lemma aborted_code:
  "aborted s \<longleftrightarrow>
     \<not> open_loop s \<and>
     sum_wheel_readings (left_wheel_joints s) (right_wheel_joints s)
       [0..<wheel_joints_size s] (Fin 0, Fin 0, Fin 0, Fin 0) = None"
  by (simp add: aborted_def wheel_feedback_def Let_def split: option.splits prod.splits)

lemma ack_demo_runs: "\<not> aborted ack_demo"
  by (simp add: aborted_code ack_demo_def joint_def Let_def)

lemma fws_demo_runs: "\<not> aborted fws_demo"
  by (simp add: aborted_code fws_demo_def joint_def Let_def numeral_2_eq_2)

lemma fws_stale_steering:
  assumes stale: "cmd_vel_timeout f < toSec (time - stamp (command_four_wheel_steering f))"
    and run: "\<not> aborted f" and mode: "enable_twist_cmd f = False"
    and len: "length (left_steering_joints f) = 2" "length (right_steering_joints f) = 2"
  shows "map cmd (left_steering_joints (fst (fws_update env time period a b f))) = [Fin 0, Fin 0] \<and>
         map cmd (right_steering_joints (fst (fws_update env time period a b f))) = [Fin 0, Fin 0]"
proof -
  from run obtain od where
    "fws_update env time period a b f =
       (fst (fws_move_robot env time period
               (fst (publish_odometry env time a b (f\<lparr>odometry := od\<rparr>)))),
        snd (publish_odometry env time a b (f\<lparr>odometry := od\<rparr>)) @
        snd (fws_move_robot env time period
               (fst (publish_odometry env time a b (f\<lparr>odometry := od\<rparr>)))))"
    using fws_update_running by blast
  then show ?thesis
    using stale mode len
    by (simp add: fws_move_robot_fst publish_odometry_fst write_pair_two fws_steering_def
        fws_limited_cmd_def fws_curr_cmd_def Let_def setCommand_def)
qed

lemmas ack_cycle_defs =
  ack_update_def ack_update_odometry_def wheel_feedback_def publish_odometry_def
  ack_move_robot_def ack_limited_cmd_def ack_curr_cmd_def toSec_def ack_vel_left_def
  ack_vel_right_def setCommand_def Let_def

lemmas demo_defs =
  ack_demo_def fws_demo_def demo_env_def joint_def clamp2_def Commands_default_def
  Commands4_default_def estimate_zero_def

text \<open>
  A \<open>NaN\<close> among the wheel readings of a closed-loop cycle leaves everything as it
  was and has no effect, in both controllers.
\<close>

lemma ack_nan_wheel_reading_aborts:
  assumes "\<not> open_loop s" and "i < wheel_joints_size s"
    and "isnan (position (left_wheel_joints s ! i)) \<or> isnan (position (right_wheel_joints s ! i)) \<or>
         isnan (velocity (left_wheel_joints s ! i)) \<or> isnan (velocity (right_wheel_joints s ! i))"
  shows "ack_update env time period a b s = (s, [])"
proof -
  from assms have "aborted s" by (auto simp: aborted_iff nan_reading_def)
  then show ?thesis by (rule ack_aborted_update)
qed

lemma fws_nan_wheel_reading_aborts:
  assumes "\<not> open_loop s" and "i < wheel_joints_size s"
    and "isnan (position (left_wheel_joints s ! i)) \<or> isnan (position (right_wheel_joints s ! i)) \<or>
         isnan (velocity (left_wheel_joints s ! i)) \<or> isnan (velocity (right_wheel_joints s ! i))"
  shows "fws_update env time period a b s = (s, [])"
proof -
  from assms have "aborted s" by (auto simp: aborted_iff nan_reading_def)
  then show ?thesis by (rule fws_aborted_update)
qed

text \<open>
  Claim C2, at an input where it fails. The ackermann controller runs in closed loop,
  every wheel sensor reports a number and the position sensor of the left steering
  joint reports \<open>NaN\<close>. The cycle is not aborted: the \<open>NaN\<close> reaches the odometry
  update, the odometry message is published with it, the limiter history moves on and
  the wheel setpoints change from 0 to 10.
\<close>

theorem nan_steering_reading_not_aborted:
  "open_loop ack_nan_steering = False \<and>
   isnan (position (left_steering_joints ack_nan_steering ! 0)) \<and>
   map cmd (left_wheel_joints ack_nan_steering) = [Fin 0] \<and>
   map cmd (right_wheel_joints ack_nan_steering) = [Fin 0] \<and>
   last0_cmd ack_nan_steering = \<lparr>lin = Fin 0, ang = Fin 0, stamp = 0\<rparr> \<and>
   ack_update demo_env 1100000000 10000000 True True ack_nan_steering =
     (ack_nan_steering
        \<lparr>odometry := estimate_zero\<lparr>est_angular := NaN, est_timestamp := 1100000000\<rparr>,
         last_state_publish_time := 1020000000,
         last0_cmd := \<lparr>lin = Fin 1, ang = Fin 0, stamp = 1000000000\<rparr>,
         left_wheel_joints := [(joint ''left_wheel'')\<lparr>cmd := Fin 10\<rparr>],
         right_wheel_joints := [(joint ''right_wheel'')\<lparr>cmd := Fin 10\<rparr>]\<rparr>,
      [PublishOdom \<lparr>odom_stamp = 1100000000, odom_x = Fin 0, odom_y = Fin 0, odom_yaw = Fin 0,
                      odom_linear = Fin 0, odom_angular = NaN\<rparr>,
       PublishTf \<lparr>tf_stamp = 1100000000, tf_x = Fin 0, tf_y = Fin 0, tf_yaw = Fin 0\<rparr>,
       SetCommand (LeftWheel 0) (Fin 10), SetCommand (RightWheel 0) (Fin 10)])"
  by (simp add: ack_nan_steering_def ack_cycle_defs demo_defs)

text \<open>The whole of a cycle of the four-wheel-steering controller that is not aborted.\<close>

lemma fws_update_fst:
  assumes "\<not> aborted s"
  shows "\<exists>od. fst (fws_update env time period a b s) =
     s\<lparr>odometry := od,
       last_state_publish_time :=
          (if last_state_publish_time s + publish_period s < time
           then last_state_publish_time s + publish_period s
           else last_state_publish_time s),
       last1_cmd := last0_cmd s,
       last0_cmd := fws_limited_cmd env time period s,
       left_wheel_joints :=
          write_pair (length (left_wheel_joints s) = 2 \<and> length (right_wheel_joints s) = 2)
            (fws_vel_left_front (lin (fws_limited_cmd env time period s))
               (getAngular env od) (wheel_separation s) (wheel_radius s) (wheel_base s))
            (fws_vel_left_rear (lin (fws_limited_cmd env time period s))
               (getAngular env od) (wheel_separation s) (wheel_radius s))
            (left_wheel_joints s),
       right_wheel_joints :=
          write_pair (length (left_wheel_joints s) = 2 \<and> length (right_wheel_joints s) = 2)
            (fws_vel_right_front (lin (fws_limited_cmd env time period s))
               (getAngular env od) (wheel_separation s) (wheel_radius s) (wheel_base s))
            (fws_vel_right_rear (lin (fws_limited_cmd env time period s))
               (getAngular env od) (wheel_separation s) (wheel_radius s))
            (right_wheel_joints s),
       left_steering_joints :=
          write_pair (length (left_steering_joints s) = 2 \<and> length (right_steering_joints s) = 2)
            (fst (fws_steering env (fws_limited_cmd env time period s) (s\<lparr>odometry := od\<rparr>)))
            (snd (fws_steering env (fws_limited_cmd env time period s) (s\<lparr>odometry := od\<rparr>)))
            (left_steering_joints s),
       right_steering_joints :=
          write_pair (length (left_steering_joints s) = 2 \<and> length (right_steering_joints s) = 2)
            (fst (fws_steering env (fws_limited_cmd env time period s) (s\<lparr>odometry := od\<rparr>)))
            (snd (fws_steering env (fws_limited_cmd env time period s) (s\<lparr>odometry := od\<rparr>)))
            (right_steering_joints s)\<rparr> \<and>
     snd (fws_update env time period a b s) =
       snd (publish_odometry env time a b (s\<lparr>odometry := od\<rparr>)) @
       (if length (left_wheel_joints s) = 2 \<and> length (right_wheel_joints s) = 2
        then [SetCommand (LeftWheel 0)
                (fws_vel_left_front (lin (fws_limited_cmd env time period s))
                   (getAngular env od) (wheel_separation s) (wheel_radius s) (wheel_base s)),
              SetCommand (RightWheel 0)
                (fws_vel_right_front (lin (fws_limited_cmd env time period s))
                   (getAngular env od) (wheel_separation s) (wheel_radius s) (wheel_base s)),
              SetCommand (LeftWheel 1)
                (fws_vel_left_rear (lin (fws_limited_cmd env time period s))
                   (getAngular env od) (wheel_separation s) (wheel_radius s)),
              SetCommand (RightWheel 1)
                (fws_vel_right_rear (lin (fws_limited_cmd env time period s))
                   (getAngular env od) (wheel_separation s) (wheel_radius s))]
        else []) @
       (if length (left_steering_joints s) = 2 \<and> length (right_steering_joints s) = 2
        then [SetCommand (LeftSteering 0)
                (fst (fws_steering env (fws_limited_cmd env time period s) (s\<lparr>odometry := od\<rparr>))),
              SetCommand (RightSteering 0)
                (fst (fws_steering env (fws_limited_cmd env time period s) (s\<lparr>odometry := od\<rparr>))),
              SetCommand (LeftSteering 1)
                (snd (fws_steering env (fws_limited_cmd env time period s) (s\<lparr>odometry := od\<rparr>))),
              SetCommand (RightSteering 1)
                (snd (fws_steering env (fws_limited_cmd env time period s) (s\<lparr>odometry := od\<rparr>)))]
        else [])"
proof -
  from assms obtain od where
    u: "fws_update env time period a b s =
       (fst (fws_move_robot env time period
               (fst (publish_odometry env time a b (s\<lparr>odometry := od\<rparr>)))),
        snd (publish_odometry env time a b (s\<lparr>odometry := od\<rparr>)) @
        snd (fws_move_robot env time period
               (fst (publish_odometry env time a b (s\<lparr>odometry := od\<rparr>)))))"
    using fws_update_running by blast
  have st: "\<And>t c. fws_steering env c (s\<lparr>odometry := od, last_state_publish_time := t\<rparr>) =
      fws_steering env c (s\<lparr>odometry := od\<rparr>)"
    by (simp add: fws_steering_def)
  show ?thesis
    by (rule exI [of _ od])
       (simp add: u fws_move_robot_fst fws_move_robot_snd publish_odometry_fst st)
qed

lemma ack_update_snd:
  assumes "\<not> aborted s"
  shows "\<exists>od. odometry (fst (ack_update env time period a b s)) = od \<and>
     snd (ack_update env time period a b s) =
       snd (publish_odometry env time a b (s\<lparr>odometry := od\<rparr>)) @
       concat (map (\<lambda>i.
        [SetCommand (LeftWheel i)
           (ack_vel_left (lin (ack_limited_cmd env time period s))
              (ang (ack_limited_cmd env time period s))
              (wheel_separation_multiplier s * wheel_separation s)
              (wheel_radius_multiplier s * wheel_radius s)),
         SetCommand (RightWheel i)
           (ack_vel_right (lin (ack_limited_cmd env time period s))
              (ang (ack_limited_cmd env time period s))
              (wheel_separation_multiplier s * wheel_separation s)
              (wheel_radius_multiplier s * wheel_radius s))]) [0..<wheel_joints_size s])"
proof -
  from assms obtain od where
    u: "ack_update env time period a b s =
       (fst (ack_move_robot env time period
               (fst (publish_odometry env time a b (s\<lparr>odometry := od\<rparr>)))),
        snd (publish_odometry env time a b (s\<lparr>odometry := od\<rparr>)) @
        snd (ack_move_robot env time period
               (fst (publish_odometry env time a b (s\<lparr>odometry := od\<rparr>)))))"
    using ack_update_running by blast
  show ?thesis
    by (simp add: u ack_move_robot_fst ack_move_robot_snd publish_odometry_fst)
qed

section \<open>Wheel velocities of the ackermann controller\<close>

text \<open>
  Claim C3. In a cycle of the ackermann controller that is not aborted, with
  \<open>(linear, angular)\<close> the command after the limiters, \<open>ws\<close> the wheel separation
  times its multiplier and \<open>wr\<close> the wheel radius times its multiplier, the setpoint of
  every left wheel is \<open>(linear - angular * ws / 2) / wr\<close> and the setpoint of every
  right wheel is \<open>(linear + angular * ws / 2) / wr\<close>. The handle vectors have the
  length \<^verbatim>\<open>wheel_joints_size_\<close>, as \<^verbatim>\<open>init\<close> leaves them. With multipliers 1,
  separation 0.5 and radius 0.1 the command (1, 0) gives 10 and 10, and the command
  (0, 2) gives -5 and 5.
\<close>

theorem ack_wheel_velocity_setpoints:
  "(\<not> aborted s \<and> length (left_wheel_joints s) = wheel_joints_size s \<and>
    length (right_wheel_joints s) = wheel_joints_size s \<longrightarrow>
      last0_cmd (fst (ack_update env time period a b s)) = ack_limited_cmd env time period s \<and>
      (\<forall>i < wheel_joints_size s.
         cmd (left_wheel_joints (fst (ack_update env time period a b s)) ! i) =
           (lin (ack_limited_cmd env time period s) -
            ang (ack_limited_cmd env time period s) *
              (wheel_separation_multiplier s * wheel_separation s) / Fin 2) /
           (wheel_radius_multiplier s * wheel_radius s) \<and>
         cmd (right_wheel_joints (fst (ack_update env time period a b s)) ! i) =
           (lin (ack_limited_cmd env time period s) +
            ang (ack_limited_cmd env time period s) *
              (wheel_separation_multiplier s * wheel_separation s) / Fin 2) /
           (wheel_radius_multiplier s * wheel_radius s))) \<and>
   ack_vel_left (Fin 1) (Fin 0) (Fin 1 * Fin (1 / 2)) (Fin 1 * Fin (1 / 10)) = Fin 10 \<and>
   ack_vel_right (Fin 1) (Fin 0) (Fin 1 * Fin (1 / 2)) (Fin 1 * Fin (1 / 10)) = Fin 10 \<and>
   ack_vel_left (Fin 0) (Fin 2) (Fin 1 * Fin (1 / 2)) (Fin 1 * Fin (1 / 10)) = Fin (- 5) \<and>
   ack_vel_right (Fin 0) (Fin 2) (Fin 1 * Fin (1 / 2)) (Fin 1 * Fin (1 / 10)) = Fin 5"
proof -
  have cycle: "last0_cmd (fst (ack_update env time period a b s)) = ack_limited_cmd env time period s \<and>
      (\<forall>i < wheel_joints_size s.
         cmd (left_wheel_joints (fst (ack_update env time period a b s)) ! i) =
           (lin (ack_limited_cmd env time period s) -
            ang (ack_limited_cmd env time period s) *
              (wheel_separation_multiplier s * wheel_separation s) / Fin 2) /
           (wheel_radius_multiplier s * wheel_radius s) \<and>
         cmd (right_wheel_joints (fst (ack_update env time period a b s)) ! i) =
           (lin (ack_limited_cmd env time period s) +
            ang (ack_limited_cmd env time period s) *
              (wheel_separation_multiplier s * wheel_separation s) / Fin 2) /
           (wheel_radius_multiplier s * wheel_radius s))"
    if run: "\<not> aborted s" and len: "length (left_wheel_joints s) = wheel_joints_size s"
      "length (right_wheel_joints s) = wheel_joints_size s"
  proof -
    from run obtain od where
      E: "fst (ack_update env time period a b s) =
        s\<lparr>odometry := od,
          last_state_publish_time :=
            (if last_state_publish_time s + publish_period s < time
             then last_state_publish_time s + publish_period s
             else last_state_publish_time s),
          last1_cmd := last0_cmd s,
          last0_cmd := ack_limited_cmd env time period s,
          left_wheel_joints :=
            write_cmds (ack_vel_left (lin (ack_limited_cmd env time period s))
                          (ang (ack_limited_cmd env time period s))
                          (wheel_separation_multiplier s * wheel_separation s)
                          (wheel_radius_multiplier s * wheel_radius s))
              [0..<wheel_joints_size s] (left_wheel_joints s),
          right_wheel_joints :=
            write_cmds (ack_vel_right (lin (ack_limited_cmd env time period s))
                          (ang (ack_limited_cmd env time period s))
                          (wheel_separation_multiplier s * wheel_separation s)
                          (wheel_radius_multiplier s * wheel_radius s))
              [0..<wheel_joints_size s] (right_wheel_joints s)\<rparr>"
      using ack_update_fst by blast
    show ?thesis
      using len by (simp add: E write_cmds_nth_cmd ack_vel_left_def ack_vel_right_def)
  qed
  have vals: "ack_vel_left (Fin 1) (Fin 0) (Fin 1 * Fin (1 / 2)) (Fin 1 * Fin (1 / 10)) = Fin 10"
    "ack_vel_right (Fin 1) (Fin 0) (Fin 1 * Fin (1 / 2)) (Fin 1 * Fin (1 / 10)) = Fin 10"
    "ack_vel_left (Fin 0) (Fin 2) (Fin 1 * Fin (1 / 2)) (Fin 1 * Fin (1 / 10)) = Fin (- 5)"
    "ack_vel_right (Fin 0) (Fin 2) (Fin 1 * Fin (1 / 2)) (Fin 1 * Fin (1 / 10)) = Fin 5"
    by (simp_all add: ack_vel_left_def ack_vel_right_def)
  from cycle vals show ?thesis by blast
qed

lemma ack_turn_runs: "\<not> aborted ack_turn"
  by (simp add: aborted_code ack_turn_def ack_demo_def joint_def Let_def)

theorem ack_wheel_velocity_setpoints_witness:
  "\<not> aborted ack_demo \<and> length (left_wheel_joints ack_demo) = wheel_joints_size ack_demo \<and>
   length (right_wheel_joints ack_demo) = wheel_joints_size ack_demo \<and>
   0 < wheel_joints_size ack_demo \<and>
   wheel_separation_multiplier ack_demo = Fin 1 \<and> wheel_radius_multiplier ack_demo = Fin 1 \<and>
   wheel_separation ack_demo = Fin (1 / 2) \<and> wheel_radius ack_demo = Fin (1 / 10) \<and>
   lin (ack_limited_cmd demo_env 1100000000 10000000 ack_demo) = Fin 1 \<and>
   ang (ack_limited_cmd demo_env 1100000000 10000000 ack_demo) = Fin 0 \<and>
   cmd (left_wheel_joints (fst (ack_update demo_env 1100000000 10000000 True True ack_demo)) ! 0) = Fin 10 \<and>
   cmd (right_wheel_joints (fst (ack_update demo_env 1100000000 10000000 True True ack_demo)) ! 0) = Fin 10 \<and>
   \<not> aborted ack_turn \<and> length (left_wheel_joints ack_turn) = wheel_joints_size ack_turn \<and>
   length (right_wheel_joints ack_turn) = wheel_joints_size ack_turn \<and>
   0 < wheel_joints_size ack_turn \<and>
   lin (ack_limited_cmd demo_env 1100000000 10000000 ack_turn) = Fin 0 \<and>
   ang (ack_limited_cmd demo_env 1100000000 10000000 ack_turn) = Fin 2 \<and>
   cmd (left_wheel_joints (fst (ack_update demo_env 1100000000 10000000 True True ack_turn)) ! 0) = Fin (- 5) \<and>
   cmd (right_wheel_joints (fst (ack_update demo_env 1100000000 10000000 True True ack_turn)) ! 0) = Fin 5"
proof -
  have d: "length (left_wheel_joints ack_demo) = wheel_joints_size ack_demo"
    "length (right_wheel_joints ack_demo) = wheel_joints_size ack_demo"
    "0 < wheel_joints_size ack_demo"
    "wheel_separation_multiplier ack_demo = Fin 1" "wheel_radius_multiplier ack_demo = Fin 1"
    "wheel_separation ack_demo = Fin (1 / 2)" "wheel_radius ack_demo = Fin (1 / 10)"
    "ack_limited_cmd demo_env 1100000000 10000000 ack_demo = \<lparr>lin = Fin 1, ang = Fin 0, stamp = 1000000000\<rparr>"
    by (simp_all add: ack_demo_def ack_limited_cmd_def ack_curr_cmd_def toSec_def demo_env_def
        clamp2_def Commands_default_def Let_def)
  have t: "length (left_wheel_joints ack_turn) = wheel_joints_size ack_turn"
    "length (right_wheel_joints ack_turn) = wheel_joints_size ack_turn"
    "0 < wheel_joints_size ack_turn"
    "wheel_separation_multiplier ack_turn = Fin 1" "wheel_radius_multiplier ack_turn = Fin 1"
    "wheel_separation ack_turn = Fin (1 / 2)" "wheel_radius ack_turn = Fin (1 / 10)"
    "ack_limited_cmd demo_env 1100000000 10000000 ack_turn = \<lparr>lin = Fin 0, ang = Fin 2, stamp = 1000000000\<rparr>"
    by (simp_all add: ack_turn_def ack_demo_def ack_limited_cmd_def ack_curr_cmd_def toSec_def
        demo_env_def clamp2_def Commands_default_def Let_def)
  note A = ack_wheel_velocity_setpoints [where s = ack_demo and env = demo_env
      and time = 1100000000 and period = 10000000 and a = True and b = True,
      THEN conjunct1, rule_format]
  note B = ack_wheel_velocity_setpoints [where s = ack_turn and env = demo_env
      and time = 1100000000 and period = 10000000 and a = True and b = True,
      THEN conjunct1, rule_format]
  have A': "cmd (left_wheel_joints (fst (ack_update demo_env 1100000000 10000000 True True ack_demo)) ! 0) = Fin 10 \<and>
      cmd (right_wheel_joints (fst (ack_update demo_env 1100000000 10000000 True True ack_demo)) ! 0) = Fin 10"
    using A ack_demo_runs d by simp
  have B': "cmd (left_wheel_joints (fst (ack_update demo_env 1100000000 10000000 True True ack_turn)) ! 0) = Fin (- 5) \<and>
      cmd (right_wheel_joints (fst (ack_update demo_env 1100000000 10000000 True True ack_turn)) ! 0) = Fin 5"
    using B ack_turn_runs t by simp
  show ?thesis
    using A' B' d t ack_demo_runs ack_turn_runs by simp
qed

section \<open>The limiter history\<close>

text \<open>
  Claim C7. In a cycle that is not aborted, each limiter is called with the command
  of the cycle and, as previous values, the values of \<^verbatim>\<open>last0_cmd_\<close> and
  \<^verbatim>\<open>last1_cmd_\<close>; afterwards \<^verbatim>\<open>last1_cmd_\<close> is the old \<^verbatim>\<open>last0_cmd_\<close> and
  \<^verbatim>\<open>last0_cmd_\<close> is the command of the cycle with the limited linear and angular
  values. So in the next cycle that is not aborted the previous values are the limited
  values of this cycle and of the one before. This holds for both controllers.
\<close>

theorem limiter_history:
  "(\<not> aborted s \<longrightarrow>
      last1_cmd (fst (ack_update env time period a b s)) = last0_cmd s \<and>
      last0_cmd (fst (ack_update env time period a b s)) =
        (ack_curr_cmd time s)
          \<lparr>lin := limiter_lin_limit env (lin (ack_curr_cmd time s))
                    (lin (last0_cmd s)) (lin (last1_cmd s)) (toSec period),
           ang := limiter_ang_limit env (ang (ack_curr_cmd time s))
                    (ang (last0_cmd s)) (ang (last1_cmd s)) (toSec period)\<rparr> \<and>
      (\<not> aborted (fst (ack_update env time period a b s)) \<longrightarrow>
         lin (last0_cmd (fst (ack_update env time' period' a' b' (fst (ack_update env time period a b s))))) =
           limiter_lin_limit env
             (lin (ack_curr_cmd time' (fst (ack_update env time period a b s))))
             (limiter_lin_limit env (lin (ack_curr_cmd time s))
                (lin (last0_cmd s)) (lin (last1_cmd s)) (toSec period))
             (lin (last0_cmd s)) (toSec period') \<and>
         ang (last0_cmd (fst (ack_update env time' period' a' b' (fst (ack_update env time period a b s))))) =
           limiter_ang_limit env
             (ang (ack_curr_cmd time' (fst (ack_update env time period a b s))))
             (limiter_ang_limit env (ang (ack_curr_cmd time s))
                (ang (last0_cmd s)) (ang (last1_cmd s)) (toSec period))
             (ang (last0_cmd s)) (toSec period'))) \<and>
   (\<not> aborted f \<longrightarrow>
      last1_cmd (fst (fws_update env time period a b f)) = last0_cmd f \<and>
      last0_cmd (fst (fws_update env time period a b f)) =
        (fws_curr_cmd time f)
          \<lparr>lin := limiter_lin_limit env (lin (fws_curr_cmd time f))
                    (lin (last0_cmd f)) (lin (last1_cmd f)) (toSec period),
           ang := limiter_ang_limit env (ang (fws_curr_cmd time f))
                    (ang (last0_cmd f)) (ang (last1_cmd f)) (toSec period)\<rparr> \<and>
      (\<not> aborted (fst (fws_update env time period a b f)) \<longrightarrow>
         lin (last0_cmd (fst (fws_update env time' period' a' b' (fst (fws_update env time period a b f))))) =
           limiter_lin_limit env
             (lin (fws_curr_cmd time' (fst (fws_update env time period a b f))))
             (limiter_lin_limit env (lin (fws_curr_cmd time f))
                (lin (last0_cmd f)) (lin (last1_cmd f)) (toSec period))
             (lin (last0_cmd f)) (toSec period') \<and>
         ang (last0_cmd (fst (fws_update env time' period' a' b' (fst (fws_update env time period a b f))))) =
           limiter_ang_limit env
             (ang (fws_curr_cmd time' (fst (fws_update env time period a b f))))
             (limiter_ang_limit env (ang (fws_curr_cmd time f))
                (ang (last0_cmd f)) (ang (last1_cmd f)) (toSec period))
             (ang (last0_cmd f)) (toSec period')))"
proof -
  have ack1: "last1_cmd (fst (ack_update env t p x y z)) = last0_cmd z \<and>
      last0_cmd (fst (ack_update env t p x y z)) =
        (ack_curr_cmd t z)
          \<lparr>lin := limiter_lin_limit env (lin (ack_curr_cmd t z))
                    (lin (last0_cmd z)) (lin (last1_cmd z)) (toSec p),
           ang := limiter_ang_limit env (ang (ack_curr_cmd t z))
                    (ang (last0_cmd z)) (ang (last1_cmd z)) (toSec p)\<rparr>"
    if "\<not> aborted z" for t p x y and z :: "'a AckermannController"
  proof -
    from that obtain od where
      "ack_update env t p x y z =
         (fst (ack_move_robot env t p (fst (publish_odometry env t x y (z\<lparr>odometry := od\<rparr>)))),
          snd (publish_odometry env t x y (z\<lparr>odometry := od\<rparr>)) @
          snd (ack_move_robot env t p (fst (publish_odometry env t x y (z\<lparr>odometry := od\<rparr>)))))"
      using ack_update_running by blast
    then show ?thesis
      by (simp add: ack_move_robot_fst publish_odometry_fst ack_limited_cmd_def Let_def)
  qed
  have fws1: "last1_cmd (fst (fws_update env t p x y z)) = last0_cmd z \<and>
      last0_cmd (fst (fws_update env t p x y z)) =
        (fws_curr_cmd t z)
          \<lparr>lin := limiter_lin_limit env (lin (fws_curr_cmd t z))
                    (lin (last0_cmd z)) (lin (last1_cmd z)) (toSec p),
           ang := limiter_ang_limit env (ang (fws_curr_cmd t z))
                    (ang (last0_cmd z)) (ang (last1_cmd z)) (toSec p)\<rparr>"
    if "\<not> aborted z" for t p x y and z :: "'a FourWheelSteeringController"
  proof -
    from that obtain od where
      "fws_update env t p x y z =
         (fst (fws_move_robot env t p (fst (publish_odometry env t x y (z\<lparr>odometry := od\<rparr>)))),
          snd (publish_odometry env t x y (z\<lparr>odometry := od\<rparr>)) @
          snd (fws_move_robot env t p (fst (publish_odometry env t x y (z\<lparr>odometry := od\<rparr>)))))"
      using fws_update_running by blast
    then show ?thesis
      by (simp add: fws_move_robot_fst publish_odometry_fst fws_limited_cmd_def Let_def)
  qed
  have ack2: "lin (last0_cmd (fst (ack_update env time' period' a' b' (fst (ack_update env time period a b s))))) =
           limiter_lin_limit env
             (lin (ack_curr_cmd time' (fst (ack_update env time period a b s))))
             (limiter_lin_limit env (lin (ack_curr_cmd time s))
                (lin (last0_cmd s)) (lin (last1_cmd s)) (toSec period))
             (lin (last0_cmd s)) (toSec period') \<and>
         ang (last0_cmd (fst (ack_update env time' period' a' b' (fst (ack_update env time period a b s))))) =
           limiter_ang_limit env
             (ang (ack_curr_cmd time' (fst (ack_update env time period a b s))))
             (limiter_ang_limit env (ang (ack_curr_cmd time s))
                (ang (last0_cmd s)) (ang (last1_cmd s)) (toSec period))
             (ang (last0_cmd s)) (toSec period')"
    if "\<not> aborted s" "\<not> aborted (fst (ack_update env time period a b s))"
    using ack1 [OF that(1), of time period a b]
      ack1 [OF that(2), of time' period' a' b'] by simp
  have fws2: "lin (last0_cmd (fst (fws_update env time' period' a' b' (fst (fws_update env time period a b f))))) =
           limiter_lin_limit env
             (lin (fws_curr_cmd time' (fst (fws_update env time period a b f))))
             (limiter_lin_limit env (lin (fws_curr_cmd time f))
                (lin (last0_cmd f)) (lin (last1_cmd f)) (toSec period))
             (lin (last0_cmd f)) (toSec period') \<and>
         ang (last0_cmd (fst (fws_update env time' period' a' b' (fst (fws_update env time period a b f))))) =
           limiter_ang_limit env
             (ang (fws_curr_cmd time' (fst (fws_update env time period a b f))))
             (limiter_ang_limit env (ang (fws_curr_cmd time f))
                (ang (last0_cmd f)) (ang (last1_cmd f)) (toSec period))
             (ang (last0_cmd f)) (toSec period')"
    if "\<not> aborted f" "\<not> aborted (fst (fws_update env time period a b f))"
    using fws1 [OF that(1), of time period a b]
      fws1 [OF that(2), of time' period' a' b'] by simp
  show ?thesis
    using ack1 [of s time period a b] ack2 fws1 [of f time period a b] fws2 by blast
qed

text \<open>A cycle writes setpoints only, so it does not change what the sensors report.\<close>

lemma sum_wheel_readings_cong:
  assumes "\<And>i. position (L' ! i) = position (L ! i) \<and> velocity (L' ! i) = velocity (L ! i)"
    and "\<And>i. position (R' ! i) = position (R ! i) \<and> velocity (R' ! i) = velocity (R ! i)"
  shows "sum_wheel_readings L' R' is acc = sum_wheel_readings L R is acc"
proof (induction "is" arbitrary: acc)
  case Nil
  then show ?case by simp
next
  case (Cons j js)
  obtain p q r t where acc: "acc = (p, q, r, t)" by (cases acc) auto
  show ?case unfolding acc using assms by (simp add: Cons.IH Let_def)
qed

lemma write_pair_sensors:
  "position (write_pair g v0 v1 xs ! i) = position (xs ! i) \<and>
   velocity (write_pair g v0 v1 xs ! i) = velocity (xs ! i)"
proof (cases g)
  case False
  then show ?thesis by (simp add: write_pair_def)
next
  case True
  have step: "position (ys[j := setCommand v (ys ! j)] ! i) = position (ys ! i) \<and>
      velocity (ys[j := setCommand v (ys ! j)] ! i) = velocity (ys ! i)" for ys j v
  proof (cases "j < length ys")
    case True
    then show ?thesis by (auto simp: nth_list_update setCommand_def)
  next
    case False
    then have "ys[j := setCommand v (ys ! j)] = ys" by (simp add: list_update_beyond)
    then show ?thesis by simp
  qed
  have "write_pair g v0 v1 xs =
      (xs[0 := setCommand v0 (xs ! 0)])[1 := setCommand v1 (xs[0 := setCommand v0 (xs ! 0)] ! 1)]"
    using True by (cases "length xs > 0") (simp_all add: write_pair_def list_update_beyond)
  then show ?thesis
    using step [of "xs[0 := setCommand v0 (xs ! 0)]" 1 v1] step [of xs 0 v0] by simp
qed

lemma sum_wheel_readings_write_cmds:
  "sum_wheel_readings (write_cmds v is L) (write_cmds w js R) ks acc = sum_wheel_readings L R ks acc"
  by (rule sum_wheel_readings_cong) (simp_all add: write_cmds_sensors)

lemma sum_wheel_readings_write_pair:
  "sum_wheel_readings (write_pair g v0 v1 L) (write_pair h w0 w1 R) ks acc =
   sum_wheel_readings L R ks acc"
  by (rule sum_wheel_readings_cong) (simp_all add: write_pair_sensors)

lemma ack_update_aborted [simp]:
  "aborted (fst (ack_update env time period a b s)) = aborted s"
proof (cases "aborted s")
  case True
  then show ?thesis by (simp add: ack_aborted_update)
next
  case False
  then obtain od where
    E: "fst (ack_update env time period a b s) =
      s\<lparr>odometry := od,
        last_state_publish_time :=
          (if last_state_publish_time s + publish_period s < time
           then last_state_publish_time s + publish_period s
           else last_state_publish_time s),
        last1_cmd := last0_cmd s,
        last0_cmd := ack_limited_cmd env time period s,
        left_wheel_joints :=
          write_cmds (ack_vel_left (lin (ack_limited_cmd env time period s))
                        (ang (ack_limited_cmd env time period s))
                        (wheel_separation_multiplier s * wheel_separation s)
                        (wheel_radius_multiplier s * wheel_radius s))
            [0..<wheel_joints_size s] (left_wheel_joints s),
        right_wheel_joints :=
          write_cmds (ack_vel_right (lin (ack_limited_cmd env time period s))
                        (ang (ack_limited_cmd env time period s))
                        (wheel_separation_multiplier s * wheel_separation s)
                        (wheel_radius_multiplier s * wheel_radius s))
            [0..<wheel_joints_size s] (right_wheel_joints s)\<rparr>"
    using ack_update_fst by blast
  show ?thesis
    by (simp add: E aborted_code sum_wheel_readings_write_cmds)
qed

lemma fws_update_aborted [simp]:
  "aborted (fst (fws_update env time period a b s)) = aborted s"
proof (cases "aborted s")
  case True
  then show ?thesis by (simp add: fws_aborted_update)
next
  case False
  then obtain od where
    "fst (fws_update env time period a b s) =
     s\<lparr>odometry := od,
       last_state_publish_time :=
          (if last_state_publish_time s + publish_period s < time
           then last_state_publish_time s + publish_period s
           else last_state_publish_time s),
       last1_cmd := last0_cmd s,
       last0_cmd := fws_limited_cmd env time period s,
       left_wheel_joints :=
          write_pair (length (left_wheel_joints s) = 2 \<and> length (right_wheel_joints s) = 2)
            (fws_vel_left_front (lin (fws_limited_cmd env time period s))
               (getAngular env od) (wheel_separation s) (wheel_radius s) (wheel_base s))
            (fws_vel_left_rear (lin (fws_limited_cmd env time period s))
               (getAngular env od) (wheel_separation s) (wheel_radius s))
            (left_wheel_joints s),
       right_wheel_joints :=
          write_pair (length (left_wheel_joints s) = 2 \<and> length (right_wheel_joints s) = 2)
            (fws_vel_right_front (lin (fws_limited_cmd env time period s))
               (getAngular env od) (wheel_separation s) (wheel_radius s) (wheel_base s))
            (fws_vel_right_rear (lin (fws_limited_cmd env time period s))
               (getAngular env od) (wheel_separation s) (wheel_radius s))
            (right_wheel_joints s),
       left_steering_joints :=
          write_pair (length (left_steering_joints s) = 2 \<and> length (right_steering_joints s) = 2)
            (fst (fws_steering env (fws_limited_cmd env time period s) (s\<lparr>odometry := od\<rparr>)))
            (snd (fws_steering env (fws_limited_cmd env time period s) (s\<lparr>odometry := od\<rparr>)))
            (left_steering_joints s),
       right_steering_joints :=
          write_pair (length (left_steering_joints s) = 2 \<and> length (right_steering_joints s) = 2)
            (fst (fws_steering env (fws_limited_cmd env time period s) (s\<lparr>odometry := od\<rparr>)))
            (snd (fws_steering env (fws_limited_cmd env time period s) (s\<lparr>odometry := od\<rparr>)))
            (right_steering_joints s)\<rparr>"
    using fws_update_fst by blast
  then show ?thesis
    by (simp add: aborted_code sum_wheel_readings_write_pair)
qed

theorem limiter_history_witness:
  "\<not> aborted ack_demo \<and>
   \<not> aborted (fst (ack_update demo_env 1100000000 10000000 True True ack_demo)) \<and>
   last1_cmd (fst (ack_update demo_env 1100000000 10000000 True True ack_demo)) = last0_cmd ack_demo \<and>
   last0_cmd (fst (ack_update demo_env 1100000000 10000000 True True ack_demo)) =
     \<lparr>lin = Fin 1, ang = Fin 0, stamp = 1000000000\<rparr> \<and>
   lin (last0_cmd (fst (ack_update demo_env 1110000000 10000000 True True
          (fst (ack_update demo_env 1100000000 10000000 True True ack_demo))))) =
     clamp2 (lin (ack_curr_cmd 1110000000 (fst (ack_update demo_env 1100000000 10000000 True True ack_demo))))
       (Fin 1) (Fin 0) (toSec 10000000) \<and>
   \<not> aborted fws_demo \<and>
   \<not> aborted (fst (fws_update demo_env 1100000000 10000000 True True fws_demo)) \<and>
   last1_cmd (fst (fws_update demo_env 1100000000 10000000 True True fws_demo)) = last0_cmd fws_demo \<and>
   last0_cmd (fst (fws_update demo_env 1100000000 10000000 True True fws_demo)) =
     \<lparr>lin = Fin 1, ang = Fin 0, stamp = 1000000000,
      front_steering = Fin (3 / 10), rear_steering = Fin (- (2 / 10))\<rparr> \<and>
   lin (last0_cmd (fst (fws_update demo_env 1110000000 10000000 True True
          (fst (fws_update demo_env 1100000000 10000000 True True fws_demo))))) =
     clamp2 (lin (fws_curr_cmd 1110000000 (fst (fws_update demo_env 1100000000 10000000 True True fws_demo))))
       (Fin 1) (Fin 0) (toSec 10000000)"
proof -
  have d: "ack_curr_cmd 1100000000 ack_demo = \<lparr>lin = Fin 1, ang = Fin 0, stamp = 1000000000\<rparr>"
    "last0_cmd ack_demo = Commands_default" "last1_cmd ack_demo = Commands_default"
    by (simp_all add: ack_demo_def ack_curr_cmd_def toSec_def Let_def)
  have e: "fws_curr_cmd 1100000000 fws_demo =
      \<lparr>lin = Fin 1, ang = Fin 0, stamp = 1000000000,
       front_steering = Fin (3 / 10), rear_steering = Fin (- (2 / 10))\<rparr>"
    "last0_cmd fws_demo = Commands4_default" "last1_cmd fws_demo = Commands4_default"
    by (simp_all add: fws_demo_def fws_curr_cmd_def toSec_def Let_def)
  have l: "limiter_lin_limit demo_env = clamp2" "limiter_ang_limit demo_env = clamp2"
    by (simp_all add: demo_env_def)
  have r: "\<not> aborted (fst (ack_update demo_env 1100000000 10000000 True True ack_demo))"
    "\<not> aborted (fst (fws_update demo_env 1100000000 10000000 True True fws_demo))"
    using ack_demo_runs fws_demo_runs by simp_all
  note A = limiter_history [where s = ack_demo and f = fws_demo and env = demo_env
      and time = 1100000000 and period = 10000000 and a = True and b = True
      and time' = 1110000000 and period' = 10000000 and a' = True and b' = True]
  show ?thesis
    using A r ack_demo_runs fws_demo_runs
    by (simp add: d e l clamp2_def Commands_default_def Commands4_default_def)
qed

section \<open>Steering of the four-wheel-steering controller\<close>

text \<open>
  The steering setpoints after a cycle that is not aborted, with two steering joints
  on each side: the front value on the first joint of each side and the rear value on
  the second, computed from the command after the limiters and the odometry after its
  update.
\<close>

lemma fws_steering_setpoints:
  assumes run: "\<not> aborted f"
    and len: "length (left_steering_joints f) = 2" "length (right_steering_joints f) = 2"
  shows "map cmd (left_steering_joints (fst (fws_update env time period a b f))) =
           [fst (fws_steering env (fws_limited_cmd env time period f)
                   (f\<lparr>odometry := odometry (fst (fws_update env time period a b f))\<rparr>)),
            snd (fws_steering env (fws_limited_cmd env time period f)
                   (f\<lparr>odometry := odometry (fst (fws_update env time period a b f))\<rparr>))]"
    and "map cmd (right_steering_joints (fst (fws_update env time period a b f))) =
           [fst (fws_steering env (fws_limited_cmd env time period f)
                   (f\<lparr>odometry := odometry (fst (fws_update env time period a b f))\<rparr>)),
            snd (fws_steering env (fws_limited_cmd env time period f)
                   (f\<lparr>odometry := odometry (fst (fws_update env time period a b f))\<rparr>))]"
    and "\<exists>es. snd (fws_update env time period a b f) = es @
           [SetCommand (LeftSteering 0)
              (fst (fws_steering env (fws_limited_cmd env time period f)
                   (f\<lparr>odometry := odometry (fst (fws_update env time period a b f))\<rparr>))),
            SetCommand (RightSteering 0)
              (fst (fws_steering env (fws_limited_cmd env time period f)
                   (f\<lparr>odometry := odometry (fst (fws_update env time period a b f))\<rparr>))),
            SetCommand (LeftSteering 1)
              (snd (fws_steering env (fws_limited_cmd env time period f)
                   (f\<lparr>odometry := odometry (fst (fws_update env time period a b f))\<rparr>))),
            SetCommand (RightSteering 1)
              (snd (fws_steering env (fws_limited_cmd env time period f)
                   (f\<lparr>odometry := odometry (fst (fws_update env time period a b f))\<rparr>)))]"
    and "last0_cmd (fst (fws_update env time period a b f)) = fws_limited_cmd env time period f"
proof -
  from run obtain od where
    E: "fst (fws_update env time period a b f) =
     f\<lparr>odometry := od,
       last_state_publish_time :=
          (if last_state_publish_time f + publish_period f < time
           then last_state_publish_time f + publish_period f
           else last_state_publish_time f),
       last1_cmd := last0_cmd f,
       last0_cmd := fws_limited_cmd env time period f,
       left_wheel_joints :=
          write_pair (length (left_wheel_joints f) = 2 \<and> length (right_wheel_joints f) = 2)
            (fws_vel_left_front (lin (fws_limited_cmd env time period f))
               (getAngular env od) (wheel_separation f) (wheel_radius f) (wheel_base f))
            (fws_vel_left_rear (lin (fws_limited_cmd env time period f))
               (getAngular env od) (wheel_separation f) (wheel_radius f))
            (left_wheel_joints f),
       right_wheel_joints :=
          write_pair (length (left_wheel_joints f) = 2 \<and> length (right_wheel_joints f) = 2)
            (fws_vel_right_front (lin (fws_limited_cmd env time period f))
               (getAngular env od) (wheel_separation f) (wheel_radius f) (wheel_base f))
            (fws_vel_right_rear (lin (fws_limited_cmd env time period f))
               (getAngular env od) (wheel_separation f) (wheel_radius f))
            (right_wheel_joints f),
       left_steering_joints :=
          write_pair (length (left_steering_joints f) = 2 \<and> length (right_steering_joints f) = 2)
            (fst (fws_steering env (fws_limited_cmd env time period f) (f\<lparr>odometry := od\<rparr>)))
            (snd (fws_steering env (fws_limited_cmd env time period f) (f\<lparr>odometry := od\<rparr>)))
            (left_steering_joints f),
       right_steering_joints :=
          write_pair (length (left_steering_joints f) = 2 \<and> length (right_steering_joints f) = 2)
            (fst (fws_steering env (fws_limited_cmd env time period f) (f\<lparr>odometry := od\<rparr>)))
            (snd (fws_steering env (fws_limited_cmd env time period f) (f\<lparr>odometry := od\<rparr>)))
            (right_steering_joints f)\<rparr>"
    and S: "snd (fws_update env time period a b f) =
       snd (publish_odometry env time a b (f\<lparr>odometry := od\<rparr>)) @
       (if length (left_wheel_joints f) = 2 \<and> length (right_wheel_joints f) = 2
        then [SetCommand (LeftWheel 0)
                (fws_vel_left_front (lin (fws_limited_cmd env time period f))
                   (getAngular env od) (wheel_separation f) (wheel_radius f) (wheel_base f)),
              SetCommand (RightWheel 0)
                (fws_vel_right_front (lin (fws_limited_cmd env time period f))
                   (getAngular env od) (wheel_separation f) (wheel_radius f) (wheel_base f)),
              SetCommand (LeftWheel 1)
                (fws_vel_left_rear (lin (fws_limited_cmd env time period f))
                   (getAngular env od) (wheel_separation f) (wheel_radius f)),
              SetCommand (RightWheel 1)
                (fws_vel_right_rear (lin (fws_limited_cmd env time period f))
                   (getAngular env od) (wheel_separation f) (wheel_radius f))]
        else []) @
       (if length (left_steering_joints f) = 2 \<and> length (right_steering_joints f) = 2
        then [SetCommand (LeftSteering 0)
                (fst (fws_steering env (fws_limited_cmd env time period f) (f\<lparr>odometry := od\<rparr>))),
              SetCommand (RightSteering 0)
                (fst (fws_steering env (fws_limited_cmd env time period f) (f\<lparr>odometry := od\<rparr>))),
              SetCommand (LeftSteering 1)
                (snd (fws_steering env (fws_limited_cmd env time period f) (f\<lparr>odometry := od\<rparr>))),
              SetCommand (RightSteering 1)
                (snd (fws_steering env (fws_limited_cmd env time period f) (f\<lparr>odometry := od\<rparr>)))]
        else [])"
    using fws_update_fst [of f env time period a b] by blast
  have od: "odometry (fst (fws_update env time period a b f)) = od"
    by (simp add: E)
  show "map cmd (left_steering_joints (fst (fws_update env time period a b f))) =
           [fst (fws_steering env (fws_limited_cmd env time period f)
                   (f\<lparr>odometry := odometry (fst (fws_update env time period a b f))\<rparr>)),
            snd (fws_steering env (fws_limited_cmd env time period f)
                   (f\<lparr>odometry := odometry (fst (fws_update env time period a b f))\<rparr>))]"
    unfolding od using len by (simp add: E write_pair_two setCommand_def)
  show "map cmd (right_steering_joints (fst (fws_update env time period a b f))) =
           [fst (fws_steering env (fws_limited_cmd env time period f)
                   (f\<lparr>odometry := odometry (fst (fws_update env time period a b f))\<rparr>)),
            snd (fws_steering env (fws_limited_cmd env time period f)
                   (f\<lparr>odometry := odometry (fst (fws_update env time period a b f))\<rparr>))]"
    unfolding od using len by (simp add: E write_pair_two setCommand_def)
  show "\<exists>es. snd (fws_update env time period a b f) = es @
           [SetCommand (LeftSteering 0)
              (fst (fws_steering env (fws_limited_cmd env time period f)
                   (f\<lparr>odometry := odometry (fst (fws_update env time period a b f))\<rparr>))),
            SetCommand (RightSteering 0)
              (fst (fws_steering env (fws_limited_cmd env time period f)
                   (f\<lparr>odometry := odometry (fst (fws_update env time period a b f))\<rparr>))),
            SetCommand (LeftSteering 1)
              (snd (fws_steering env (fws_limited_cmd env time period f)
                   (f\<lparr>odometry := odometry (fst (fws_update env time period a b f))\<rparr>))),
            SetCommand (RightSteering 1)
              (snd (fws_steering env (fws_limited_cmd env time period f)
                   (f\<lparr>odometry := odometry (fst (fws_update env time period a b f))\<rparr>)))]"
    unfolding od using len by (simp add: S del: append_assoc add: append_assoc [symmetric])
  show "last0_cmd (fst (fws_update env time period a b f)) = fws_limited_cmd env time period f"
    by (simp add: E)
qed

text \<open>
  Claim C4. In the direct-axle mode (\<^verbatim>\<open>enable_twist_cmd_\<close> false), in a cycle that is
  not aborted and whose command is not stale, the steering setpoints are the
  command's \<^verbatim>\<open>front_steering\<close> on the first steering joint of each side and its
  \<^verbatim>\<open>rear_steering\<close> on the second, whatever the limiters are; these four writes are the
  last effects of the cycle. Only the linear and the angular value of the command go
  through a limiter. There are two steering joints on each side, as \<^verbatim>\<open>init\<close> insists.
\<close>

theorem fws_direct_axle_steering:
  "\<not> aborted f \<and> enable_twist_cmd f = False \<and>
   \<not> cmd_vel_timeout f < toSec (time - stamp (command_four_wheel_steering f)) \<and>
   length (left_steering_joints f) = 2 \<and> length (right_steering_joints f) = 2 \<longrightarrow>
     map cmd (left_steering_joints (fst (fws_update env time period a b f))) =
       [front_steering (command_four_wheel_steering f), rear_steering (command_four_wheel_steering f)] \<and>
     map cmd (right_steering_joints (fst (fws_update env time period a b f))) =
       [front_steering (command_four_wheel_steering f), rear_steering (command_four_wheel_steering f)] \<and>
     (\<exists>es. snd (fws_update env time period a b f) = es @
        [SetCommand (LeftSteering 0) (front_steering (command_four_wheel_steering f)),
         SetCommand (RightSteering 0) (front_steering (command_four_wheel_steering f)),
         SetCommand (LeftSteering 1) (rear_steering (command_four_wheel_steering f)),
         SetCommand (RightSteering 1) (rear_steering (command_four_wheel_steering f))]) \<and>
     last0_cmd (fst (fws_update env time period a b f)) =
       (command_four_wheel_steering f)
         \<lparr>lin := limiter_lin_limit env (lin (command_four_wheel_steering f))
                   (lin (last0_cmd f)) (lin (last1_cmd f)) (toSec period),
          ang := limiter_ang_limit env (ang (command_four_wheel_steering f))
                   (ang (last0_cmd f)) (ang (last1_cmd f)) (toSec period)\<rparr>"
proof (intro impI)
  assume h: "\<not> aborted f \<and> enable_twist_cmd f = False \<and>
   \<not> cmd_vel_timeout f < toSec (time - stamp (command_four_wheel_steering f)) \<and>
   length (left_steering_joints f) = 2 \<and> length (right_steering_joints f) = 2"
  then have run: "\<not> aborted f" and len: "length (left_steering_joints f) = 2"
    "length (right_steering_joints f) = 2" by simp_all
  from h have c: "fws_curr_cmd time f = command_four_wheel_steering f"
    by (simp add: fws_curr_cmd_def Let_def)
  have st: "fws_steering env (fws_limited_cmd env time period f) z =
      (front_steering (command_four_wheel_steering f), rear_steering (command_four_wheel_steering f))"
    if "enable_twist_cmd z = False" for z
    using that by (simp add: fws_steering_def fws_limited_cmd_def c Let_def)
  have st': "fws_steering env (fws_limited_cmd env time period f)
       (f\<lparr>odometry := odometry (fst (fws_update env time period a b f))\<rparr>) =
      (front_steering (command_four_wheel_steering f), rear_steering (command_four_wheel_steering f))"
    using h by (intro st) simp
  show "map cmd (left_steering_joints (fst (fws_update env time period a b f))) =
       [front_steering (command_four_wheel_steering f), rear_steering (command_four_wheel_steering f)] \<and>
     map cmd (right_steering_joints (fst (fws_update env time period a b f))) =
       [front_steering (command_four_wheel_steering f), rear_steering (command_four_wheel_steering f)] \<and>
     (\<exists>es. snd (fws_update env time period a b f) = es @
        [SetCommand (LeftSteering 0) (front_steering (command_four_wheel_steering f)),
         SetCommand (RightSteering 0) (front_steering (command_four_wheel_steering f)),
         SetCommand (LeftSteering 1) (rear_steering (command_four_wheel_steering f)),
         SetCommand (RightSteering 1) (rear_steering (command_four_wheel_steering f))]) \<and>
     last0_cmd (fst (fws_update env time period a b f)) =
       (command_four_wheel_steering f)
         \<lparr>lin := limiter_lin_limit env (lin (command_four_wheel_steering f))
                   (lin (last0_cmd f)) (lin (last1_cmd f)) (toSec period),
          ang := limiter_ang_limit env (ang (command_four_wheel_steering f))
                   (ang (last0_cmd f)) (ang (last1_cmd f)) (toSec period)\<rparr>"
    using fws_steering_setpoints [OF run len, of env time period a b, unfolded st']
    by (simp add: fws_limited_cmd_def c Let_def)
qed

theorem fws_direct_axle_steering_witness:
  "\<not> aborted fws_demo \<and> enable_twist_cmd fws_demo = False \<and>
   \<not> cmd_vel_timeout fws_demo < toSec (1100000000 - stamp (command_four_wheel_steering fws_demo)) \<and>
   length (left_steering_joints fws_demo) = 2 \<and> length (right_steering_joints fws_demo) = 2 \<and>
   map cmd (left_steering_joints (fst (fws_update demo_env 1100000000 10000000 True True fws_demo))) =
     [Fin (3 / 10), Fin (- (2 / 10))] \<and>
   map cmd (right_steering_joints (fst (fws_update demo_env 1100000000 10000000 True True fws_demo))) =
     [Fin (3 / 10), Fin (- (2 / 10))]"
proof -
  have h: "enable_twist_cmd fws_demo = False"
    "\<not> cmd_vel_timeout fws_demo < toSec (1100000000 - stamp (command_four_wheel_steering fws_demo))"
    "length (left_steering_joints fws_demo) = 2" "length (right_steering_joints fws_demo) = 2"
    "front_steering (command_four_wheel_steering fws_demo) = Fin (3 / 10)"
    "rear_steering (command_four_wheel_steering fws_demo) = Fin (- (2 / 10))"
    by (simp_all add: fws_demo_def toSec_def)
  show ?thesis
    using fws_direct_axle_steering [where f = fws_demo and time = 1100000000 and env = demo_env
        and period = 10000000 and a = True and b = True] fws_demo_runs h
    by simp
qed

text \<open>
  Claim C5. In the twist mode (\<^verbatim>\<open>enable_twist_cmd_\<close> true), in a cycle that is not
  aborted, with \<open>v\<close> the linear velocity of the odometry after its update of this cycle
  and \<open>w\<close> the angular command after its limiter: when the magnitude of \<open>v\<close> is at most
  0.01 (or \<open>v\<close> is \<open>NaN\<close>) all four steering setpoints are zero; when it exceeds 0.01,
  the first steering joint of each side gets \<open>atan (w * wheel_base / v) / 2\<close> and the
  second its negation. There are two steering joints on each side.
\<close>

theorem fws_twist_steering:
  "\<not> aborted f \<and> enable_twist_cmd f = True \<and>
   length (left_steering_joints f) = 2 \<and> length (right_steering_joints f) = 2 \<longrightarrow>
     ang (last0_cmd (fst (fws_update env time period a b f))) =
       limiter_ang_limit env (ang (fws_curr_cmd time f))
         (ang (last0_cmd f)) (ang (last1_cmd f)) (toSec period) \<and>
     (fabs (getLinear env (odometry (fst (fws_update env time period a b f)))) \<le> Fin (1 / 100) \<or>
      isnan (getLinear env (odometry (fst (fws_update env time period a b f)))) \<longrightarrow>
        map cmd (left_steering_joints (fst (fws_update env time period a b f))) = [Fin 0, Fin 0] \<and>
        map cmd (right_steering_joints (fst (fws_update env time period a b f))) = [Fin 0, Fin 0]) \<and>
     (Fin (1 / 100) < fabs (getLinear env (odometry (fst (fws_update env time period a b f)))) \<longrightarrow>
        map cmd (left_steering_joints (fst (fws_update env time period a b f))) =
          [atan (ang (last0_cmd (fst (fws_update env time period a b f))) * wheel_base f /
                 getLinear env (odometry (fst (fws_update env time period a b f)))) / Fin 2,
           - atan (ang (last0_cmd (fst (fws_update env time period a b f))) * wheel_base f /
                   getLinear env (odometry (fst (fws_update env time period a b f)))) / Fin 2] \<and>
        map cmd (right_steering_joints (fst (fws_update env time period a b f))) =
          [atan (ang (last0_cmd (fst (fws_update env time period a b f))) * wheel_base f /
                 getLinear env (odometry (fst (fws_update env time period a b f)))) / Fin 2,
           - atan (ang (last0_cmd (fst (fws_update env time period a b f))) * wheel_base f /
                   getLinear env (odometry (fst (fws_update env time period a b f)))) / Fin 2])"
proof (intro impI)
  assume h: "\<not> aborted f \<and> enable_twist_cmd f = True \<and>
   length (left_steering_joints f) = 2 \<and> length (right_steering_joints f) = 2"
  then have run: "\<not> aborted f" and len: "length (left_steering_joints f) = 2"
    "length (right_steering_joints f) = 2" and mode: "enable_twist_cmd f = True" by simp_all
  define v where "v = getLinear env (odometry (fst (fws_update env time period a b f)))"
  have low: "\<not> Fin (1 / 100) < fabs v" if "fabs v \<le> Fin (1 / 100) \<or> isnan v"
    using that by (cases v) auto
  have st: "fws_steering env (fws_limited_cmd env time period f)
       (f\<lparr>odometry := odometry (fst (fws_update env time period a b f))\<rparr>) =
      (if Fin (1 / 100) < fabs v
       then (atan (ang (fws_limited_cmd env time period f) * wheel_base f / v) / Fin 2,
             - atan (ang (fws_limited_cmd env time period f) * wheel_base f / v) / Fin 2)
       else (Fin 0, Fin 0))"
    using mode by (simp add: fws_steering_def v_def Let_def)
  show "ang (last0_cmd (fst (fws_update env time period a b f))) =
       limiter_ang_limit env (ang (fws_curr_cmd time f))
         (ang (last0_cmd f)) (ang (last1_cmd f)) (toSec period) \<and>
     (fabs (getLinear env (odometry (fst (fws_update env time period a b f)))) \<le> Fin (1 / 100) \<or>
      isnan (getLinear env (odometry (fst (fws_update env time period a b f)))) \<longrightarrow>
        map cmd (left_steering_joints (fst (fws_update env time period a b f))) = [Fin 0, Fin 0] \<and>
        map cmd (right_steering_joints (fst (fws_update env time period a b f))) = [Fin 0, Fin 0]) \<and>
     (Fin (1 / 100) < fabs (getLinear env (odometry (fst (fws_update env time period a b f)))) \<longrightarrow>
        map cmd (left_steering_joints (fst (fws_update env time period a b f))) =
          [atan (ang (last0_cmd (fst (fws_update env time period a b f))) * wheel_base f /
                 getLinear env (odometry (fst (fws_update env time period a b f)))) / Fin 2,
           - atan (ang (last0_cmd (fst (fws_update env time period a b f))) * wheel_base f /
                   getLinear env (odometry (fst (fws_update env time period a b f)))) / Fin 2] \<and>
        map cmd (right_steering_joints (fst (fws_update env time period a b f))) =
          [atan (ang (last0_cmd (fst (fws_update env time period a b f))) * wheel_base f /
                 getLinear env (odometry (fst (fws_update env time period a b f)))) / Fin 2,
           - atan (ang (last0_cmd (fst (fws_update env time period a b f))) * wheel_base f /
                   getLinear env (odometry (fst (fws_update env time period a b f)))) / Fin 2])"
    unfolding v_def [symmetric]
    using low fws_steering_setpoints [OF run len, of env time period a b, unfolded st]
    by (auto simp: fws_limited_cmd_def Let_def)
qed

lemma fws_update_odometry_field:
  "fws_update_odometry env time f = Some f1 \<Longrightarrow>
   odometry (fst (fws_update env time period a b f)) = odometry f1"
  by (simp add: fws_update_def Let_def fws_move_robot_fst publish_odometry_fst)

lemma fws_twist_odometry:
  "fws_update_odometry demo_env 1100000000 fws_twist =
     Some (fws_twist\<lparr>odometry :=
        estimate_zero\<lparr>est_linear := Fin 25, est_angular := Fin 0, est_timestamp := 1100000000\<rparr>\<rparr>)"
  by (simp add: fws_update_odometry_def wheel_feedback_def fws_twist_def fws_demo_def demo_env_def
      joint_def Let_def numeral_2_eq_2)

lemma fws_twist_still_odometry:
  "fws_update_odometry demo_env 1100000000 fws_twist_still =
     Some (fws_twist_still\<lparr>odometry :=
        estimate_zero\<lparr>est_linear := Fin 0, est_angular := Fin 0, est_timestamp := 1100000000\<rparr>\<rparr>)"
  by (simp add: fws_update_odometry_def wheel_feedback_def fws_twist_still_def fws_twist_def
      fws_demo_def demo_env_def joint_def Let_def numeral_2_eq_2)

theorem fws_twist_steering_witness:
  "\<not> aborted fws_twist \<and> enable_twist_cmd fws_twist = True \<and>
   length (left_steering_joints fws_twist) = 2 \<and> length (right_steering_joints fws_twist) = 2 \<and>
   getLinear demo_env (odometry (fst (fws_update demo_env 1100000000 10000000 True True fws_twist))) = Fin 25 \<and>
   Fin (1 / 100) < fabs (Fin 25) \<and>
   ang (last0_cmd (fst (fws_update demo_env 1100000000 10000000 True True fws_twist))) = Fin 1 \<and>
   wheel_base fws_twist = Fin 25 \<and>
   map cmd (left_steering_joints (fst (fws_update demo_env 1100000000 10000000 True True fws_twist))) =
     [Fin (pi / 8), Fin (- (pi / 8))] \<and>
   map cmd (right_steering_joints (fst (fws_update demo_env 1100000000 10000000 True True fws_twist))) =
     [Fin (pi / 8), Fin (- (pi / 8))] \<and>
   \<not> aborted fws_twist_still \<and> enable_twist_cmd fws_twist_still = True \<and>
   length (left_steering_joints fws_twist_still) = 2 \<and>
   length (right_steering_joints fws_twist_still) = 2 \<and>
   getLinear demo_env (odometry (fst (fws_update demo_env 1100000000 10000000 True True fws_twist_still))) = Fin 0 \<and>
   fabs (Fin 0) \<le> Fin (1 / 100) \<and>
   map cmd (left_steering_joints (fst (fws_update demo_env 1100000000 10000000 True True fws_twist_still))) =
     [Fin 0, Fin 0] \<and>
   map cmd (right_steering_joints (fst (fws_update demo_env 1100000000 10000000 True True fws_twist_still))) =
     [Fin 0, Fin 0]"
proof -
  have r: "\<not> aborted fws_twist" "\<not> aborted fws_twist_still"
    by (simp_all add: aborted_code fws_twist_still_def fws_twist_def fws_demo_def joint_def
        Let_def numeral_2_eq_2)
  have h: "enable_twist_cmd fws_twist = True" "length (left_steering_joints fws_twist) = 2"
    "length (right_steering_joints fws_twist) = 2" "wheel_base fws_twist = Fin 25"
    "enable_twist_cmd fws_twist_still = True" "length (left_steering_joints fws_twist_still) = 2"
    "length (right_steering_joints fws_twist_still) = 2"
    by (simp_all add: fws_twist_still_def fws_twist_def fws_demo_def)
  have c: "limiter_ang_limit demo_env (ang (fws_curr_cmd 1100000000 fws_twist))
         (ang (last0_cmd fws_twist)) (ang (last1_cmd fws_twist)) (toSec 10000000) = Fin 1"
    by (simp add: fws_curr_cmd_def fws_twist_def fws_demo_def demo_env_def clamp2_def toSec_def Let_def)
  have g: "getLinear demo_env = est_linear"
    by (simp add: demo_env_def)
  have v: "getLinear demo_env (odometry (fst (fws_update demo_env 1100000000 10000000 True True fws_twist))) = Fin 25"
    "getLinear demo_env (odometry (fst (fws_update demo_env 1100000000 10000000 True True fws_twist_still))) = Fin 0"
    by (simp_all add: fws_update_odometry_field [OF fws_twist_odometry]
        fws_update_odometry_field [OF fws_twist_still_odometry] g estimate_zero_def)
  note A = fws_twist_steering [where f = fws_twist and time = 1100000000 and env = demo_env
        and period = 10000000 and a = True and b = True]
  note B = fws_twist_steering [where f = fws_twist_still and time = 1100000000 and env = demo_env
        and period = 10000000 and a = True and b = True]
  have A': "ang (last0_cmd (fst (fws_update demo_env 1100000000 10000000 True True fws_twist))) = Fin 1 \<and>
    map cmd (left_steering_joints (fst (fws_update demo_env 1100000000 10000000 True True fws_twist))) =
     [Fin (pi / 8), Fin (- (pi / 8))] \<and>
    map cmd (right_steering_joints (fst (fws_update demo_env 1100000000 10000000 True True fws_twist))) =
     [Fin (pi / 8), Fin (- (pi / 8))]"
    using A r h by (simp add: v c arctan_one)
  have B': "map cmd (left_steering_joints (fst (fws_update demo_env 1100000000 10000000 True True fws_twist_still))) =
     [Fin 0, Fin 0] \<and>
   map cmd (right_steering_joints (fst (fws_update demo_env 1100000000 10000000 True True fws_twist_still))) =
     [Fin 0, Fin 0]"
    using B r h by (simp add: v)
  show ?thesis using A' B' r h v by simp
qed

section \<open>What a cycle writes\<close>

text \<open>
  Claim C6 fails for the ackermann controller: its \<^verbatim>\<open>update\<close> writes wheel setpoints
  only. In this cycle, which is not aborted and whose command turns on the spot, the
  effects are the two publications and the two wheel setpoints -5 and 5; no steering
  joint is written and the steering handles are as before.
\<close>

theorem ack_update_writes_no_steering:
  "\<not> aborted ack_turn \<and>
   snd (ack_update demo_env 1100000000 10000000 True True ack_turn) =
     [PublishOdom \<lparr>odom_stamp = 1100000000, odom_x = Fin 0, odom_y = Fin 0, odom_yaw = Fin 0,
                    odom_linear = Fin 0, odom_angular = Fin 0\<rparr>,
      PublishTf \<lparr>tf_stamp = 1100000000, tf_x = Fin 0, tf_y = Fin 0, tf_yaw = Fin 0\<rparr>,
      SetCommand (LeftWheel 0) (Fin (- 5)), SetCommand (RightWheel 0) (Fin 5)] \<and>
   \<not> (\<exists>j v. SetCommand (LeftSteering j) v \<in> set (snd (ack_update demo_env 1100000000 10000000 True True ack_turn)) \<or>
            SetCommand (RightSteering j) v \<in> set (snd (ack_update demo_env 1100000000 10000000 True True ack_turn))) \<and>
   left_steering_joints (fst (ack_update demo_env 1100000000 10000000 True True ack_turn)) =
     left_steering_joints ack_turn \<and>
   right_steering_joints (fst (ack_update demo_env 1100000000 10000000 True True ack_turn)) =
     right_steering_joints ack_turn"
proof -
  have "ack_update demo_env 1100000000 10000000 True True ack_turn =
     (ack_turn
        \<lparr>odometry := estimate_zero\<lparr>est_timestamp := 1100000000\<rparr>,
         last_state_publish_time := 1020000000,
         last0_cmd := \<lparr>lin = Fin 0, ang = Fin 2, stamp = 1000000000\<rparr>,
         left_wheel_joints := [(joint ''left_wheel'')\<lparr>cmd := Fin (- 5)\<rparr>],
         right_wheel_joints := [(joint ''right_wheel'')\<lparr>cmd := Fin 5\<rparr>]\<rparr>,
      [PublishOdom \<lparr>odom_stamp = 1100000000, odom_x = Fin 0, odom_y = Fin 0, odom_yaw = Fin 0,
                      odom_linear = Fin 0, odom_angular = Fin 0\<rparr>,
       PublishTf \<lparr>tf_stamp = 1100000000, tf_x = Fin 0, tf_y = Fin 0, tf_yaw = Fin 0\<rparr>,
       SetCommand (LeftWheel 0) (Fin (- 5)), SetCommand (RightWheel 0) (Fin 5)])"
    by (simp add: ack_turn_def ack_cycle_defs demo_defs)
  then show ?thesis using ack_turn_runs by simp
qed

text \<open>
  Claim C6, amended. A cycle that is not aborted publishes what is due and then
  writes the setpoints of the kinematic model. In the ackermann controller these are
  the two wheel velocities, written to every wheel pair, and nothing else: the
  steering handles are left as they were. In the four-wheel-steering controller, with
  two wheel pairs and two steering pairs, they are the four wheel velocities followed
  by the front and rear steering angles on the steering joints of both sides.
\<close>

theorem update_writes_setpoints:
  "(\<not> aborted s \<longrightarrow>
      snd (ack_update env time period a b s) =
        snd (publish_odometry env time a b
               (s\<lparr>odometry := odometry (fst (ack_update env time period a b s))\<rparr>)) @
        concat (map (\<lambda>i.
          [SetCommand (LeftWheel i)
             (ack_vel_left (lin (ack_limited_cmd env time period s))
                (ang (ack_limited_cmd env time period s))
                (wheel_separation_multiplier s * wheel_separation s)
                (wheel_radius_multiplier s * wheel_radius s)),
           SetCommand (RightWheel i)
             (ack_vel_right (lin (ack_limited_cmd env time period s))
                (ang (ack_limited_cmd env time period s))
                (wheel_separation_multiplier s * wheel_separation s)
                (wheel_radius_multiplier s * wheel_radius s))]) [0..<wheel_joints_size s]) \<and>
      left_steering_joints (fst (ack_update env time period a b s)) = left_steering_joints s \<and>
      right_steering_joints (fst (ack_update env time period a b s)) = right_steering_joints s) \<and>
   (\<not> aborted f \<and> length (left_wheel_joints f) = 2 \<and> length (right_wheel_joints f) = 2 \<and>
    length (left_steering_joints f) = 2 \<and> length (right_steering_joints f) = 2 \<longrightarrow>
      snd (fws_update env time period a b f) =
        snd (publish_odometry env time a b
               (f\<lparr>odometry := odometry (fst (fws_update env time period a b f))\<rparr>)) @
        [SetCommand (LeftWheel 0)
           (fws_vel_left_front (lin (fws_limited_cmd env time period f))
              (getAngular env (odometry (fst (fws_update env time period a b f))))
              (wheel_separation f) (wheel_radius f) (wheel_base f)),
         SetCommand (RightWheel 0)
           (fws_vel_right_front (lin (fws_limited_cmd env time period f))
              (getAngular env (odometry (fst (fws_update env time period a b f))))
              (wheel_separation f) (wheel_radius f) (wheel_base f)),
         SetCommand (LeftWheel 1)
           (fws_vel_left_rear (lin (fws_limited_cmd env time period f))
              (getAngular env (odometry (fst (fws_update env time period a b f))))
              (wheel_separation f) (wheel_radius f)),
         SetCommand (RightWheel 1)
           (fws_vel_right_rear (lin (fws_limited_cmd env time period f))
              (getAngular env (odometry (fst (fws_update env time period a b f))))
              (wheel_separation f) (wheel_radius f)),
         SetCommand (LeftSteering 0)
           (fst (fws_steering env (fws_limited_cmd env time period f)
                   (f\<lparr>odometry := odometry (fst (fws_update env time period a b f))\<rparr>))),
         SetCommand (RightSteering 0)
           (fst (fws_steering env (fws_limited_cmd env time period f)
                   (f\<lparr>odometry := odometry (fst (fws_update env time period a b f))\<rparr>))),
         SetCommand (LeftSteering 1)
           (snd (fws_steering env (fws_limited_cmd env time period f)
                   (f\<lparr>odometry := odometry (fst (fws_update env time period a b f))\<rparr>))),
         SetCommand (RightSteering 1)
           (snd (fws_steering env (fws_limited_cmd env time period f)
                   (f\<lparr>odometry := odometry (fst (fws_update env time period a b f))\<rparr>)))])"
proof (intro conjI impI)
  assume run: "\<not> aborted s"
  then obtain od where od: "odometry (fst (ack_update env time period a b s)) = od"
    and S: "snd (ack_update env time period a b s) =
       snd (publish_odometry env time a b (s\<lparr>odometry := od\<rparr>)) @
       concat (map (\<lambda>i.
        [SetCommand (LeftWheel i)
           (ack_vel_left (lin (ack_limited_cmd env time period s))
              (ang (ack_limited_cmd env time period s))
              (wheel_separation_multiplier s * wheel_separation s)
              (wheel_radius_multiplier s * wheel_radius s)),
         SetCommand (RightWheel i)
           (ack_vel_right (lin (ack_limited_cmd env time period s))
              (ang (ack_limited_cmd env time period s))
              (wheel_separation_multiplier s * wheel_separation s)
              (wheel_radius_multiplier s * wheel_radius s))]) [0..<wheel_joints_size s])"
    using ack_update_snd [of s env time period a b] by blast
  from S show "snd (ack_update env time period a b s) =
        snd (publish_odometry env time a b
               (s\<lparr>odometry := odometry (fst (ack_update env time period a b s))\<rparr>)) @
        concat (map (\<lambda>i.
          [SetCommand (LeftWheel i)
             (ack_vel_left (lin (ack_limited_cmd env time period s))
                (ang (ack_limited_cmd env time period s))
                (wheel_separation_multiplier s * wheel_separation s)
                (wheel_radius_multiplier s * wheel_radius s)),
           SetCommand (RightWheel i)
             (ack_vel_right (lin (ack_limited_cmd env time period s))
                (ang (ack_limited_cmd env time period s))
                (wheel_separation_multiplier s * wheel_separation s)
                (wheel_radius_multiplier s * wheel_radius s))]) [0..<wheel_joints_size s])"
    unfolding od .
  from run obtain od' where
    "fst (ack_update env time period a b s) =
      s\<lparr>odometry := od',
        last_state_publish_time :=
          (if last_state_publish_time s + publish_period s < time
           then last_state_publish_time s + publish_period s
           else last_state_publish_time s),
        last1_cmd := last0_cmd s,
        last0_cmd := ack_limited_cmd env time period s,
        left_wheel_joints :=
          write_cmds (ack_vel_left (lin (ack_limited_cmd env time period s))
                        (ang (ack_limited_cmd env time period s))
                        (wheel_separation_multiplier s * wheel_separation s)
                        (wheel_radius_multiplier s * wheel_radius s))
            [0..<wheel_joints_size s] (left_wheel_joints s),
        right_wheel_joints :=
          write_cmds (ack_vel_right (lin (ack_limited_cmd env time period s))
                        (ang (ack_limited_cmd env time period s))
                        (wheel_separation_multiplier s * wheel_separation s)
                        (wheel_radius_multiplier s * wheel_radius s))
            [0..<wheel_joints_size s] (right_wheel_joints s)\<rparr>"
    using ack_update_fst by blast
  then show "left_steering_joints (fst (ack_update env time period a b s)) = left_steering_joints s"
    and "right_steering_joints (fst (ack_update env time period a b s)) = right_steering_joints s"
    by simp_all
next
  assume h: "\<not> aborted f \<and> length (left_wheel_joints f) = 2 \<and> length (right_wheel_joints f) = 2 \<and>
    length (left_steering_joints f) = 2 \<and> length (right_steering_joints f) = 2"
  then obtain od where
    E: "odometry (fst (fws_update env time period a b f)) = od"
    and S: "snd (fws_update env time period a b f) =
       snd (publish_odometry env time a b (f\<lparr>odometry := od\<rparr>)) @
       (if length (left_wheel_joints f) = 2 \<and> length (right_wheel_joints f) = 2
        then [SetCommand (LeftWheel 0)
                (fws_vel_left_front (lin (fws_limited_cmd env time period f))
                   (getAngular env od) (wheel_separation f) (wheel_radius f) (wheel_base f)),
              SetCommand (RightWheel 0)
                (fws_vel_right_front (lin (fws_limited_cmd env time period f))
                   (getAngular env od) (wheel_separation f) (wheel_radius f) (wheel_base f)),
              SetCommand (LeftWheel 1)
                (fws_vel_left_rear (lin (fws_limited_cmd env time period f))
                   (getAngular env od) (wheel_separation f) (wheel_radius f)),
              SetCommand (RightWheel 1)
                (fws_vel_right_rear (lin (fws_limited_cmd env time period f))
                   (getAngular env od) (wheel_separation f) (wheel_radius f))]
        else []) @
       (if length (left_steering_joints f) = 2 \<and> length (right_steering_joints f) = 2
        then [SetCommand (LeftSteering 0)
                (fst (fws_steering env (fws_limited_cmd env time period f) (f\<lparr>odometry := od\<rparr>))),
              SetCommand (RightSteering 0)
                (fst (fws_steering env (fws_limited_cmd env time period f) (f\<lparr>odometry := od\<rparr>))),
              SetCommand (LeftSteering 1)
                (snd (fws_steering env (fws_limited_cmd env time period f) (f\<lparr>odometry := od\<rparr>))),
              SetCommand (RightSteering 1)
                (snd (fws_steering env (fws_limited_cmd env time period f) (f\<lparr>odometry := od\<rparr>)))]
        else [])"
    using fws_update_fst [of f env time period a b] by auto
  show "snd (fws_update env time period a b f) =
        snd (publish_odometry env time a b
               (f\<lparr>odometry := odometry (fst (fws_update env time period a b f))\<rparr>)) @
        [SetCommand (LeftWheel 0)
           (fws_vel_left_front (lin (fws_limited_cmd env time period f))
              (getAngular env (odometry (fst (fws_update env time period a b f))))
              (wheel_separation f) (wheel_radius f) (wheel_base f)),
         SetCommand (RightWheel 0)
           (fws_vel_right_front (lin (fws_limited_cmd env time period f))
              (getAngular env (odometry (fst (fws_update env time period a b f))))
              (wheel_separation f) (wheel_radius f) (wheel_base f)),
         SetCommand (LeftWheel 1)
           (fws_vel_left_rear (lin (fws_limited_cmd env time period f))
              (getAngular env (odometry (fst (fws_update env time period a b f))))
              (wheel_separation f) (wheel_radius f)),
         SetCommand (RightWheel 1)
           (fws_vel_right_rear (lin (fws_limited_cmd env time period f))
              (getAngular env (odometry (fst (fws_update env time period a b f))))
              (wheel_separation f) (wheel_radius f)),
         SetCommand (LeftSteering 0)
           (fst (fws_steering env (fws_limited_cmd env time period f)
                   (f\<lparr>odometry := odometry (fst (fws_update env time period a b f))\<rparr>))),
         SetCommand (RightSteering 0)
           (fst (fws_steering env (fws_limited_cmd env time period f)
                   (f\<lparr>odometry := odometry (fst (fws_update env time period a b f))\<rparr>))),
         SetCommand (LeftSteering 1)
           (snd (fws_steering env (fws_limited_cmd env time period f)
                   (f\<lparr>odometry := odometry (fst (fws_update env time period a b f))\<rparr>))),
         SetCommand (RightSteering 1)
           (snd (fws_steering env (fws_limited_cmd env time period f)
                   (f\<lparr>odometry := odometry (fst (fws_update env time period a b f))\<rparr>)))]"
    unfolding E using h by (simp add: S)
qed

lemma ack_update_odometry_field:
  "ack_update_odometry env time s = Some s1 \<Longrightarrow>
   odometry (fst (ack_update env time period a b s)) = odometry s1"
  by (simp add: ack_update_def Let_def ack_move_robot_fst publish_odometry_fst)

lemma ack_turn_odometry:
  "ack_update_odometry demo_env 1100000000 ack_turn =
     Some (ack_turn\<lparr>odometry := estimate_zero\<lparr>est_timestamp := 1100000000\<rparr>\<rparr>)"
  by (simp add: ack_update_odometry_def wheel_feedback_def ack_turn_def ack_demo_def demo_env_def
      joint_def estimate_zero_def Let_def)

lemma fws_demo_odometry:
  "fws_update_odometry demo_env 1100000000 fws_demo =
     Some (fws_demo\<lparr>odometry :=
        estimate_zero\<lparr>est_linear := Fin 25, est_angular := Fin 0, est_timestamp := 1100000000\<rparr>\<rparr>)"
  by (simp add: fws_update_odometry_def wheel_feedback_def fws_demo_def demo_env_def
      joint_def Let_def numeral_2_eq_2)

theorem update_writes_setpoints_witness:
  "\<not> aborted ack_turn \<and>
   snd (ack_update demo_env 1100000000 10000000 True True ack_turn) =
     [PublishOdom \<lparr>odom_stamp = 1100000000, odom_x = Fin 0, odom_y = Fin 0, odom_yaw = Fin 0,
                    odom_linear = Fin 0, odom_angular = Fin 0\<rparr>,
      PublishTf \<lparr>tf_stamp = 1100000000, tf_x = Fin 0, tf_y = Fin 0, tf_yaw = Fin 0\<rparr>,
      SetCommand (LeftWheel 0) (Fin (- 5)), SetCommand (RightWheel 0) (Fin 5)] \<and>
   left_steering_joints (fst (ack_update demo_env 1100000000 10000000 True True ack_turn)) =
     left_steering_joints ack_turn \<and>
   right_steering_joints (fst (ack_update demo_env 1100000000 10000000 True True ack_turn)) =
     right_steering_joints ack_turn \<and>
   \<not> aborted fws_demo \<and> length (left_wheel_joints fws_demo) = 2 \<and>
   length (right_wheel_joints fws_demo) = 2 \<and> length (left_steering_joints fws_demo) = 2 \<and>
   length (right_steering_joints fws_demo) = 2 \<and>
   snd (fws_update demo_env 1100000000 10000000 True True fws_demo) =
     [PublishOdom \<lparr>odom_stamp = 1100000000, odom_x = Fin 0, odom_y = Fin 0, odom_yaw = Fin 0,
                    odom_linear = Fin 25, odom_angular = Fin 0\<rparr>,
      PublishTf \<lparr>tf_stamp = 1100000000, tf_x = Fin 0, tf_y = Fin 0, tf_yaw = Fin 0\<rparr>,
      SetCommand (LeftWheel 0) (Fin 10), SetCommand (RightWheel 0) (Fin 10),
      SetCommand (LeftWheel 1) (Fin 10), SetCommand (RightWheel 1) (Fin 10),
      SetCommand (LeftSteering 0) (Fin (3 / 10)), SetCommand (RightSteering 0) (Fin (3 / 10)),
      SetCommand (LeftSteering 1) (Fin (- (2 / 10))), SetCommand (RightSteering 1) (Fin (- (2 / 10)))]"
proof -
  note A = update_writes_setpoints [where s = ack_turn and f = fws_demo and env = demo_env
      and time = 1100000000 and period = 10000000 and a = True and b = True]
  have h: "length (left_wheel_joints fws_demo) = 2" "length (right_wheel_joints fws_demo) = 2"
    "length (left_steering_joints fws_demo) = 2" "length (right_steering_joints fws_demo) = 2"
    by (simp_all add: fws_demo_def)
  have oa: "odometry (fst (ack_update demo_env 1100000000 10000000 True True ack_turn)) =
      estimate_zero\<lparr>est_timestamp := 1100000000\<rparr>"
    by (simp add: ack_update_odometry_field [OF ack_turn_odometry])
  have of: "odometry (fst (fws_update demo_env 1100000000 10000000 True True fws_demo)) =
      estimate_zero\<lparr>est_linear := Fin 25, est_angular := Fin 0, est_timestamp := 1100000000\<rparr>"
    by (simp add: fws_update_odometry_field [OF fws_demo_odometry])
  have ca: "ack_limited_cmd demo_env 1100000000 10000000 ack_turn =
      \<lparr>lin = Fin 0, ang = Fin 2, stamp = 1000000000\<rparr>"
    by (simp add: ack_turn_def ack_demo_def ack_limited_cmd_def ack_curr_cmd_def toSec_def
        demo_env_def clamp2_def Commands_default_def Let_def)
  have cf: "fws_limited_cmd demo_env 1100000000 10000000 fws_demo =
      \<lparr>lin = Fin 1, ang = Fin 0, stamp = 1000000000,
       front_steering = Fin (3 / 10), rear_steering = Fin (- (2 / 10))\<rparr>"
    by (simp add: fws_demo_def fws_limited_cmd_def fws_curr_cmd_def toSec_def
        demo_env_def clamp2_def Commands4_default_def Let_def)
  have pa: "snd (publish_odometry demo_env 1100000000 True True
        (ack_turn\<lparr>odometry := estimate_zero\<lparr>est_timestamp := 1100000000\<rparr>\<rparr>)) =
     [PublishOdom \<lparr>odom_stamp = 1100000000, odom_x = Fin 0, odom_y = Fin 0, odom_yaw = Fin 0,
                    odom_linear = Fin 0, odom_angular = Fin 0\<rparr>,
      PublishTf \<lparr>tf_stamp = 1100000000, tf_x = Fin 0, tf_y = Fin 0, tf_yaw = Fin 0\<rparr>]"
    by (simp add: publish_odometry_def ack_turn_def ack_demo_def demo_env_def estimate_zero_def Let_def)
  have pf: "snd (publish_odometry demo_env 1100000000 True True
        (fws_demo\<lparr>odometry := estimate_zero\<lparr>est_linear := Fin 25, est_angular := Fin 0,
                                              est_timestamp := 1100000000\<rparr>\<rparr>)) =
     [PublishOdom \<lparr>odom_stamp = 1100000000, odom_x = Fin 0, odom_y = Fin 0, odom_yaw = Fin 0,
                    odom_linear = Fin 25, odom_angular = Fin 0\<rparr>,
      PublishTf \<lparr>tf_stamp = 1100000000, tf_x = Fin 0, tf_y = Fin 0, tf_yaw = Fin 0\<rparr>]"
    by (simp add: publish_odometry_def fws_demo_def demo_env_def estimate_zero_def Let_def)
  have va: "wheel_joints_size ack_turn = 1"
    "ack_vel_left (Fin 0) (Fin 2) (wheel_separation_multiplier ack_turn * wheel_separation ack_turn)
       (wheel_radius_multiplier ack_turn * wheel_radius ack_turn) = Fin (- 5)"
    "ack_vel_right (Fin 0) (Fin 2) (wheel_separation_multiplier ack_turn * wheel_separation ack_turn)
       (wheel_radius_multiplier ack_turn * wheel_radius ack_turn) = Fin 5"
    by (simp_all add: ack_turn_def ack_demo_def ack_vel_left_def ack_vel_right_def)
  have vf: "fws_vel_left_front (Fin 1) (Fin 0) (wheel_separation fws_demo) (wheel_radius fws_demo)
       (wheel_base fws_demo) = Fin 10"
    "fws_vel_right_front (Fin 1) (Fin 0) (wheel_separation fws_demo) (wheel_radius fws_demo)
       (wheel_base fws_demo) = Fin 10"
    "fws_vel_left_rear (Fin 1) (Fin 0) (wheel_separation fws_demo) (wheel_radius fws_demo) = Fin 10"
    "fws_vel_right_rear (Fin 1) (Fin 0) (wheel_separation fws_demo) (wheel_radius fws_demo) = Fin 10"
    by (simp_all add: fws_demo_def fws_vel_left_front_def fws_vel_right_front_def
        fws_vel_left_rear_def fws_vel_right_rear_def)
  have sf: "fws_steering demo_env c (fws_demo\<lparr>odometry := od\<rparr>) = (front_steering c, rear_steering c)"
    for c od
    by (simp add: fws_steering_def fws_demo_def)
  have ga: "getAngular demo_env
      (estimate_zero\<lparr>est_linear := Fin 25, est_angular := Fin 0, est_timestamp := 1100000000\<rparr>) = Fin 0"
    by (simp add: demo_env_def)
  show ?thesis
    using A ack_turn_runs fws_demo_runs h
    by (simp add: oa of ca cf pa pf va vf sf ga)
qed

section \<open>Command ingestion\<close>

text \<open>
  Claim C9. A command callback writes the command buffer exactly when the controller
  is running. When it runs, the command structure takes the values of the message and
  the current time as its stamp, and the buffer receives that structure. When it does
  not run, the callback changes nothing: the controller after the call is the
  controller before it. This holds for the callback of the ackermann controller and
  for the two callbacks of the four-wheel-steering controller.
\<close>

theorem command_ingestion_only_when_running:
  "(isRunning s \<longrightarrow>
      ack_cmdVelCallback now linear_x angular_z s =
        s\<lparr>command_struct := \<lparr>lin = linear_x, ang = angular_z, stamp = now\<rparr>,
          command := \<lparr>lin = linear_x, ang = angular_z, stamp = now\<rparr>\<rparr>) \<and>
   (\<not> isRunning s \<longrightarrow> ack_cmdVelCallback now linear_x angular_z s = s) \<and>
   (isRunning f \<longrightarrow>
      fws_cmdFourWheelSteeringCallback now front rear speed f =
        f\<lparr>command_struct_four_wheel_steering :=
            \<lparr>lin = speed, ang = ang (command_struct_four_wheel_steering f), stamp = now,
             front_steering = front, rear_steering = rear\<rparr>,
          command_four_wheel_steering :=
            \<lparr>lin = speed, ang = ang (command_struct_four_wheel_steering f), stamp = now,
             front_steering = front, rear_steering = rear\<rparr>\<rparr>) \<and>
   (\<not> isRunning f \<longrightarrow> fws_cmdFourWheelSteeringCallback now front rear speed f = f) \<and>
   (isRunning f \<longrightarrow>
      fws_cmdVelCallback now linear_x angular_z f =
        f\<lparr>command_struct :=
            \<lparr>lin = linear_x, ang = angular_z, stamp = now,
             front_steering = front_steering (command_struct f),
             rear_steering = rear_steering (command_struct f)\<rparr>,
          command :=
            \<lparr>lin = linear_x, ang = angular_z, stamp = now,
             front_steering = front_steering (command_struct f),
             rear_steering = rear_steering (command_struct f)\<rparr>\<rparr>) \<and>
   (\<not> isRunning f \<longrightarrow> fws_cmdVelCallback now linear_x angular_z f = f)"
proof -
  have c3: "c\<lparr>ang := x, lin := y, stamp := t\<rparr> = \<lparr>lin = y, ang = x, stamp = t\<rparr>"
    for c :: Commands and x y t
    by (cases c) simp
  have c4: "c\<lparr>front_steering := u, rear_steering := v, lin := y, stamp := t\<rparr> =
      \<lparr>lin = y, ang = ang c, stamp = t, front_steering = u, rear_steering = v\<rparr>"
    for c :: Commands4 and u v y t
    by (cases c) simp
  have c5: "c\<lparr>ang := x, lin := y, stamp := t\<rparr> =
      \<lparr>lin = y, ang = x, stamp = t, front_steering = front_steering c,
       rear_steering = rear_steering c\<rparr>"
    for c :: Commands4 and x y t
    by (cases c) simp
  show ?thesis
    by (simp add: ack_cmdVelCallback_def fws_cmdFourWheelSteeringCallback_def
        fws_cmdVelCallback_def Let_def c3 c4 c5)
qed

theorem command_ingestion_only_when_running_witness:
  "isRunning ack_demo \<and>
   command (ack_cmdVelCallback 1500000000 (Fin 2) (Fin 1) ack_demo) =
     \<lparr>lin = Fin 2, ang = Fin 1, stamp = 1500000000\<rparr> \<and>
   \<not> isRunning (ack_demo\<lparr>state := STOPPED\<rparr>) \<and>
   ack_cmdVelCallback 1500000000 (Fin 2) (Fin 1) (ack_demo\<lparr>state := STOPPED\<rparr>) =
     ack_demo\<lparr>state := STOPPED\<rparr> \<and>
   isRunning fws_demo \<and>
   command_four_wheel_steering
     (fws_cmdFourWheelSteeringCallback 1500000000 (Fin 1) (Fin (- 1)) (Fin 2) fws_demo) =
     \<lparr>lin = Fin 2, ang = Fin 0, stamp = 1500000000,
      front_steering = Fin 1, rear_steering = Fin (- 1)\<rparr> \<and>
   command (fws_cmdVelCallback 1500000000 (Fin 2) (Fin 1) fws_demo) =
     \<lparr>lin = Fin 2, ang = Fin 1, stamp = 1500000000,
      front_steering = Fin 0, rear_steering = Fin 0\<rparr> \<and>
   \<not> isRunning (fws_demo\<lparr>state := INITIALIZED\<rparr>) \<and>
   fws_cmdFourWheelSteeringCallback 1500000000 (Fin 1) (Fin (- 1)) (Fin 2)
     (fws_demo\<lparr>state := INITIALIZED\<rparr>) = fws_demo\<lparr>state := INITIALIZED\<rparr> \<and>
   fws_cmdVelCallback 1500000000 (Fin 2) (Fin 1) (fws_demo\<lparr>state := INITIALIZED\<rparr>) =
     fws_demo\<lparr>state := INITIALIZED\<rparr>"
proof -
  have r: "isRunning ack_demo" "\<not> isRunning (ack_demo\<lparr>state := STOPPED\<rparr>)"
    "isRunning fws_demo" "\<not> isRunning (fws_demo\<lparr>state := INITIALIZED\<rparr>)"
    by (simp_all add: isRunning_def ack_demo_def fws_demo_def)
  have v: "ang (command_struct_four_wheel_steering fws_demo) = Fin 0"
    "front_steering (command_struct fws_demo) = Fin 0"
    "rear_steering (command_struct fws_demo) = Fin 0"
    by (simp_all add: fws_demo_def Commands4_default_def)
  note A = command_ingestion_only_when_running [where s = ack_demo and f = fws_demo
      and now = 1500000000 and linear_x = "Fin 2" and angular_z = "Fin 1"
      and front = "Fin 1" and rear = "Fin (- 1)" and speed = "Fin 2"]
  note B = command_ingestion_only_when_running [where s = "ack_demo\<lparr>state := STOPPED\<rparr>"
      and f = "fws_demo\<lparr>state := INITIALIZED\<rparr>"
      and now = 1500000000 and linear_x = "Fin 2" and angular_z = "Fin 1"
      and front = "Fin 1" and rear = "Fin (- 1)" and speed = "Fin 2"]
  show ?thesis
    using A B r by (simp add: v)
qed

section \<open>The publication rate\<close>

lemma odom_publications_append [simp]:
  "odom_publications (xs @ ys) = odom_publications xs + odom_publications ys"
  by (simp add: odom_publications_def)

lemma odom_publications_wheels [simp]:
  "odom_publications (concat (map (\<lambda>i. [SetCommand (g i) (v i), SetCommand (h i) (w i)]) is)) = 0"
  by (induction "is") (simp_all add: odom_publications_def)

lemma odom_publications_publish:
  "odom_publications (snd (publish_odometry env time a b s)) =
     (if last_state_publish_time s + publish_period s < time \<and> a then 1 else 0)"
  by (simp add: publish_odometry_def odom_publications_def Let_def)

text \<open>
  What a cycle that is not aborted does to the publication: the number of odometry
  messages, the time of the last publication and the period.
\<close>

lemma ack_update_publication:
  assumes "\<not> aborted s"
  shows "odom_publications (snd (ack_update env time period a b s)) =
           (if last_state_publish_time s + publish_period s < time \<and> a then 1 else 0)"
    and "last_state_publish_time (fst (ack_update env time period a b s)) =
           (if last_state_publish_time s + publish_period s < time
            then last_state_publish_time s + publish_period s else last_state_publish_time s)"
    and "publish_period (fst (ack_update env time period a b s)) = publish_period s"
proof -
  from assms obtain od where
    u: "ack_update env time period a b s =
       (fst (ack_move_robot env time period
               (fst (publish_odometry env time a b (s\<lparr>odometry := od\<rparr>)))),
        snd (publish_odometry env time a b (s\<lparr>odometry := od\<rparr>)) @
        snd (ack_move_robot env time period
               (fst (publish_odometry env time a b (s\<lparr>odometry := od\<rparr>)))))"
    using ack_update_running by blast
  show "odom_publications (snd (ack_update env time period a b s)) =
           (if last_state_publish_time s + publish_period s < time \<and> a then 1 else 0)"
    by (simp add: u ack_move_robot_snd odom_publications_publish)
  show "last_state_publish_time (fst (ack_update env time period a b s)) =
           (if last_state_publish_time s + publish_period s < time
            then last_state_publish_time s + publish_period s else last_state_publish_time s)"
    by (simp add: u ack_move_robot_fst publish_odometry_fst)
  show "publish_period (fst (ack_update env time period a b s)) = publish_period s"
    by (simp add: u ack_move_robot_fst publish_odometry_fst)
qed

lemma fws_update_publication:
  assumes "\<not> aborted s"
  shows "odom_publications (snd (fws_update env time period a b s)) =
           (if last_state_publish_time s + publish_period s < time \<and> a then 1 else 0)"
    and "last_state_publish_time (fst (fws_update env time period a b s)) =
           (if last_state_publish_time s + publish_period s < time
            then last_state_publish_time s + publish_period s else last_state_publish_time s)"
    and "publish_period (fst (fws_update env time period a b s)) = publish_period s"
proof -
  from assms obtain od where
    u: "fws_update env time period a b s =
       (fst (fws_move_robot env time period
               (fst (publish_odometry env time a b (s\<lparr>odometry := od\<rparr>)))),
        snd (publish_odometry env time a b (s\<lparr>odometry := od\<rparr>)) @
        snd (fws_move_robot env time period
               (fst (publish_odometry env time a b (s\<lparr>odometry := od\<rparr>)))))"
    using fws_update_running by blast
  show "odom_publications (snd (fws_update env time period a b s)) =
           (if last_state_publish_time s + publish_period s < time \<and> a then 1 else 0)"
    by (simp add: u fws_move_robot_snd odom_publications_publish)
       (simp add: odom_publications_def)
  show "last_state_publish_time (fst (fws_update env time period a b s)) =
           (if last_state_publish_time s + publish_period s < time
            then last_state_publish_time s + publish_period s else last_state_publish_time s)"
    by (simp add: u fws_move_robot_fst publish_odometry_fst)
  show "publish_period (fst (fws_update env time period a b s)) = publish_period s"
    by (simp add: u fws_move_robot_fst publish_odometry_fst)
qed

text \<open>
  Catching up, for any \<^verbatim>\<open>update\<close> function with the three properties above: while the
  last publication is more than \<open>n\<close> periods behind the time of each of \<open>n\<close>
  consecutive cycles, each of them publishes once and moves the time of the last
  publication on by one period.
\<close>

lemma cycles_catch_up:
  fixes upd :: "Time \<Rightarrow> Duration \<Rightarrow> bool \<Rightarrow> bool \<Rightarrow> ('o, 'c, 'z) controller_scheme \<Rightarrow>
    ('o, 'c, 'z) controller_scheme \<times> effect list"
  assumes pub: "\<And>time period a b s. \<not> aborted s \<Longrightarrow>
      odom_publications (snd (upd time period a b s)) =
        (if last_state_publish_time s + publish_period s < time \<and> a then 1 else 0)"
    and last: "\<And>time period a b s. \<not> aborted s \<Longrightarrow>
      last_state_publish_time (fst (upd time period a b s)) =
        (if last_state_publish_time s + publish_period s < time
         then last_state_publish_time s + publish_period s else last_state_publish_time s)"
    and per: "\<And>time period a b s. \<not> aborted s \<Longrightarrow>
      publish_period (fst (upd time period a b s)) = publish_period s"
    and ab: "\<And>time period a b s. aborted (fst (upd time period a b s)) = aborted s"
  shows "\<not> aborted s \<Longrightarrow> 0 \<le> publish_period s \<Longrightarrow>
    (\<forall>c \<in> set cs. last_state_publish_time s + int (length cs) * publish_period s < fst c \<and>
       fst (snd (snd c))) \<Longrightarrow>
    list_all (\<lambda>es. odom_publications es = 1) (snd (cycles upd cs s)) \<and>
    length (snd (cycles upd cs s)) = length cs \<and>
    last_state_publish_time (fst (cycles upd cs s)) =
      last_state_publish_time s + int (length cs) * publish_period s \<and>
    publish_period (fst (cycles upd cs s)) = publish_period s"
proof (induction cs arbitrary: s)
  case Nil
  then show ?case by simp
next
  case (Cons c cs)
  obtain time period a b where c: "c = (time, period, a, b)" by (cases c) auto
  let ?s1 = "fst (upd time period a b s)"
  have run: "\<not> aborted s" and pos: "0 \<le> publish_period s" by fact+
  from Cons.prems(3) have due: "last_state_publish_time s + (1 + int (length cs)) * publish_period s < time"
    and lock: a by (simp_all add: c)
  have "last_state_publish_time s + publish_period s \<le>
      last_state_publish_time s + (1 + int (length cs)) * publish_period s"
    using pos by (simp add: mult_le_cancel_right1 algebra_simps)
  with due have now: "last_state_publish_time s + publish_period s < time" by simp
  have l1: "last_state_publish_time ?s1 = last_state_publish_time s + publish_period s"
    using last [OF run, of time period a b] now by simp
  have p1: "publish_period ?s1 = publish_period s" using per [OF run] by simp
  have r1: "\<not> aborted ?s1" using run by (simp add: ab)
  have rest: "\<forall>c \<in> set cs. last_state_publish_time ?s1 + int (length cs) * publish_period ?s1 < fst c \<and>
       fst (snd (snd c))"
    using Cons.prems(3) by (simp add: l1 p1 algebra_simps)
  have one: "odom_publications (snd (upd time period a b s)) = 1"
    using pub [OF run, of time period a b] now lock by simp
  from Cons.IH [OF r1 _ rest] pos p1
  have IH: "list_all (\<lambda>es. odom_publications es = 1) (snd (cycles upd cs ?s1)) \<and>
    length (snd (cycles upd cs ?s1)) = length cs \<and>
    last_state_publish_time (fst (cycles upd cs ?s1)) =
      last_state_publish_time ?s1 + int (length cs) * publish_period ?s1 \<and>
    publish_period (fst (cycles upd cs ?s1)) = publish_period ?s1"
    by simp
  show ?case
    using IH one by (simp add: c Let_def l1 p1 algebra_simps)
qed

text \<open>
  Claim C10. In a cycle that is not aborted, at most one odometry message is
  published; when one is published, \<^verbatim>\<open>last_state_publish_time_\<close> has moved on by
  exactly \<^verbatim>\<open>publish_period_\<close>, not to the time of the cycle. The branch is taken
  exactly when the last publication is more than one period before the cycle time, and
  it publishes when \<^verbatim>\<open>trylock()\<close> succeeds. Consequently, when the last publication is
  more than \<open>n\<close> periods behind, each of the next \<open>n\<close> cycles publishes one message,
  and after them the time of the last publication has moved on by \<open>n\<close> periods. This
  holds for both controllers.
\<close>

theorem odometry_publication_rate:
  "(\<not> aborted s \<longrightarrow>
      odom_publications (snd (ack_update env time period a b s)) \<le> 1 \<and>
      (odom_publications (snd (ack_update env time period a b s)) = 1 \<longrightarrow>
         last_state_publish_time (fst (ack_update env time period a b s)) =
           last_state_publish_time s + publish_period s) \<and>
      (last_state_publish_time s + publish_period s < time \<longrightarrow>
         last_state_publish_time (fst (ack_update env time period a b s)) =
           last_state_publish_time s + publish_period s \<and>
         (a \<longrightarrow> odom_publications (snd (ack_update env time period a b s)) = 1)) \<and>
      (\<not> last_state_publish_time s + publish_period s < time \<longrightarrow>
         last_state_publish_time (fst (ack_update env time period a b s)) =
           last_state_publish_time s \<and>
         odom_publications (snd (ack_update env time period a b s)) = 0) \<and>
      (0 \<le> publish_period s \<and>
       (\<forall>c \<in> set cs. last_state_publish_time s + int (length cs) * publish_period s < fst c \<and>
          fst (snd (snd c))) \<longrightarrow>
         list_all (\<lambda>es. odom_publications es = 1) (snd (cycles (ack_update env) cs s)) \<and>
         length (snd (cycles (ack_update env) cs s)) = length cs \<and>
         last_state_publish_time (fst (cycles (ack_update env) cs s)) =
           last_state_publish_time s + int (length cs) * publish_period s)) \<and>
   (\<not> aborted f \<longrightarrow>
      odom_publications (snd (fws_update env time period a b f)) \<le> 1 \<and>
      (odom_publications (snd (fws_update env time period a b f)) = 1 \<longrightarrow>
         last_state_publish_time (fst (fws_update env time period a b f)) =
           last_state_publish_time f + publish_period f) \<and>
      (last_state_publish_time f + publish_period f < time \<longrightarrow>
         last_state_publish_time (fst (fws_update env time period a b f)) =
           last_state_publish_time f + publish_period f \<and>
         (a \<longrightarrow> odom_publications (snd (fws_update env time period a b f)) = 1)) \<and>
      (\<not> last_state_publish_time f + publish_period f < time \<longrightarrow>
         last_state_publish_time (fst (fws_update env time period a b f)) =
           last_state_publish_time f \<and>
         odom_publications (snd (fws_update env time period a b f)) = 0) \<and>
      (0 \<le> publish_period f \<and>
       (\<forall>c \<in> set cs. last_state_publish_time f + int (length cs) * publish_period f < fst c \<and>
          fst (snd (snd c))) \<longrightarrow>
         list_all (\<lambda>es. odom_publications es = 1) (snd (cycles (fws_update env) cs f)) \<and>
         length (snd (cycles (fws_update env) cs f)) = length cs \<and>
         last_state_publish_time (fst (cycles (fws_update env) cs f)) =
           last_state_publish_time f + int (length cs) * publish_period f))"
proof -
  have ack: "list_all (\<lambda>es. odom_publications es = 1) (snd (cycles (ack_update env) cs s)) \<and>
         length (snd (cycles (ack_update env) cs s)) = length cs \<and>
         last_state_publish_time (fst (cycles (ack_update env) cs s)) =
           last_state_publish_time s + int (length cs) * publish_period s"
    if "\<not> aborted s" "0 \<le> publish_period s"
      "\<forall>c \<in> set cs. last_state_publish_time s + int (length cs) * publish_period s < fst c \<and>
          fst (snd (snd c))"
    using cycles_catch_up [of "ack_update env" s cs, OF ack_update_publication ack_update_aborted that]
    by simp
  have fws: "list_all (\<lambda>es. odom_publications es = 1) (snd (cycles (fws_update env) cs f)) \<and>
         length (snd (cycles (fws_update env) cs f)) = length cs \<and>
         last_state_publish_time (fst (cycles (fws_update env) cs f)) =
           last_state_publish_time f + int (length cs) * publish_period f"
    if "\<not> aborted f" "0 \<le> publish_period f"
      "\<forall>c \<in> set cs. last_state_publish_time f + int (length cs) * publish_period f < fst c \<and>
          fst (snd (snd c))"
    using cycles_catch_up [of "fws_update env" f cs, OF fws_update_publication fws_update_aborted that]
    by simp
  show ?thesis
    using ack fws ack_update_publication [of s env time period a b]
      fws_update_publication [of f env time period a b]
    by (auto simp del: ack_update_aborted fws_update_aborted)
qed

theorem odometry_publication_rate_witness:
  "\<not> aborted ack_demo \<and> 0 \<le> publish_period ack_demo \<and>
   last_state_publish_time ack_demo + publish_period ack_demo < 1100000000 \<and>
   last_state_publish_time ack_demo + 2 * publish_period ack_demo < 1100000000 \<and>
   last_state_publish_time ack_demo + 2 * publish_period ack_demo < 1110000000 \<and>
   odom_publications (snd (ack_update demo_env 1100000000 10000000 True True ack_demo)) = 1 \<and>
   last_state_publish_time (fst (ack_update demo_env 1100000000 10000000 True True ack_demo)) =
     1020000000 \<and>
   list_all (\<lambda>es. odom_publications es = 1)
     (snd (cycles (ack_update demo_env)
            [(1100000000, 10000000, True, True), (1110000000, 10000000, True, True)] ack_demo)) \<and>
   last_state_publish_time
     (fst (cycles (ack_update demo_env)
            [(1100000000, 10000000, True, True), (1110000000, 10000000, True, True)] ack_demo)) =
     1040000000 \<and>
   \<not> last_state_publish_time ack_demo + publish_period ack_demo < 1010000000 \<and>
   odom_publications (snd (ack_update demo_env 1010000000 10000000 True True ack_demo)) = 0 \<and>
   last_state_publish_time (fst (ack_update demo_env 1010000000 10000000 True True ack_demo)) =
     1000000000 \<and>
   \<not> aborted fws_demo \<and> 0 \<le> publish_period fws_demo \<and>
   last_state_publish_time fws_demo + publish_period fws_demo < 1100000000 \<and>
   last_state_publish_time fws_demo + 2 * publish_period fws_demo < 1100000000 \<and>
   last_state_publish_time fws_demo + 2 * publish_period fws_demo < 1110000000 \<and>
   odom_publications (snd (fws_update demo_env 1100000000 10000000 True True fws_demo)) = 1 \<and>
   list_all (\<lambda>es. odom_publications es = 1)
     (snd (cycles (fws_update demo_env)
            [(1100000000, 10000000, True, True), (1110000000, 10000000, True, True)] fws_demo)) \<and>
   last_state_publish_time
     (fst (cycles (fws_update demo_env)
            [(1100000000, 10000000, True, True), (1110000000, 10000000, True, True)] fws_demo)) =
     1040000000 \<and>
   odom_publications (snd (fws_update demo_env 1010000000 10000000 True True fws_demo)) = 0"
proof -
  have p: "publish_period ack_demo = 20000000" "last_state_publish_time ack_demo = 1000000000"
    "publish_period fws_demo = 20000000" "last_state_publish_time fws_demo = 1000000000"
    by (simp_all add: ack_demo_def fws_demo_def)
  note A = odometry_publication_rate [where s = ack_demo and f = fws_demo and env = demo_env
      and time = 1100000000 and period = 10000000 and a = True and b = True
      and cs = "[(1100000000, 10000000, True, True), (1110000000, 10000000, True, True)]"]
  note B = odometry_publication_rate [where s = ack_demo and f = fws_demo and env = demo_env
      and time = 1010000000 and period = 10000000 and a = True and b = True and cs = "[]"]
  show ?thesis
    using A B ack_demo_runs fws_demo_runs
    by (simp add: p del: cycles.simps)
qed

section \<open>Initialisation\<close>

lemma resize_joints_state:
  "state (resize_wheel_joints n z) = state z" "state (resize_steering_joints n z) = state z"
  by (simp_all add: resize_wheel_joints_def resize_steering_joints_def Let_def)

text \<open>
  Claim C8. \<^verbatim>\<open>init\<close> returns false when the lists of left and right wheel names have
  different lengths, or the lists of left and right steering names have different
  lengths, or, in the four-wheel-steering controller, a list does not have exactly two
  names. No joint handle has been acquired then: the claims of the joint interfaces are
  what they were, and the life-cycle state of the controller is untouched, so
  \<^verbatim>\<open>initRequest\<close> returns false as well and leaves a constructed controller
  constructed. The lists are what \<^verbatim>\<open>getWheelNames\<close> reads from the parameters.
\<close>

theorem init_rejects_mismatched_joint_lists:
  "((getWheelNames controller_nh ''left_wheel'' [] = Some lw \<and>
     getWheelNames controller_nh ''right_wheel'' [] = Some rw \<and> length lw \<noteq> length rw) \<or>
    (getWheelNames controller_nh ''left_steering'' [] = Some ls \<and>
     getWheelNames controller_nh ''right_steering'' [] = Some rs \<and> length ls \<noteq> length rs) \<longrightarrow>
      fst (ack_init lib hw_pos hw_vel root_nh controller_nh s) = Returns False \<and>
      snd (snd (ack_init lib hw_pos hw_vel root_nh controller_nh s)) = hw_vel \<and>
      state (fst (snd (ack_init lib hw_pos hw_vel root_nh controller_nh s))) = state s \<and>
      (state s = CONSTRUCTED \<longrightarrow>
         fst (ack_initRequest lib (Some hw_pos) (Some hw_vel) root_nh controller_nh cr s) =
           Returns False \<and>
         state (fst (snd (ack_initRequest lib (Some hw_pos) (Some hw_vel) root_nh controller_nh cr s))) =
           CONSTRUCTED \<and>
         snd (snd (snd (ack_initRequest lib (Some hw_pos) (Some hw_vel) root_nh controller_nh cr s))) =
           (Some (clearClaims hw_pos), Some (clearClaims hw_vel)))) \<and>
   ((getWheelNames controller_nh ''left_wheel'' [] = Some lw \<and>
     getWheelNames controller_nh ''right_wheel'' [] = Some rw \<and>
     (length lw \<noteq> length rw \<or> length lw \<noteq> 2 \<or> length rw \<noteq> 2)) \<or>
    (getWheelNames controller_nh ''left_steering'' [] = Some ls \<and>
     getWheelNames controller_nh ''right_steering'' [] = Some rs \<and>
     (length ls \<noteq> length rs \<or> length ls \<noteq> 2 \<or> length rs \<noteq> 2)) \<longrightarrow>
      fst (fws_init lib hw_pos hw_vel root_nh controller_nh f) = Returns False \<and>
      snd (snd (fws_init lib hw_pos hw_vel root_nh controller_nh f)) = (hw_pos, hw_vel) \<and>
      state (fst (snd (fws_init lib hw_pos hw_vel root_nh controller_nh f))) = state f \<and>
      (state f = CONSTRUCTED \<longrightarrow>
         fst (fws_initRequest lib (Some hw_pos) (Some hw_vel) root_nh controller_nh cr4 f) =
           Returns False \<and>
         state (fst (snd (fws_initRequest lib (Some hw_pos) (Some hw_vel) root_nh controller_nh cr4 f))) =
           CONSTRUCTED \<and>
         snd (snd (snd (fws_initRequest lib (Some hw_pos) (Some hw_vel) root_nh controller_nh cr4 f))) =
           (Some (clearClaims hw_pos), Some (clearClaims hw_vel))))"
proof -
  note st = resize_joints_state
  have ack: "ack_init lib hp hv root_nh controller_nh s = (Returns False, fst (snd (ack_init lib hp hv root_nh controller_nh s)), hv) \<and>
      state (fst (snd (ack_init lib hp hv root_nh controller_nh s))) = state s"
    if "(getWheelNames controller_nh ''left_wheel'' [] = Some lw \<and>
     getWheelNames controller_nh ''right_wheel'' [] = Some rw \<and> length lw \<noteq> length rw) \<or>
    (getWheelNames controller_nh ''left_steering'' [] = Some ls \<and>
     getWheelNames controller_nh ''right_steering'' [] = Some rs \<and> length ls \<noteq> length rs)"
    for hp hv
    using that by (auto simp: ack_init_def Let_def st split: option.splits)
  have fws: "fws_init lib hp hv root_nh controller_nh f =
        (Returns False, fst (snd (fws_init lib hp hv root_nh controller_nh f)), hp, hv) \<and>
      state (fst (snd (fws_init lib hp hv root_nh controller_nh f))) = state f"
    if "(getWheelNames controller_nh ''left_wheel'' [] = Some lw \<and>
     getWheelNames controller_nh ''right_wheel'' [] = Some rw \<and>
     (length lw \<noteq> length rw \<or> length lw \<noteq> 2 \<or> length rw \<noteq> 2)) \<or>
    (getWheelNames controller_nh ''left_steering'' [] = Some ls \<and>
     getWheelNames controller_nh ''right_steering'' [] = Some rs \<and>
     (length ls \<noteq> length rs \<or> length ls \<noteq> 2 \<or> length rs \<noteq> 2))"
    for hp hv
    using that by (auto simp: fws_init_def Let_def st split: option.splits)
  have ackR: "fst (ack_initRequest lib (Some hw_pos) (Some hw_vel) root_nh controller_nh cr s) =
           Returns False \<and>
         state (fst (snd (ack_initRequest lib (Some hw_pos) (Some hw_vel) root_nh controller_nh cr s))) =
           CONSTRUCTED \<and>
         snd (snd (snd (ack_initRequest lib (Some hw_pos) (Some hw_vel) root_nh controller_nh cr s))) =
           (Some (clearClaims hw_pos), Some (clearClaims hw_vel))"
    if h: "(getWheelNames controller_nh ''left_wheel'' [] = Some lw \<and>
     getWheelNames controller_nh ''right_wheel'' [] = Some rw \<and> length lw \<noteq> length rw) \<or>
    (getWheelNames controller_nh ''left_steering'' [] = Some ls \<and>
     getWheelNames controller_nh ''right_steering'' [] = Some rs \<and> length ls \<noteq> length rs)"
      and c: "state s = CONSTRUCTED"
  proof -
    obtain z where z: "ack_init lib (clearClaims hw_pos) (clearClaims hw_vel) root_nh controller_nh s =
        (Returns False, z, clearClaims hw_vel)" and "state z = state s"
      using ack [OF h, of "clearClaims hw_pos" "clearClaims hw_vel"] by blast
    then show ?thesis using c by (simp add: ack_initRequest_def Let_def)
  qed
  have fwsR: "fst (fws_initRequest lib (Some hw_pos) (Some hw_vel) root_nh controller_nh cr4 f) =
           Returns False \<and>
         state (fst (snd (fws_initRequest lib (Some hw_pos) (Some hw_vel) root_nh controller_nh cr4 f))) =
           CONSTRUCTED \<and>
         snd (snd (snd (fws_initRequest lib (Some hw_pos) (Some hw_vel) root_nh controller_nh cr4 f))) =
           (Some (clearClaims hw_pos), Some (clearClaims hw_vel))"
    if h: "(getWheelNames controller_nh ''left_wheel'' [] = Some lw \<and>
     getWheelNames controller_nh ''right_wheel'' [] = Some rw \<and>
     (length lw \<noteq> length rw \<or> length lw \<noteq> 2 \<or> length rw \<noteq> 2)) \<or>
    (getWheelNames controller_nh ''left_steering'' [] = Some ls \<and>
     getWheelNames controller_nh ''right_steering'' [] = Some rs \<and>
     (length ls \<noteq> length rs \<or> length ls \<noteq> 2 \<or> length rs \<noteq> 2))"
      and c: "state f = CONSTRUCTED"
  proof -
    obtain z where z: "fws_init lib (clearClaims hw_pos) (clearClaims hw_vel) root_nh controller_nh f =
        (Returns False, z, clearClaims hw_pos, clearClaims hw_vel)" and "state z = state f"
      using fws [OF h, of "clearClaims hw_pos" "clearClaims hw_vel"] by blast
    then show ?thesis using c by (simp add: fws_initRequest_def Let_def)
  qed
  show ?thesis
    apply (intro conjI impI)
    subgoal using ack [of hw_pos hw_vel] by (metis fst_conv)
    subgoal using ack [of hw_pos hw_vel] by (metis snd_conv)
    subgoal using ack [of hw_pos hw_vel] by blast
    subgoal using ackR by blast
    subgoal using ackR by blast
    subgoal using ackR by blast
    subgoal using fws [of hw_pos hw_vel] by (metis fst_conv)
    subgoal using fws [of hw_pos hw_vel] by (metis snd_conv)
    subgoal using fws [of hw_pos hw_vel] by blast
    subgoal using fwsR by blast
    subgoal using fwsR by blast
    subgoal using fwsR by blast
    done
qed

lemmas nh_defs = nh_complete_def nh_wheels_differ_def nh_steering_differ_def nh_single_def nh_empty_def

lemma names_complete:
  "getWheelNames nh_complete ''left_wheel'' [] = Some [''fl'', ''rl'']"
  "getWheelNames nh_complete ''right_wheel'' [] = Some [''fr'', ''rr'']"
  "getWheelNames nh_complete ''left_steering'' [] = Some [''sfl'', ''srl'']"
  "getWheelNames nh_complete ''right_steering'' [] = Some [''sfr'', ''srr'']"
  by (simp_all add: getWheelNames_def nh_defs)

lemma names_wheels_differ:
  "getWheelNames nh_wheels_differ ''left_wheel'' [] = Some [''fl'', ''rl'']"
  "getWheelNames nh_wheels_differ ''right_wheel'' [] = Some [''fr'']"
  by (simp_all add: getWheelNames_def nh_defs)

lemma names_steering_differ:
  "getWheelNames nh_steering_differ ''left_steering'' [] = Some [''sfl'', ''srl'']"
  "getWheelNames nh_steering_differ ''right_steering'' [] = Some [''sfr'']"
  by (simp_all add: getWheelNames_def nh_defs)

lemma names_single:
  "getWheelNames nh_single ''left_wheel'' [] = Some [''fl'']"
  "getWheelNames nh_single ''right_wheel'' [] = Some [''fr'']"
  "getWheelNames nh_single ''left_steering'' [] = Some [''sfl'']"
  "getWheelNames nh_single ''right_steering'' [] = Some [''sfr'']"
  by (simp_all add: getWheelNames_def nh_defs)

theorem init_rejects_mismatched_joint_lists_witness:
  "getWheelNames nh_wheels_differ ''left_wheel'' [] = Some [''fl'', ''rl''] \<and>
   getWheelNames nh_wheels_differ ''right_wheel'' [] = Some [''fr''] \<and>
   length [''fl'', ''rl''] \<noteq> length [''fr''] \<and>
   fst (ack_init demo_lib demo_hw demo_hw nh_empty nh_wheels_differ ack_constructed) = Returns False \<and>
   snd (snd (ack_init demo_lib demo_hw demo_hw nh_empty nh_wheels_differ ack_constructed)) = demo_hw \<and>
   fst (fws_init demo_lib demo_hw demo_hw nh_empty nh_wheels_differ fws_constructed) = Returns False \<and>
   state ack_constructed = CONSTRUCTED \<and>
   fst (ack_initRequest demo_lib (Some demo_hw) (Some demo_hw) nh_empty nh_wheels_differ [] ack_constructed) =
     Returns False \<and>
   state (fst (snd (ack_initRequest demo_lib (Some demo_hw) (Some demo_hw) nh_empty nh_wheels_differ []
                      ack_constructed))) = CONSTRUCTED \<and>
   getWheelNames nh_steering_differ ''left_steering'' [] = Some [''sfl'', ''srl''] \<and>
   getWheelNames nh_steering_differ ''right_steering'' [] = Some [''sfr''] \<and>
   length [''sfl'', ''srl''] \<noteq> length [''sfr''] \<and>
   fst (ack_init demo_lib demo_hw demo_hw nh_empty nh_steering_differ ack_constructed) = Returns False \<and>
   fst (fws_init demo_lib demo_hw demo_hw nh_empty nh_steering_differ fws_constructed) = Returns False \<and>
   getWheelNames nh_single ''left_wheel'' [] = Some [''fl''] \<and>
   getWheelNames nh_single ''right_wheel'' [] = Some [''fr''] \<and>
   length [''fl''] \<noteq> 2 \<and>
   state fws_constructed = CONSTRUCTED \<and>
   fst (fws_init demo_lib demo_hw demo_hw nh_empty nh_single fws_constructed) = Returns False \<and>
   snd (snd (fws_init demo_lib demo_hw demo_hw nh_empty nh_single fws_constructed)) = (demo_hw, demo_hw) \<and>
   fst (fws_initRequest demo_lib (Some demo_hw) (Some demo_hw) nh_empty nh_single {} fws_constructed) =
     Returns False \<and>
   state (fst (snd (fws_initRequest demo_lib (Some demo_hw) (Some demo_hw) nh_empty nh_single {}
                      fws_constructed))) = CONSTRUCTED"
proof -
  have c: "state ack_constructed = CONSTRUCTED" "state fws_constructed = CONSTRUCTED"
    by (simp_all add: ack_constructed_def fws_constructed_def)
  note A = init_rejects_mismatched_joint_lists [where controller_nh = nh_wheels_differ
      and lw = "[''fl'', ''rl'']" and rw = "[''fr'']" and ls = "[]" and rs = "[]"
      and lib = demo_lib and hw_pos = demo_hw and hw_vel = demo_hw and root_nh = nh_empty
      and s = ack_constructed and f = fws_constructed and cr = "[]" and ?cr4.0 = "{}"]
  note B = init_rejects_mismatched_joint_lists [where controller_nh = nh_steering_differ
      and lw = "[]" and rw = "[]" and ls = "[''sfl'', ''srl'']" and rs = "[''sfr'']"
      and lib = demo_lib and hw_pos = demo_hw and hw_vel = demo_hw and root_nh = nh_empty
      and s = ack_constructed and f = fws_constructed and cr = "[]" and ?cr4.0 = "{}"]
  note C = init_rejects_mismatched_joint_lists [where controller_nh = nh_single
      and lw = "[''fl'']" and rw = "[''fr'']" and ls = "[''sfl'']" and rs = "[''sfr'']"
      and lib = demo_lib and hw_pos = demo_hw and hw_vel = demo_hw and root_nh = nh_empty
      and s = ack_constructed and f = fws_constructed and cr = "[]" and ?cr4.0 = "{}"]
  show ?thesis
    using A B C
    by (simp add: names_wheels_differ names_steering_differ names_single c)
qed

text \<open>
  With the complete configuration both controllers initialise: \<^verbatim>\<open>init\<close> returns
  true, the handles of the four-wheel-steering controller are those of the named
  joints, and the joints are claimed.
\<close>

lemma fws_init_complete:
  "fst (fws_init demo_lib demo_hw demo_hw nh_empty nh_complete fws_constructed) = Returns True \<and>
   map name (left_wheel_joints (fst (snd (fws_init demo_lib demo_hw demo_hw nh_empty nh_complete
                                            fws_constructed)))) = [''fl'', ''rl''] \<and>
   map name (right_steering_joints (fst (snd (fws_init demo_lib demo_hw demo_hw nh_empty nh_complete
                                            fws_constructed)))) = [''sfr'', ''srr''] \<and>
   claims (snd (snd (snd (fws_init demo_lib demo_hw demo_hw nh_empty nh_complete fws_constructed)))) =
     {''fl'', ''fr'', ''rl'', ''rr''} \<and>
   claims (fst (snd (snd (fws_init demo_lib demo_hw demo_hw nh_empty nh_complete fws_constructed)))) =
     {''sfl'', ''sfr'', ''srl'', ''srr''} \<and>
   publish_period (fst (snd (fws_init demo_lib demo_hw demo_hw nh_empty nh_complete fws_constructed))) =
     20000000"
  apply (simp add: fws_init_def names_complete Let_def)
  apply (simp add: fws_init_rest_def resize_wheel_joints_def resize_steering_joints_def
      read_common_params_def read_cmd_params_def param_double_def param_bool_def
      getParam_double_def getParam_bool_def setOdomParamsFromUrdf_def setOdomPubFields_def
      covariance_ok_def nh_defs fws_constructed_def demo_lib_def Let_def numeral_2_eq_2)
  apply (simp add: getHandle_def demo_hw_def joint_def JointHandle_default_def insert_commute
      list_all_iff)
  done

section \<open>The handle vectors after a successful initialisation\<close>

lemma get_wheel_handles_shape:
  "joints_shape (fst (snd (get_wheel_handles lns rns is hw s))) = joints_shape s"
  by (induction "is" arbitrary: hw s)
     (auto simp: joints_shape_def Let_def split: option.splits prod.splits)

lemma get_steering_handles_shape:
  "joints_shape (fst (snd (get_steering_handles lns rns is hw s))) = joints_shape s"
  by (induction "is" arbitrary: hw s)
     (auto simp: joints_shape_def Let_def split: option.splits prod.splits)

lemma setOdomParamsFromUrdf_shape:
  "joints_shape (snd (setOdomParamsFromUrdf lib root_nh l r a b s)) = joints_shape s"
  by (auto simp: setOdomParamsFromUrdf_def joints_shape_def Let_def
      split: option.splits sum.splits)

lemma read_params_shape:
  "joints_shape (read_common_params lib nh s) = joints_shape s"
  "joints_shape (read_cmd_params nh s) = joints_shape s"
  by (simp_all add: read_common_params_def read_cmd_params_def joints_shape_def Let_def)

lemma resize_shape:
  "joints_shape (resize_steering_joints m (resize_wheel_joints n s)) = [n, n, n, m, m, m]"
  by (auto simp: resize_steering_joints_def resize_wheel_joints_def joints_shape_def Let_def)

lemma ack_init_rest_shape:
  "joints_shape (fst (snd (ack_init_rest lib hw root_nh nh lw rw ls rs s))) = joints_shape s"
proof -
  have more: "joints_shape (z\<lparr>wheel_separation_multiplier := x\<rparr>) = joints_shape z"
    "joints_shape (z\<lparr>wheel_radius_multiplier := x\<rparr>) = joints_shape z"
    "joints_shape (z\<lparr>wheel_separation := x\<rparr>) = joints_shape z"
    "joints_shape (z\<lparr>wheel_radius := x\<rparr>) = joints_shape z"
    for z :: "'a AckermannController" and x
    by (simp_all add: joints_shape_def)
  show ?thesis
    unfolding ack_init_rest_def Let_def
    by (auto simp: more read_params_shape setOdomParamsFromUrdf_shape
        split: prod.splits bool.splits
        dest!: arg_cong [where f = "\<lambda>r. joints_shape (fst (snd r))"]
        simp: get_wheel_handles_shape get_steering_handles_shape)
qed


lemma fws_init_rest_shape:
  "joints_shape (fst (snd (fws_init_rest lib hp hv root_nh nh lw rw ls rs s))) = joints_shape s"
proof -
  have more: "joints_shape (z\<lparr>enable_twist_cmd := y\<rparr>) = joints_shape z"
    "joints_shape (z\<lparr>wheel_base := x\<rparr>) = joints_shape z"
    "joints_shape (z\<lparr>wheel_separation := x\<rparr>) = joints_shape z"
    "joints_shape (z\<lparr>wheel_radius := x\<rparr>) = joints_shape z"
    for z :: "'a FourWheelSteeringController" and x y
    by (simp_all add: joints_shape_def)
  show ?thesis
    unfolding fws_init_rest_def Let_def
    by (auto simp: more read_params_shape setOdomParamsFromUrdf_shape
        split: prod.splits bool.splits
        dest!: arg_cong [where f = "\<lambda>r. joints_shape (fst (snd r))"]
        simp: get_wheel_handles_shape get_steering_handles_shape)
qed

text \<open>
  When \<^verbatim>\<open>init\<close> does not return early, each handle vector has as many entries as its
  loops run to; in the four-wheel-steering controller that is two.
\<close>

lemma ack_init_shape:
  assumes "fst (ack_init lib hp hv root_nh nh s) = Returns True"
  shows "\<exists>n m. joints_shape (fst (snd (ack_init lib hp hv root_nh nh s))) = [n, n, n, m, m, m]"
  using assms
  by (auto simp: ack_init_def Let_def ack_init_rest_shape resize_shape split: option.splits if_splits)

lemma fws_init_shape:
  assumes "fst (fws_init lib hp hv root_nh nh s) = Returns True"
  shows "joints_shape (fst (snd (fws_init lib hp hv root_nh nh s))) = [2, 2, 2, 2, 2, 2]"
  using assms
  by (auto simp: fws_init_def Let_def fws_init_rest_shape resize_shape split: option.splits if_splits)

section \<open>Braking\<close>

text \<open>
  \<^verbatim>\<open>brake\<close>, which \<^verbatim>\<open>starting\<close> and \<^verbatim>\<open>stopping\<close> call, is the code that writes the
  steering handles of the ackermann controller: it sets every wheel and every steering
  setpoint to zero.
\<close>

lemma brake_fst:
  "fst (brake s) =
     s\<lparr>left_wheel_joints := write_cmds (Fin 0) [0..<wheel_joints_size s] (left_wheel_joints s),
       right_wheel_joints := write_cmds (Fin 0) [0..<wheel_joints_size s] (right_wheel_joints s),
       left_steering_joints :=
         write_cmds (Fin 0) [0..<steering_joints_size s] (left_steering_joints s),
       right_steering_joints :=
         write_cmds (Fin 0) [0..<steering_joints_size s] (right_steering_joints s)\<rparr>"
  by (simp add: brake_def Let_def set_wheel_commands_fst set_steering_commands_fst)

lemma write_cmds_all:
  assumes "length xs = n"
  shows "list_all (\<lambda>h. cmd h = v) (write_cmds v [0..<n] xs)"
  using assms by (simp add: list_all_length write_cmds_nth_cmd)

lemma brake_zero:
  assumes "joints_shape s = [n, n, n, m, m, m]"
  shows "list_all (\<lambda>h. cmd h = Fin 0) (left_wheel_joints (fst (brake s))) \<and>
         list_all (\<lambda>h. cmd h = Fin 0) (right_wheel_joints (fst (brake s))) \<and>
         list_all (\<lambda>h. cmd h = Fin 0) (left_steering_joints (fst (brake s))) \<and>
         list_all (\<lambda>h. cmd h = Fin 0) (right_steering_joints (fst (brake s)))"
  using assms by (simp add: brake_fst joints_shape_def write_cmds_all)

lemma starting_state:
  "last_state_publish_time (fst (starting env time s)) = time \<and>
   odometry (fst (starting env time s)) = Odometry_init env (odometry s) time \<and>
   snd (starting env time s) = snd (brake s) \<and>
   stopping s = brake s"
  by (simp add: starting_def stopping_def Let_def brake_fst)

section \<open>Stale commands\<close>

text \<open>
  The command of a cycle whose buffered command is stale, after the limiters: the
  limiters are called on zero, the stamp is kept, and in the four-wheel-steering
  controller both axle angles are zero.
\<close>

lemma ack_limited_cmd_stale:
  "cmd_vel_timeout s < toSec (time - stamp (command s)) \<Longrightarrow>
   ack_limited_cmd env time period s =
     (command s)
       \<lparr>lin := limiter_lin_limit env (Fin 0) (lin (last0_cmd s)) (lin (last1_cmd s)) (toSec period),
        ang := limiter_ang_limit env (Fin 0) (ang (last0_cmd s)) (ang (last1_cmd s)) (toSec period)\<rparr>"
  by (simp add: ack_limited_cmd_def ack_curr_cmd_def Let_def)

lemma fws_limited_cmd_stale:
  "cmd_vel_timeout f <
      toSec (time - stamp (if enable_twist_cmd f = False then command_four_wheel_steering f
                           else command f)) \<Longrightarrow>
   fws_limited_cmd env time period f =
     (if enable_twist_cmd f = False then command_four_wheel_steering f else command f)
       \<lparr>lin := limiter_lin_limit env (Fin 0) (lin (last0_cmd f)) (lin (last1_cmd f)) (toSec period),
        ang := limiter_ang_limit env (Fin 0) (ang (last0_cmd f)) (ang (last1_cmd f)) (toSec period),
        front_steering := Fin 0, rear_steering := Fin 0\<rparr>"
  by (simp add: fws_limited_cmd_def fws_curr_cmd_def Let_def)

text \<open>
  The wheel setpoints after a cycle of the four-wheel-steering controller that is not
  aborted, with two wheel joints on each side: the front value on the first joint of
  each side and the rear value on the second, computed from the linear value after the
  limiter and the angular speed of the odometry after its update.
\<close>

lemma fws_wheel_setpoints:
  assumes run: "\<not> aborted f"
    and len: "length (left_wheel_joints f) = 2" "length (right_wheel_joints f) = 2"
  shows "map cmd (left_wheel_joints (fst (fws_update env time period a b f))) =
           [fws_vel_left_front (lin (fws_limited_cmd env time period f))
              (getAngular env (odometry (fst (fws_update env time period a b f))))
              (wheel_separation f) (wheel_radius f) (wheel_base f),
            fws_vel_left_rear (lin (fws_limited_cmd env time period f))
              (getAngular env (odometry (fst (fws_update env time period a b f))))
              (wheel_separation f) (wheel_radius f)]"
    and "map cmd (right_wheel_joints (fst (fws_update env time period a b f))) =
           [fws_vel_right_front (lin (fws_limited_cmd env time period f))
              (getAngular env (odometry (fst (fws_update env time period a b f))))
              (wheel_separation f) (wheel_radius f) (wheel_base f),
            fws_vel_right_rear (lin (fws_limited_cmd env time period f))
              (getAngular env (odometry (fst (fws_update env time period a b f))))
              (wheel_separation f) (wheel_radius f)]"
    and "last0_cmd (fst (fws_update env time period a b f)) = fws_limited_cmd env time period f"
proof -
  from fws_update_fst [OF run, of env time period a b] obtain od where
    E: "fst (fws_update env time period a b f) =
     f\<lparr>odometry := od,
       last_state_publish_time :=
          (if last_state_publish_time f + publish_period f < time
           then last_state_publish_time f + publish_period f
           else last_state_publish_time f),
       last1_cmd := last0_cmd f,
       last0_cmd := fws_limited_cmd env time period f,
       left_wheel_joints :=
          write_pair (length (left_wheel_joints f) = 2 \<and> length (right_wheel_joints f) = 2)
            (fws_vel_left_front (lin (fws_limited_cmd env time period f))
               (getAngular env od) (wheel_separation f) (wheel_radius f) (wheel_base f))
            (fws_vel_left_rear (lin (fws_limited_cmd env time period f))
               (getAngular env od) (wheel_separation f) (wheel_radius f))
            (left_wheel_joints f),
       right_wheel_joints :=
          write_pair (length (left_wheel_joints f) = 2 \<and> length (right_wheel_joints f) = 2)
            (fws_vel_right_front (lin (fws_limited_cmd env time period f))
               (getAngular env od) (wheel_separation f) (wheel_radius f) (wheel_base f))
            (fws_vel_right_rear (lin (fws_limited_cmd env time period f))
               (getAngular env od) (wheel_separation f) (wheel_radius f))
            (right_wheel_joints f),
       left_steering_joints :=
          write_pair (length (left_steering_joints f) = 2 \<and> length (right_steering_joints f) = 2)
            (fst (fws_steering env (fws_limited_cmd env time period f) (f\<lparr>odometry := od\<rparr>)))
            (snd (fws_steering env (fws_limited_cmd env time period f) (f\<lparr>odometry := od\<rparr>)))
            (left_steering_joints f),
       right_steering_joints :=
          write_pair (length (left_steering_joints f) = 2 \<and> length (right_steering_joints f) = 2)
            (fst (fws_steering env (fws_limited_cmd env time period f) (f\<lparr>odometry := od\<rparr>)))
            (snd (fws_steering env (fws_limited_cmd env time period f) (f\<lparr>odometry := od\<rparr>)))
            (right_steering_joints f)\<rparr>"
    by blast
  show "map cmd (left_wheel_joints (fst (fws_update env time period a b f))) =
           [fws_vel_left_front (lin (fws_limited_cmd env time period f))
              (getAngular env (odometry (fst (fws_update env time period a b f))))
              (wheel_separation f) (wheel_radius f) (wheel_base f),
            fws_vel_left_rear (lin (fws_limited_cmd env time period f))
              (getAngular env (odometry (fst (fws_update env time period a b f))))
              (wheel_separation f) (wheel_radius f)]"
    using len by (simp add: E write_pair_two setCommand_def)
  show "map cmd (right_wheel_joints (fst (fws_update env time period a b f))) =
           [fws_vel_right_front (lin (fws_limited_cmd env time period f))
              (getAngular env (odometry (fst (fws_update env time period a b f))))
              (wheel_separation f) (wheel_radius f) (wheel_base f),
            fws_vel_right_rear (lin (fws_limited_cmd env time period f))
              (getAngular env (odometry (fst (fws_update env time period a b f))))
              (wheel_separation f) (wheel_radius f)]"
    using len by (simp add: E write_pair_two setCommand_def)
  show "last0_cmd (fst (fws_update env time period a b f)) = fws_limited_cmd env time period f"
    by (simp add: E)
qed

text \<open>
  The wheel setpoints and the stored command after a cycle of the ackermann controller
  that is not aborted.
\<close>

lemma ack_wheel_setpoints:
  assumes run: "\<not> aborted s"
    and len: "length (left_wheel_joints s) = wheel_joints_size s"
      "length (right_wheel_joints s) = wheel_joints_size s"
    and i: "i < wheel_joints_size s"
  shows "cmd (left_wheel_joints (fst (ack_update env time period a b s)) ! i) =
           ack_vel_left (lin (ack_limited_cmd env time period s))
             (ang (ack_limited_cmd env time period s))
             (wheel_separation_multiplier s * wheel_separation s)
             (wheel_radius_multiplier s * wheel_radius s)"
    and "cmd (right_wheel_joints (fst (ack_update env time period a b s)) ! i) =
           ack_vel_right (lin (ack_limited_cmd env time period s))
             (ang (ack_limited_cmd env time period s))
             (wheel_separation_multiplier s * wheel_separation s)
             (wheel_radius_multiplier s * wheel_radius s)"
    and "last0_cmd (fst (ack_update env time period a b s)) = ack_limited_cmd env time period s"
proof -
  from ack_update_fst [OF run, of env time period a b] obtain od where
    E: "fst (ack_update env time period a b s) =
        s\<lparr>odometry := od,
          last_state_publish_time :=
            (if last_state_publish_time s + publish_period s < time
             then last_state_publish_time s + publish_period s
             else last_state_publish_time s),
          last1_cmd := last0_cmd s,
          last0_cmd := ack_limited_cmd env time period s,
          left_wheel_joints :=
            write_cmds (ack_vel_left (lin (ack_limited_cmd env time period s))
                          (ang (ack_limited_cmd env time period s))
                          (wheel_separation_multiplier s * wheel_separation s)
                          (wheel_radius_multiplier s * wheel_radius s))
              [0..<wheel_joints_size s] (left_wheel_joints s),
          right_wheel_joints :=
            write_cmds (ack_vel_right (lin (ack_limited_cmd env time period s))
                          (ang (ack_limited_cmd env time period s))
                          (wheel_separation_multiplier s * wheel_separation s)
                          (wheel_radius_multiplier s * wheel_radius s))
              [0..<wheel_joints_size s] (right_wheel_joints s)\<rparr>"
    by blast
  show "cmd (left_wheel_joints (fst (ack_update env time period a b s)) ! i) =
           ack_vel_left (lin (ack_limited_cmd env time period s))
             (ang (ack_limited_cmd env time period s))
             (wheel_separation_multiplier s * wheel_separation s)
             (wheel_radius_multiplier s * wheel_radius s)"
    using len i by (simp add: E write_cmds_nth_cmd)
  show "cmd (right_wheel_joints (fst (ack_update env time period a b s)) ! i) =
           ack_vel_right (lin (ack_limited_cmd env time period s))
             (ang (ack_limited_cmd env time period s))
             (wheel_separation_multiplier s * wheel_separation s)
             (wheel_radius_multiplier s * wheel_radius s)"
    using len i by (simp add: E write_cmds_nth_cmd)
  show "last0_cmd (fst (ack_update env time period a b s)) = ack_limited_cmd env time period s"
    by (simp add: E)
qed

text \<open>
  The wheel velocities of both kinematic models are zero when the linear and the
  angular value are zero and the wheel radius is a number other than zero.
\<close>

lemma ack_vel_zero:
  "r \<noteq> 0 \<Longrightarrow> ack_vel_left (Fin 0) (Fin 0) (Fin x) (Fin r) = Fin 0"
  "r \<noteq> 0 \<Longrightarrow> ack_vel_right (Fin 0) (Fin 0) (Fin x) (Fin r) = Fin 0"
  by (simp_all add: ack_vel_left_def ack_vel_right_def)

lemma fws_vel_zero:
  "r \<noteq> 0 \<Longrightarrow> fws_vel_left_front (Fin 0) (Fin 0) (Fin x) (Fin r) (Fin y) = Fin 0"
  "r \<noteq> 0 \<Longrightarrow> fws_vel_right_front (Fin 0) (Fin 0) (Fin x) (Fin r) (Fin y) = Fin 0"
  "r \<noteq> 0 \<Longrightarrow> fws_vel_left_rear (Fin 0) (Fin 0) (Fin x) (Fin r) = Fin 0"
  "r \<noteq> 0 \<Longrightarrow> fws_vel_right_rear (Fin 0) (Fin 0) (Fin x) (Fin r) = Fin 0"
  by (simp_all add: fws_vel_left_front_def fws_vel_right_front_def fws_vel_left_rear_def
      fws_vel_right_rear_def)

text \<open>
  The concrete cycles used below: the two controllers of the last section that are not
  aborted, and the odometry after the update of a cycle at 2 s.
\<close>

lemma ack_coasting_runs: "\<not> aborted ack_coasting"
  by (simp add: aborted_code ack_coasting_def ack_demo_def joint_def Let_def)

lemma fws_turning_runs: "\<not> aborted fws_turning"
  by (simp add: aborted_code fws_turning_def fws_demo_def joint_def Let_def numeral_2_eq_2)

lemma fws_turning_odometry:
  "fws_update_odometry demo_env 2000000000 fws_turning =
     Some (fws_turning\<lparr>odometry :=
        estimate_zero\<lparr>est_linear := Fin 25, est_angular := Fin 1, est_timestamp := 2000000000\<rparr>\<rparr>)"
  by (simp add: fws_update_odometry_def wheel_feedback_def fws_turning_def fws_demo_def demo_env_def
      joint_def Let_def numeral_2_eq_2)

lemma fws_demo_stale_odometry:
  "fws_update_odometry demo_env 2000000000 fws_demo =
     Some (fws_demo\<lparr>odometry :=
        estimate_zero\<lparr>est_linear := Fin 25, est_angular := Fin 0, est_timestamp := 2000000000\<rparr>\<rparr>)"
  by (simp add: fws_update_odometry_def wheel_feedback_def fws_demo_def demo_env_def
      joint_def Let_def numeral_2_eq_2)

text \<open>
  Claim C1 fails where it says that a cycle with a stale command yields zero linear
  and angular setpoints. The stale test only zeroes the command before the limiters,
  and the wheel setpoints are computed after them. In the ackermann cycle below the
  command is stale and zeroed, the cycle before commanded 1 m/s and the limiters allow
  a change of 0.1 in a cycle of 10 ms: the cycle stores the linear value 0.9 and writes
  9 rad/s to both wheels. In the four-wheel-steering cycle below, in the direct-axle
  mode with limiters that leave zero as it is, the command is stale and the stored
  linear and angular value are zero, but the odometry reports the angular speed 1, which
  \<^verbatim>\<open>update\<close> uses for the wheel velocities: the rear wheels get -2.5 and 2.5 rad/s.
\<close>

theorem stale_cycle_nonzero_wheel_setpoints:
  "cmd_vel_timeout ack_coasting < toSec (2000000000 - stamp (command ack_coasting)) \<and>
   \<not> aborted ack_coasting \<and>
   ack_curr_cmd 2000000000 ack_coasting = \<lparr>lin = Fin 0, ang = Fin 0, stamp = 1000000000\<rparr> \<and>
   last0_cmd (fst (ack_update ramp_env 2000000000 10000000 True True ack_coasting)) =
     \<lparr>lin = Fin (9 / 10), ang = Fin 0, stamp = 1000000000\<rparr> \<and>
   map cmd (left_wheel_joints (fst (ack_update ramp_env 2000000000 10000000 True True ack_coasting))) =
     [Fin 9] \<and>
   map cmd (right_wheel_joints (fst (ack_update ramp_env 2000000000 10000000 True True ack_coasting))) =
     [Fin 9] \<and>
   cmd_vel_timeout fws_turning <
     toSec (2000000000 - stamp (command_four_wheel_steering fws_turning)) \<and>
   enable_twist_cmd fws_turning = False \<and> \<not> aborted fws_turning \<and>
   lin (fws_curr_cmd 2000000000 fws_turning) = Fin 0 \<and>
   ang (fws_curr_cmd 2000000000 fws_turning) = Fin 0 \<and>
   lin (last0_cmd (fst (fws_update demo_env 2000000000 10000000 True True fws_turning))) = Fin 0 \<and>
   ang (last0_cmd (fst (fws_update demo_env 2000000000 10000000 True True fws_turning))) = Fin 0 \<and>
   cmd (left_wheel_joints (fst (fws_update demo_env 2000000000 10000000 True True fws_turning)) ! 1) =
     Fin (- (5 / 2)) \<and>
   cmd (right_wheel_joints (fst (fws_update demo_env 2000000000 10000000 True True fws_turning)) ! 1) =
     Fin (5 / 2)"
proof -
  have a: "cmd_vel_timeout ack_coasting < toSec (2000000000 - stamp (command ack_coasting))"
    "ack_curr_cmd 2000000000 ack_coasting = \<lparr>lin = Fin 0, ang = Fin 0, stamp = 1000000000\<rparr>"
    "ack_limited_cmd ramp_env 2000000000 10000000 ack_coasting =
       \<lparr>lin = Fin (9 / 10), ang = Fin 0, stamp = 1000000000\<rparr>"
    "length (left_wheel_joints ack_coasting) = wheel_joints_size ack_coasting"
    "length (right_wheel_joints ack_coasting) = wheel_joints_size ack_coasting"
    "wheel_joints_size ack_coasting = 1"
    "wheel_separation_multiplier ack_coasting * wheel_separation ack_coasting = Fin (1 / 2)"
    "wheel_radius_multiplier ack_coasting * wheel_radius ack_coasting = Fin (1 / 10)"
    by (simp_all add: ack_coasting_def ack_demo_def ack_limited_cmd_def ack_curr_cmd_def toSec_def
        ramp_env_def ramp10_def Commands_default_def Let_def)
  have a1: "length (left_wheel_joints (fst (ack_update ramp_env 2000000000 10000000 True True ack_coasting))) = 1"
    "length (right_wheel_joints (fst (ack_update ramp_env 2000000000 10000000 True True ack_coasting))) = 1"
    using ack_update_fst [OF ack_coasting_runs, of ramp_env 2000000000 10000000 True True] a(4-6)
    by auto
  have a2: "cmd (left_wheel_joints (fst (ack_update ramp_env 2000000000 10000000 True True ack_coasting)) ! 0) = Fin 9"
    "cmd (right_wheel_joints (fst (ack_update ramp_env 2000000000 10000000 True True ack_coasting)) ! 0) = Fin 9"
    "last0_cmd (fst (ack_update ramp_env 2000000000 10000000 True True ack_coasting)) =
       \<lparr>lin = Fin (9 / 10), ang = Fin 0, stamp = 1000000000\<rparr>"
    using ack_wheel_setpoints [of ack_coasting 0 ramp_env 2000000000 10000000 True True]
      ack_coasting_runs a
    by (simp_all add: ack_vel_left_def ack_vel_right_def)
  have one: "\<And>xs :: JointHandle list. length xs = 1 \<Longrightarrow> map cmd xs = [cmd (xs ! 0)]"
    by (case_tac xs) simp_all
  have f: "cmd_vel_timeout fws_turning <
       toSec (2000000000 - stamp (command_four_wheel_steering fws_turning))"
    "enable_twist_cmd fws_turning = False"
    "fws_curr_cmd 2000000000 fws_turning =
       \<lparr>lin = Fin 0, ang = Fin 0, stamp = 1000000000, front_steering = Fin 0, rear_steering = Fin 0\<rparr>"
    "fws_limited_cmd demo_env 2000000000 10000000 fws_turning =
       \<lparr>lin = Fin 0, ang = Fin 0, stamp = 1000000000, front_steering = Fin 0, rear_steering = Fin 0\<rparr>"
    "length (left_wheel_joints fws_turning) = 2" "length (right_wheel_joints fws_turning) = 2"
    "wheel_separation fws_turning = Fin (1 / 2)" "wheel_radius fws_turning = Fin (1 / 10)"
    by (simp_all add: fws_turning_def fws_demo_def fws_limited_cmd_def fws_curr_cmd_def toSec_def
        demo_env_def clamp2_def Commands4_default_def Let_def)
  have od: "getAngular demo_env
        (odometry (fst (fws_update demo_env 2000000000 10000000 True True fws_turning))) = Fin 1"
  proof -
    have ga: "getAngular demo_env = est_angular"
      by (simp add: demo_env_def)
    show ?thesis
      by (simp add: ga fws_update_odometry_field [OF fws_turning_odometry])
  qed
  have f2: "map cmd (left_wheel_joints (fst (fws_update demo_env 2000000000 10000000 True True fws_turning))) ! 1 =
        Fin (- (5 / 2))"
    "map cmd (right_wheel_joints (fst (fws_update demo_env 2000000000 10000000 True True fws_turning))) ! 1 =
        Fin (5 / 2)"
    "last0_cmd (fst (fws_update demo_env 2000000000 10000000 True True fws_turning)) =
       \<lparr>lin = Fin 0, ang = Fin 0, stamp = 1000000000, front_steering = Fin 0, rear_steering = Fin 0\<rparr>"
    using fws_wheel_setpoints [OF fws_turning_runs f(5,6), of demo_env 2000000000 10000000 True True]
    by (simp_all add: f od fws_vel_left_rear_def fws_vel_right_rear_def)
  have len2: "length (left_wheel_joints (fst (fws_update demo_env 2000000000 10000000 True True fws_turning))) = 2"
    "length (right_wheel_joints (fst (fws_update demo_env 2000000000 10000000 True True fws_turning))) = 2"
    using fws_wheel_setpoints(1,2) [OF fws_turning_runs f(5,6), of demo_env 2000000000 10000000 True True,
        THEN arg_cong, of length]
    by simp_all
  have f3: "cmd (left_wheel_joints (fst (fws_update demo_env 2000000000 10000000 True True fws_turning)) ! 1) =
        Fin (- (5 / 2))"
    "cmd (right_wheel_joints (fst (fws_update demo_env 2000000000 10000000 True True fws_turning)) ! 1) =
        Fin (5 / 2)"
    using f2(1,2) len2 by simp_all
  show ?thesis
    using a(1,2) a2(3) one [OF a1(1)] one [OF a1(2)] a2(1,2) ack_coasting_runs
      f(1,2,3) fws_turning_runs f2(3) f3
    by simp
qed


text \<open>
  Claim C1, amended. In a cycle in which the age of the buffered command, the cycle
  time minus the command's stamp, exceeds \<^verbatim>\<open>cmd_vel_timeout_\<close>, the command of the cycle
  has its linear and angular value set to zero before the limiters, and in the
  four-wheel-steering controller its front and rear steering as well, whatever the
  stale command contained. If the cycle is not aborted, the command it stores has the
  results of the two limiters on zero, and the wheel setpoints it writes are those of
  the kinematic model for these results: in the ackermann controller, on every wheel
  pair, the linear result minus and plus the angular result times half the wheel
  separation, over the wheel radius; in the four-wheel-steering controller the four
  wheel velocities computed from the linear result and the angular speed of the
  odometry. So the wheel setpoints are zero when the limiters return zero for zero,
  the wheel radius is a number other than zero and, in the four-wheel-steering
  controller, the odometry reports no angular speed. The four steering setpoints of
  the direct-axle mode are zero. With any other command of the same stamp in the
  buffer, the cycle has the same effects and ends in the same state, the buffer apart.
\<close>

theorem stale_command_setpoints:
  "(cmd_vel_timeout s < toSec (time - stamp (command s)) \<longrightarrow>
      ack_curr_cmd time s = (command s)\<lparr>lin := Fin 0, ang := Fin 0\<rparr> \<and>
      (\<not> aborted s \<longrightarrow>
         last0_cmd (fst (ack_update env time period a b s)) =
           (command s)
             \<lparr>lin := limiter_lin_limit env (Fin 0) (lin (last0_cmd s)) (lin (last1_cmd s)) (toSec period),
              ang := limiter_ang_limit env (Fin 0) (ang (last0_cmd s)) (ang (last1_cmd s)) (toSec period)\<rparr>) \<and>
      (\<not> aborted s \<and> length (left_wheel_joints s) = wheel_joints_size s \<and>
       length (right_wheel_joints s) = wheel_joints_size s \<longrightarrow>
         (\<forall>i < wheel_joints_size s.
            cmd (left_wheel_joints (fst (ack_update env time period a b s)) ! i) =
              (limiter_lin_limit env (Fin 0) (lin (last0_cmd s)) (lin (last1_cmd s)) (toSec period) -
               limiter_ang_limit env (Fin 0) (ang (last0_cmd s)) (ang (last1_cmd s)) (toSec period) *
                 (wheel_separation_multiplier s * wheel_separation s) / Fin 2) /
              (wheel_radius_multiplier s * wheel_radius s) \<and>
            cmd (right_wheel_joints (fst (ack_update env time period a b s)) ! i) =
              (limiter_lin_limit env (Fin 0) (lin (last0_cmd s)) (lin (last1_cmd s)) (toSec period) +
               limiter_ang_limit env (Fin 0) (ang (last0_cmd s)) (ang (last1_cmd s)) (toSec period) *
                 (wheel_separation_multiplier s * wheel_separation s) / Fin 2) /
              (wheel_radius_multiplier s * wheel_radius s)) \<and>
         (limiter_lin_limit env (Fin 0) (lin (last0_cmd s)) (lin (last1_cmd s)) (toSec period) = Fin 0 \<and>
          limiter_ang_limit env (Fin 0) (ang (last0_cmd s)) (ang (last1_cmd s)) (toSec period) = Fin 0 \<and>
          wheel_separation_multiplier s * wheel_separation s = Fin x \<and>
          wheel_radius_multiplier s * wheel_radius s = Fin r \<and> r \<noteq> 0 \<longrightarrow>
            (\<forall>i < wheel_joints_size s.
               cmd (left_wheel_joints (fst (ack_update env time period a b s)) ! i) = Fin 0 \<and>
               cmd (right_wheel_joints (fst (ack_update env time period a b s)) ! i) = Fin 0))) \<and>
      (stamp c = stamp (command s) \<longrightarrow>
         ack_update env time period a b (s\<lparr>command := c\<rparr>) =
           ((fst (ack_update env time period a b s))\<lparr>command := c\<rparr>,
            snd (ack_update env time period a b s)))) \<and>
   (cmd_vel_timeout f <
      toSec (time - stamp (if enable_twist_cmd f = False then command_four_wheel_steering f
                           else command f)) \<longrightarrow>
      fws_curr_cmd time f =
        (if enable_twist_cmd f = False then command_four_wheel_steering f else command f)
          \<lparr>lin := Fin 0, ang := Fin 0, front_steering := Fin 0, rear_steering := Fin 0\<rparr> \<and>
      (\<not> aborted f \<longrightarrow>
         last0_cmd (fst (fws_update env time period a b f)) =
           (if enable_twist_cmd f = False then command_four_wheel_steering f else command f)
             \<lparr>lin := limiter_lin_limit env (Fin 0) (lin (last0_cmd f)) (lin (last1_cmd f)) (toSec period),
              ang := limiter_ang_limit env (Fin 0) (ang (last0_cmd f)) (ang (last1_cmd f)) (toSec period),
              front_steering := Fin 0, rear_steering := Fin 0\<rparr>) \<and>
      (\<not> aborted f \<and> length (left_wheel_joints f) = 2 \<and> length (right_wheel_joints f) = 2 \<longrightarrow>
         map cmd (left_wheel_joints (fst (fws_update env time period a b f))) =
            [copysign1 (limiter_lin_limit env (Fin 0) (lin (last0_cmd f)) (lin (last1_cmd f)) (toSec period)) *
              sqrt_double
                (pow2 (limiter_lin_limit env (Fin 0) (lin (last0_cmd f)) (lin (last1_cmd f)) (toSec period) -
                       getAngular env (odometry (fst (fws_update env time period a b f))) * wheel_separation f / Fin 2) +
                 pow2 (wheel_base f * getAngular env (odometry (fst (fws_update env time period a b f))))) /
              wheel_radius f,
             (limiter_lin_limit env (Fin 0) (lin (last0_cmd f)) (lin (last1_cmd f)) (toSec period) -
               getAngular env (odometry (fst (fws_update env time period a b f))) * wheel_separation f / Fin 2) /
              wheel_radius f] \<and>
         map cmd (right_wheel_joints (fst (fws_update env time period a b f))) =
            [copysign1 (limiter_lin_limit env (Fin 0) (lin (last0_cmd f)) (lin (last1_cmd f)) (toSec period)) *
              sqrt_double
                (pow2 (limiter_lin_limit env (Fin 0) (lin (last0_cmd f)) (lin (last1_cmd f)) (toSec period) +
                       getAngular env (odometry (fst (fws_update env time period a b f))) * wheel_separation f / Fin 2) +
                 pow2 (wheel_base f * getAngular env (odometry (fst (fws_update env time period a b f))))) /
              wheel_radius f,
             (limiter_lin_limit env (Fin 0) (lin (last0_cmd f)) (lin (last1_cmd f)) (toSec period) +
               getAngular env (odometry (fst (fws_update env time period a b f))) * wheel_separation f / Fin 2) /
              wheel_radius f] \<and>
         (limiter_lin_limit env (Fin 0) (lin (last0_cmd f)) (lin (last1_cmd f)) (toSec period) = Fin 0 \<and>
          getAngular env (odometry (fst (fws_update env time period a b f))) = Fin 0 \<and>
          wheel_separation f = Fin x \<and> wheel_radius f = Fin r \<and> r \<noteq> 0 \<and> wheel_base f = Fin y \<longrightarrow>
            map cmd (left_wheel_joints (fst (fws_update env time period a b f))) = [Fin 0, Fin 0] \<and>
            map cmd (right_wheel_joints (fst (fws_update env time period a b f))) = [Fin 0, Fin 0])) \<and>
      (\<not> aborted f \<and> enable_twist_cmd f = False \<and>
       length (left_steering_joints f) = 2 \<and> length (right_steering_joints f) = 2 \<longrightarrow>
         map cmd (left_steering_joints (fst (fws_update env time period a b f))) = [Fin 0, Fin 0] \<and>
         map cmd (right_steering_joints (fst (fws_update env time period a b f))) = [Fin 0, Fin 0]) \<and>
      (enable_twist_cmd f = False \<and> stamp d = stamp (command_four_wheel_steering f) \<longrightarrow>
         fws_update env time period a b (f\<lparr>command_four_wheel_steering := d\<rparr>) =
           ((fst (fws_update env time period a b f))\<lparr>command_four_wheel_steering := d\<rparr>,
            snd (fws_update env time period a b f))) \<and>
      (enable_twist_cmd f = True \<and> stamp d = stamp (command f) \<longrightarrow>
         fws_update env time period a b (f\<lparr>command := d\<rparr>) =
           ((fst (fws_update env time period a b f))\<lparr>command := d\<rparr>,
            snd (fws_update env time period a b f))))"
proof (intro conjI impI allI)
  assume stale: "cmd_vel_timeout s < toSec (time - stamp (command s))"
  show "ack_curr_cmd time s = (command s)\<lparr>lin := Fin 0, ang := Fin 0\<rparr>"
    using stale by (simp add: ack_curr_cmd_def Let_def)
next
  assume stale: "cmd_vel_timeout s < toSec (time - stamp (command s))"
    and run: "\<not> aborted s"
  show "last0_cmd (fst (ack_update env time period a b s)) =
           (command s)
             \<lparr>lin := limiter_lin_limit env (Fin 0) (lin (last0_cmd s)) (lin (last1_cmd s)) (toSec period),
              ang := limiter_ang_limit env (Fin 0) (ang (last0_cmd s)) (ang (last1_cmd s)) (toSec period)\<rparr>"
    using ack_update_fst [OF run, of env time period a b] ack_limited_cmd_stale [OF stale, of env period]
    by auto
next
  fix i
  assume stale: "cmd_vel_timeout s < toSec (time - stamp (command s))"
    and h: "\<not> aborted s \<and> length (left_wheel_joints s) = wheel_joints_size s \<and>
       length (right_wheel_joints s) = wheel_joints_size s"
    and i: "i < wheel_joints_size s"
  show "cmd (left_wheel_joints (fst (ack_update env time period a b s)) ! i) =
              (limiter_lin_limit env (Fin 0) (lin (last0_cmd s)) (lin (last1_cmd s)) (toSec period) -
               limiter_ang_limit env (Fin 0) (ang (last0_cmd s)) (ang (last1_cmd s)) (toSec period) *
                 (wheel_separation_multiplier s * wheel_separation s) / Fin 2) /
              (wheel_radius_multiplier s * wheel_radius s)"
    using ack_wheel_setpoints(1) [of s i env time period a b] h i
      ack_limited_cmd_stale [OF stale, of env period]
    by (simp add: ack_vel_left_def)
next
  fix i
  assume stale: "cmd_vel_timeout s < toSec (time - stamp (command s))"
    and h: "\<not> aborted s \<and> length (left_wheel_joints s) = wheel_joints_size s \<and>
       length (right_wheel_joints s) = wheel_joints_size s"
    and i: "i < wheel_joints_size s"
  show "cmd (right_wheel_joints (fst (ack_update env time period a b s)) ! i) =
              (limiter_lin_limit env (Fin 0) (lin (last0_cmd s)) (lin (last1_cmd s)) (toSec period) +
               limiter_ang_limit env (Fin 0) (ang (last0_cmd s)) (ang (last1_cmd s)) (toSec period) *
                 (wheel_separation_multiplier s * wheel_separation s) / Fin 2) /
              (wheel_radius_multiplier s * wheel_radius s)"
    using ack_wheel_setpoints(2) [of s i env time period a b] h i
      ack_limited_cmd_stale [OF stale, of env period]
    by (simp add: ack_vel_right_def)
next
  fix i
  assume stale: "cmd_vel_timeout s < toSec (time - stamp (command s))"
    and h: "\<not> aborted s \<and> length (left_wheel_joints s) = wheel_joints_size s \<and>
       length (right_wheel_joints s) = wheel_joints_size s"
    and z: "limiter_lin_limit env (Fin 0) (lin (last0_cmd s)) (lin (last1_cmd s)) (toSec period) = Fin 0 \<and>
          limiter_ang_limit env (Fin 0) (ang (last0_cmd s)) (ang (last1_cmd s)) (toSec period) = Fin 0 \<and>
          wheel_separation_multiplier s * wheel_separation s = Fin x \<and>
          wheel_radius_multiplier s * wheel_radius s = Fin r \<and> r \<noteq> 0"
    and i: "i < wheel_joints_size s"
  show "cmd (left_wheel_joints (fst (ack_update env time period a b s)) ! i) = Fin 0"
    using ack_wheel_setpoints(1) [of s i env time period a b] h i z
      ack_limited_cmd_stale [OF stale, of env period]
    by (simp add: ack_vel_zero)
next
  fix i
  assume stale: "cmd_vel_timeout s < toSec (time - stamp (command s))"
    and h: "\<not> aborted s \<and> length (left_wheel_joints s) = wheel_joints_size s \<and>
       length (right_wheel_joints s) = wheel_joints_size s"
    and z: "limiter_lin_limit env (Fin 0) (lin (last0_cmd s)) (lin (last1_cmd s)) (toSec period) = Fin 0 \<and>
          limiter_ang_limit env (Fin 0) (ang (last0_cmd s)) (ang (last1_cmd s)) (toSec period) = Fin 0 \<and>
          wheel_separation_multiplier s * wheel_separation s = Fin x \<and>
          wheel_radius_multiplier s * wheel_radius s = Fin r \<and> r \<noteq> 0"
    and i: "i < wheel_joints_size s"
  show "cmd (right_wheel_joints (fst (ack_update env time period a b s)) ! i) = Fin 0"
    using ack_wheel_setpoints(2) [of s i env time period a b] h i z
      ack_limited_cmd_stale [OF stale, of env period]
    by (simp add: ack_vel_zero)
next
  assume stale: "cmd_vel_timeout s < toSec (time - stamp (command s))"
    and st: "stamp c = stamp (command s)"
  show "ack_update env time period a b (s\<lparr>command := c\<rparr>) =
           ((fst (ack_update env time period a b s))\<lparr>command := c\<rparr>,
            snd (ack_update env time period a b s))"
    using stale st by (rule ack_stale_independent)
next
  assume stale: "cmd_vel_timeout f <
      toSec (time - stamp (if enable_twist_cmd f = False then command_four_wheel_steering f
                           else command f))"
  show "fws_curr_cmd time f =
        (if enable_twist_cmd f = False then command_four_wheel_steering f else command f)
          \<lparr>lin := Fin 0, ang := Fin 0, front_steering := Fin 0, rear_steering := Fin 0\<rparr>"
    using stale by (simp add: fws_curr_cmd_def Let_def)
next
  assume stale: "cmd_vel_timeout f <
      toSec (time - stamp (if enable_twist_cmd f = False then command_four_wheel_steering f
                           else command f))"
    and run: "\<not> aborted f"
  show "last0_cmd (fst (fws_update env time period a b f)) =
           (if enable_twist_cmd f = False then command_four_wheel_steering f else command f)
             \<lparr>lin := limiter_lin_limit env (Fin 0) (lin (last0_cmd f)) (lin (last1_cmd f)) (toSec period),
              ang := limiter_ang_limit env (Fin 0) (ang (last0_cmd f)) (ang (last1_cmd f)) (toSec period),
              front_steering := Fin 0, rear_steering := Fin 0\<rparr>"
    using fws_update_fst [OF run, of env time period a b] fws_limited_cmd_stale [OF stale, of env period]
    by auto
next
  assume stale: "cmd_vel_timeout f <
      toSec (time - stamp (if enable_twist_cmd f = False then command_four_wheel_steering f
                           else command f))"
    and h: "\<not> aborted f \<and> length (left_wheel_joints f) = 2 \<and> length (right_wheel_joints f) = 2"
  show "map cmd (left_wheel_joints (fst (fws_update env time period a b f))) =
            [copysign1 (limiter_lin_limit env (Fin 0) (lin (last0_cmd f)) (lin (last1_cmd f)) (toSec period)) *
              sqrt_double
                (pow2 (limiter_lin_limit env (Fin 0) (lin (last0_cmd f)) (lin (last1_cmd f)) (toSec period) -
                       getAngular env (odometry (fst (fws_update env time period a b f))) * wheel_separation f / Fin 2) +
                 pow2 (wheel_base f * getAngular env (odometry (fst (fws_update env time period a b f))))) /
              wheel_radius f,
             (limiter_lin_limit env (Fin 0) (lin (last0_cmd f)) (lin (last1_cmd f)) (toSec period) -
               getAngular env (odometry (fst (fws_update env time period a b f))) * wheel_separation f / Fin 2) /
              wheel_radius f]"
    using fws_wheel_setpoints(1) [of f env time period a b] h
      fws_limited_cmd_stale [OF stale, of env period]
    by (simp add: fws_vel_left_front_def fws_vel_left_rear_def)
next
  assume stale: "cmd_vel_timeout f <
      toSec (time - stamp (if enable_twist_cmd f = False then command_four_wheel_steering f
                           else command f))"
    and h: "\<not> aborted f \<and> length (left_wheel_joints f) = 2 \<and> length (right_wheel_joints f) = 2"
  show "map cmd (right_wheel_joints (fst (fws_update env time period a b f))) =
            [copysign1 (limiter_lin_limit env (Fin 0) (lin (last0_cmd f)) (lin (last1_cmd f)) (toSec period)) *
              sqrt_double
                (pow2 (limiter_lin_limit env (Fin 0) (lin (last0_cmd f)) (lin (last1_cmd f)) (toSec period) +
                       getAngular env (odometry (fst (fws_update env time period a b f))) * wheel_separation f / Fin 2) +
                 pow2 (wheel_base f * getAngular env (odometry (fst (fws_update env time period a b f))))) /
              wheel_radius f,
             (limiter_lin_limit env (Fin 0) (lin (last0_cmd f)) (lin (last1_cmd f)) (toSec period) +
               getAngular env (odometry (fst (fws_update env time period a b f))) * wheel_separation f / Fin 2) /
              wheel_radius f]"
    using fws_wheel_setpoints(2) [of f env time period a b] h
      fws_limited_cmd_stale [OF stale, of env period]
    by (simp add: fws_vel_right_front_def fws_vel_right_rear_def)
next
  assume stale: "cmd_vel_timeout f <
      toSec (time - stamp (if enable_twist_cmd f = False then command_four_wheel_steering f
                           else command f))"
    and h: "\<not> aborted f \<and> length (left_wheel_joints f) = 2 \<and> length (right_wheel_joints f) = 2"
    and z: "limiter_lin_limit env (Fin 0) (lin (last0_cmd f)) (lin (last1_cmd f)) (toSec period) = Fin 0 \<and>
          getAngular env (odometry (fst (fws_update env time period a b f))) = Fin 0 \<and>
          wheel_separation f = Fin x \<and> wheel_radius f = Fin r \<and> r \<noteq> 0 \<and> wheel_base f = Fin y"
  show "map cmd (left_wheel_joints (fst (fws_update env time period a b f))) = [Fin 0, Fin 0]"
    using fws_wheel_setpoints(1) [of f env time period a b] h z
      fws_limited_cmd_stale [OF stale, of env period]
    by (simp add: fws_vel_zero)
next
  assume stale: "cmd_vel_timeout f <
      toSec (time - stamp (if enable_twist_cmd f = False then command_four_wheel_steering f
                           else command f))"
    and h: "\<not> aborted f \<and> length (left_wheel_joints f) = 2 \<and> length (right_wheel_joints f) = 2"
    and z: "limiter_lin_limit env (Fin 0) (lin (last0_cmd f)) (lin (last1_cmd f)) (toSec period) = Fin 0 \<and>
          getAngular env (odometry (fst (fws_update env time period a b f))) = Fin 0 \<and>
          wheel_separation f = Fin x \<and> wheel_radius f = Fin r \<and> r \<noteq> 0 \<and> wheel_base f = Fin y"
  show "map cmd (right_wheel_joints (fst (fws_update env time period a b f))) = [Fin 0, Fin 0]"
    using fws_wheel_setpoints(2) [of f env time period a b] h z
      fws_limited_cmd_stale [OF stale, of env period]
    by (simp add: fws_vel_zero)
next
  assume stale: "cmd_vel_timeout f <
      toSec (time - stamp (if enable_twist_cmd f = False then command_four_wheel_steering f
                           else command f))"
    and h: "\<not> aborted f \<and> enable_twist_cmd f = False \<and>
       length (left_steering_joints f) = 2 \<and> length (right_steering_joints f) = 2"
  show "map cmd (left_steering_joints (fst (fws_update env time period a b f))) = [Fin 0, Fin 0]"
    using fws_stale_steering [of f time env period a b] stale h by simp
next
  assume stale: "cmd_vel_timeout f <
      toSec (time - stamp (if enable_twist_cmd f = False then command_four_wheel_steering f
                           else command f))"
    and h: "\<not> aborted f \<and> enable_twist_cmd f = False \<and>
       length (left_steering_joints f) = 2 \<and> length (right_steering_joints f) = 2"
  show "map cmd (right_steering_joints (fst (fws_update env time period a b f))) = [Fin 0, Fin 0]"
    using fws_stale_steering [of f time env period a b] stale h by simp
next
  assume stale: "cmd_vel_timeout f <
      toSec (time - stamp (if enable_twist_cmd f = False then command_four_wheel_steering f
                           else command f))"
    and h: "enable_twist_cmd f = False \<and> stamp d = stamp (command_four_wheel_steering f)"
  show "fws_update env time period a b (f\<lparr>command_four_wheel_steering := d\<rparr>) =
           ((fst (fws_update env time period a b f))\<lparr>command_four_wheel_steering := d\<rparr>,
            snd (fws_update env time period a b f))"
    using fws_stale_independent_axle [of f time d env period a b] stale h by simp
next
  assume stale: "cmd_vel_timeout f <
      toSec (time - stamp (if enable_twist_cmd f = False then command_four_wheel_steering f
                           else command f))"
    and h: "enable_twist_cmd f = True \<and> stamp d = stamp (command f)"
  show "fws_update env time period a b (f\<lparr>command := d\<rparr>) =
           ((fst (fws_update env time period a b f))\<lparr>command := d\<rparr>,
            snd (fws_update env time period a b f))"
    using fws_stale_independent_twist [of f time d env period a b] stale h by simp
qed


theorem stale_command_setpoints_witness:
  "cmd_vel_timeout ack_demo < toSec (2000000000 - stamp (command ack_demo)) \<and>
   \<not> aborted ack_demo \<and>
   length (left_wheel_joints ack_demo) = wheel_joints_size ack_demo \<and>
   length (right_wheel_joints ack_demo) = wheel_joints_size ack_demo \<and>
   0 < wheel_joints_size ack_demo \<and>
   limiter_lin_limit demo_env (Fin 0) (lin (last0_cmd ack_demo)) (lin (last1_cmd ack_demo))
     (toSec 10000000) = Fin 0 \<and>
   limiter_ang_limit demo_env (Fin 0) (ang (last0_cmd ack_demo)) (ang (last1_cmd ack_demo))
     (toSec 10000000) = Fin 0 \<and>
   wheel_separation_multiplier ack_demo * wheel_separation ack_demo = Fin (1 / 2) \<and>
   wheel_radius_multiplier ack_demo * wheel_radius ack_demo = Fin (1 / 10) \<and>
   stamp \<lparr>lin = Fin 2, ang = Fin (- 1), stamp = 1000000000\<rparr> = stamp (command ack_demo) \<and>
   ack_curr_cmd 2000000000 ack_demo = \<lparr>lin = Fin 0, ang = Fin 0, stamp = 1000000000\<rparr> \<and>
   last0_cmd (fst (ack_update demo_env 2000000000 10000000 True True ack_demo)) =
     \<lparr>lin = Fin 0, ang = Fin 0, stamp = 1000000000\<rparr> \<and>
   cmd (left_wheel_joints (fst (ack_update demo_env 2000000000 10000000 True True ack_demo)) ! 0) =
     Fin 0 \<and>
   cmd (right_wheel_joints (fst (ack_update demo_env 2000000000 10000000 True True ack_demo)) ! 0) =
     Fin 0 \<and>
   ack_update demo_env 2000000000 10000000 True True
       (ack_demo\<lparr>command := \<lparr>lin = Fin 2, ang = Fin (- 1), stamp = 1000000000\<rparr>\<rparr>) =
     ((fst (ack_update demo_env 2000000000 10000000 True True ack_demo))
        \<lparr>command := \<lparr>lin = Fin 2, ang = Fin (- 1), stamp = 1000000000\<rparr>\<rparr>,
      snd (ack_update demo_env 2000000000 10000000 True True ack_demo)) \<and>
   cmd_vel_timeout ack_coasting < toSec (2000000000 - stamp (command ack_coasting)) \<and>
   \<not> aborted ack_coasting \<and>
   length (left_wheel_joints ack_coasting) = wheel_joints_size ack_coasting \<and>
   length (right_wheel_joints ack_coasting) = wheel_joints_size ack_coasting \<and>
   0 < wheel_joints_size ack_coasting \<and>
   last0_cmd (fst (ack_update ramp_env 2000000000 10000000 True True ack_coasting)) =
     \<lparr>lin = Fin (9 / 10), ang = Fin 0, stamp = 1000000000\<rparr> \<and>
   cmd (left_wheel_joints (fst (ack_update ramp_env 2000000000 10000000 True True ack_coasting)) ! 0) =
     Fin 9 \<and>
   cmd (right_wheel_joints (fst (ack_update ramp_env 2000000000 10000000 True True ack_coasting)) ! 0) =
     Fin 9 \<and>
   cmd_vel_timeout fws_demo < toSec (2000000000 - stamp (command_four_wheel_steering fws_demo)) \<and>
   \<not> aborted fws_demo \<and> enable_twist_cmd fws_demo = False \<and>
   length (left_wheel_joints fws_demo) = 2 \<and> length (right_wheel_joints fws_demo) = 2 \<and>
   length (left_steering_joints fws_demo) = 2 \<and> length (right_steering_joints fws_demo) = 2 \<and>
   limiter_lin_limit demo_env (Fin 0) (lin (last0_cmd fws_demo)) (lin (last1_cmd fws_demo))
     (toSec 10000000) = Fin 0 \<and>
   getAngular demo_env (odometry (fst (fws_update demo_env 2000000000 10000000 True True fws_demo))) =
     Fin 0 \<and>
   wheel_separation fws_demo = Fin (1 / 2) \<and> wheel_radius fws_demo = Fin (1 / 10) \<and>
   wheel_base fws_demo = Fin 25 \<and>
   fws_curr_cmd 2000000000 fws_demo =
     \<lparr>lin = Fin 0, ang = Fin 0, stamp = 1000000000, front_steering = Fin 0, rear_steering = Fin 0\<rparr> \<and>
   last0_cmd (fst (fws_update demo_env 2000000000 10000000 True True fws_demo)) =
     \<lparr>lin = Fin 0, ang = Fin 0, stamp = 1000000000, front_steering = Fin 0, rear_steering = Fin 0\<rparr> \<and>
   map cmd (left_wheel_joints (fst (fws_update demo_env 2000000000 10000000 True True fws_demo))) =
     [Fin 0, Fin 0] \<and>
   map cmd (right_wheel_joints (fst (fws_update demo_env 2000000000 10000000 True True fws_demo))) =
     [Fin 0, Fin 0] \<and>
   map cmd (left_steering_joints (fst (fws_update demo_env 2000000000 10000000 True True fws_demo))) =
     [Fin 0, Fin 0] \<and>
   map cmd (right_steering_joints (fst (fws_update demo_env 2000000000 10000000 True True fws_demo))) =
     [Fin 0, Fin 0] \<and>
   snd (fws_update demo_env 2000000000 10000000 True True
          (fws_demo\<lparr>command_four_wheel_steering := Commands4_default\<lparr>stamp := 1000000000\<rparr>\<rparr>)) =
     snd (fws_update demo_env 2000000000 10000000 True True fws_demo) \<and>
   cmd_vel_timeout fws_turning <
     toSec (2000000000 - stamp (command_four_wheel_steering fws_turning)) \<and>
   \<not> aborted fws_turning \<and> enable_twist_cmd fws_turning = False \<and>
   length (left_wheel_joints fws_turning) = 2 \<and> length (right_wheel_joints fws_turning) = 2 \<and>
   getAngular demo_env (odometry (fst (fws_update demo_env 2000000000 10000000 True True fws_turning))) =
     Fin 1 \<and>
   map cmd (left_wheel_joints (fst (fws_update demo_env 2000000000 10000000 True True fws_turning))) ! 1 =
     Fin (- (5 / 2)) \<and>
   map cmd (right_wheel_joints (fst (fws_update demo_env 2000000000 10000000 True True fws_turning))) ! 1 =
     Fin (5 / 2) \<and>
   enable_twist_cmd fws_twist = True \<and>
   cmd_vel_timeout fws_twist < toSec (2000000000 - stamp (command fws_twist)) \<and>
   snd (fws_update demo_env 2000000000 10000000 True True
          (fws_twist\<lparr>command := Commands4_default\<lparr>stamp := 1000000000\<rparr>\<rparr>)) =
     snd (fws_update demo_env 2000000000 10000000 True True fws_twist)"
proof -
  have lim: "limiter_lin_limit demo_env = clamp2" "limiter_ang_limit demo_env = clamp2"
    "getAngular demo_env = est_angular"
    "limiter_lin_limit ramp_env = ramp10" "limiter_ang_limit ramp_env = ramp10"
    by (simp_all add: demo_env_def ramp_env_def)
  have cl: "\<And>u v w. clamp2 (Fin 0) u v w = Fin 0"
    by (simp add: clamp2_def)
  have rl: "ramp10 (Fin 0) (Fin 1) (Fin 0) (toSec 10000000) = Fin (9 / 10)"
    "ramp10 (Fin 0) (Fin 0) (Fin 0) (toSec 10000000) = Fin 0"
    by (simp_all add: ramp10_def toSec_def)
  have h: "cmd_vel_timeout ack_demo < toSec (2000000000 - stamp (command ack_demo))"
    "length (left_wheel_joints ack_demo) = wheel_joints_size ack_demo"
    "length (right_wheel_joints ack_demo) = wheel_joints_size ack_demo"
    "0 < wheel_joints_size ack_demo"
    "wheel_separation_multiplier ack_demo * wheel_separation ack_demo = Fin (1 / 2)"
    "wheel_radius_multiplier ack_demo * wheel_radius ack_demo = Fin (1 / 10)"
    "stamp (command ack_demo) = 1000000000"
    "command ack_demo = \<lparr>lin = Fin 1, ang = Fin 0, stamp = 1000000000\<rparr>"
    by (simp_all add: ack_demo_def toSec_def)
  have k: "cmd_vel_timeout ack_coasting < toSec (2000000000 - stamp (command ack_coasting))"
    "length (left_wheel_joints ack_coasting) = wheel_joints_size ack_coasting"
    "length (right_wheel_joints ack_coasting) = wheel_joints_size ack_coasting"
    "0 < wheel_joints_size ack_coasting"
    "wheel_separation_multiplier ack_coasting * wheel_separation ack_coasting = Fin (1 / 2)"
    "wheel_radius_multiplier ack_coasting * wheel_radius ack_coasting = Fin (1 / 10)"
    "command ack_coasting = \<lparr>lin = Fin 1, ang = Fin 0, stamp = 1000000000\<rparr>"
    "last0_cmd ack_coasting = \<lparr>lin = Fin 1, ang = Fin 0, stamp = 1000000000\<rparr>"
    "last1_cmd ack_coasting = \<lparr>lin = Fin 0, ang = Fin 0, stamp = 0\<rparr>"
    by (simp_all add: ack_coasting_def ack_demo_def toSec_def Commands_default_def)
  have g: "cmd_vel_timeout fws_demo < toSec (2000000000 - stamp (command_four_wheel_steering fws_demo))"
    "enable_twist_cmd fws_demo = False"
    "length (left_wheel_joints fws_demo) = 2" "length (right_wheel_joints fws_demo) = 2"
    "length (left_steering_joints fws_demo) = 2" "length (right_steering_joints fws_demo) = 2"
    "wheel_separation fws_demo = Fin (1 / 2)" "wheel_radius fws_demo = Fin (1 / 10)"
    "wheel_base fws_demo = Fin 25"
    "stamp (command_four_wheel_steering fws_demo) = 1000000000"
    "command_four_wheel_steering fws_demo =
        \<lparr>lin = Fin 1, ang = Fin 0, stamp = 1000000000,
         front_steering = Fin (3 / 10), rear_steering = Fin (- (2 / 10))\<rparr>"
    by (simp_all add: fws_demo_def toSec_def)
  have god: "odometry (fst (fws_update demo_env 2000000000 10000000 True True fws_demo)) =
      estimate_zero\<lparr>est_linear := Fin 25, est_angular := Fin 0, est_timestamp := 2000000000\<rparr>"
    by (simp add: fws_update_odometry_field [OF fws_demo_stale_odometry])
  have q: "cmd_vel_timeout fws_turning <
       toSec (2000000000 - stamp (command_four_wheel_steering fws_turning))"
    "enable_twist_cmd fws_turning = False"
    "length (left_wheel_joints fws_turning) = 2" "length (right_wheel_joints fws_turning) = 2"
    "wheel_separation fws_turning = Fin (1 / 2)" "wheel_radius fws_turning = Fin (1 / 10)"
    by (simp_all add: fws_turning_def fws_demo_def toSec_def)
  have qod: "odometry (fst (fws_update demo_env 2000000000 10000000 True True fws_turning)) =
      estimate_zero\<lparr>est_linear := Fin 25, est_angular := Fin 1, est_timestamp := 2000000000\<rparr>"
    by (simp add: fws_update_odometry_field [OF fws_turning_odometry])
  have w: "enable_twist_cmd fws_twist = True"
    "cmd_vel_timeout fws_twist < toSec (2000000000 - stamp (command fws_twist))"
    "stamp (command fws_twist) = 1000000000"
    by (simp_all add: fws_twist_def fws_demo_def toSec_def)
  note A = stale_command_setpoints [where s = ack_demo and time = 2000000000 and env = demo_env
      and period = 10000000 and a = True and b = True
      and c = "\<lparr>lin = Fin 2, ang = Fin (- 1), stamp = 1000000000\<rparr>"
      and x = "1 / 2" and r = "1 / 10" and y = 25
      and f = fws_demo and d = "Commands4_default\<lparr>stamp := 1000000000\<rparr>"]
  note B = stale_command_setpoints [where s = ack_coasting and time = 2000000000 and env = ramp_env
      and period = 10000000 and a = True and b = True, THEN conjunct1]
  note C = stale_command_setpoints [where time = 2000000000 and env = demo_env
      and period = 10000000 and a = True and b = True
      and f = fws_turning, THEN conjunct2]
  note D = stale_command_setpoints [where time = 2000000000 and env = demo_env
      and period = 10000000 and a = True and b = True
      and f = fws_twist and d = "Commands4_default\<lparr>stamp := 1000000000\<rparr>", THEN conjunct2]
  have A': "ack_curr_cmd 2000000000 ack_demo = \<lparr>lin = Fin 0, ang = Fin 0, stamp = 1000000000\<rparr> \<and>
     last0_cmd (fst (ack_update demo_env 2000000000 10000000 True True ack_demo)) =
       \<lparr>lin = Fin 0, ang = Fin 0, stamp = 1000000000\<rparr> \<and>
     cmd (left_wheel_joints (fst (ack_update demo_env 2000000000 10000000 True True ack_demo)) ! 0) =
       Fin 0 \<and>
     cmd (right_wheel_joints (fst (ack_update demo_env 2000000000 10000000 True True ack_demo)) ! 0) =
       Fin 0 \<and>
     ack_update demo_env 2000000000 10000000 True True
         (ack_demo\<lparr>command := \<lparr>lin = Fin 2, ang = Fin (- 1), stamp = 1000000000\<rparr>\<rparr>) =
       ((fst (ack_update demo_env 2000000000 10000000 True True ack_demo))
          \<lparr>command := \<lparr>lin = Fin 2, ang = Fin (- 1), stamp = 1000000000\<rparr>\<rparr>,
        snd (ack_update demo_env 2000000000 10000000 True True ack_demo))"
    using A [THEN conjunct1] h ack_demo_runs by (simp add: lim cl)
  have A'': "fws_curr_cmd 2000000000 fws_demo =
       \<lparr>lin = Fin 0, ang = Fin 0, stamp = 1000000000, front_steering = Fin 0, rear_steering = Fin 0\<rparr> \<and>
     last0_cmd (fst (fws_update demo_env 2000000000 10000000 True True fws_demo)) =
       \<lparr>lin = Fin 0, ang = Fin 0, stamp = 1000000000, front_steering = Fin 0, rear_steering = Fin 0\<rparr> \<and>
     map cmd (left_wheel_joints (fst (fws_update demo_env 2000000000 10000000 True True fws_demo))) =
       [Fin 0, Fin 0] \<and>
     map cmd (right_wheel_joints (fst (fws_update demo_env 2000000000 10000000 True True fws_demo))) =
       [Fin 0, Fin 0] \<and>
     map cmd (left_steering_joints (fst (fws_update demo_env 2000000000 10000000 True True fws_demo))) =
       [Fin 0, Fin 0] \<and>
     map cmd (right_steering_joints (fst (fws_update demo_env 2000000000 10000000 True True fws_demo))) =
       [Fin 0, Fin 0] \<and>
     snd (fws_update demo_env 2000000000 10000000 True True
            (fws_demo\<lparr>command_four_wheel_steering := Commands4_default\<lparr>stamp := 1000000000\<rparr>\<rparr>)) =
       snd (fws_update demo_env 2000000000 10000000 True True fws_demo)"
    using A [THEN conjunct2] g fws_demo_runs by (simp add: lim cl god)
  have B': "last0_cmd (fst (ack_update ramp_env 2000000000 10000000 True True ack_coasting)) =
       \<lparr>lin = Fin (9 / 10), ang = Fin 0, stamp = 1000000000\<rparr> \<and>
     cmd (left_wheel_joints (fst (ack_update ramp_env 2000000000 10000000 True True ack_coasting)) ! 0) =
       Fin 9 \<and>
     cmd (right_wheel_joints (fst (ack_update ramp_env 2000000000 10000000 True True ack_coasting)) ! 0) =
       Fin 9"
    using B k ack_coasting_runs by (simp add: lim rl)
  have C': "map cmd (left_wheel_joints (fst (fws_update demo_env 2000000000 10000000 True True fws_turning))) ! 1 =
       Fin (- (5 / 2)) \<and>
     map cmd (right_wheel_joints (fst (fws_update demo_env 2000000000 10000000 True True fws_turning))) ! 1 =
       Fin (5 / 2)"
    using C q fws_turning_runs by (simp add: lim cl qod)
  have D': "snd (fws_update demo_env 2000000000 10000000 True True
            (fws_twist\<lparr>command := Commands4_default\<lparr>stamp := 1000000000\<rparr>\<rparr>)) =
       snd (fws_update demo_env 2000000000 10000000 True True fws_twist)"
    using D w by simp
  show ?thesis
    using A' A'' B' C' D' h k g q w ack_demo_runs ack_coasting_runs fws_demo_runs fws_turning_runs
    by (simp add: lim cl god qod)
qed

end
